theory Spec2Isabelle
  imports Complex_Main
begin

section \<open>Numeric model\<close>

text \<open>
  The surfaces of \<^verbatim>\<open>astk/geom/surfaces.py\<close> compute with Python floats and numpy
  \<^verbatim>\<open>float64\<close> values. They are modelled by the real numbers: rounding is not modelled.
  What numpy does where the reals have no answer is kept: dividing a \<^verbatim>\<open>float64\<close> by zero
  does not raise, it gives \<^verbatim>\<open>inf\<close> or \<^verbatim>\<open>nan\<close>. Such a value is \<open>NonFinite\<close> below, and every
  arithmetic operation with a \<open>NonFinite\<close> operand is \<open>NonFinite\<close> again
  (\<^verbatim>\<open>nan + x\<close>, \<^verbatim>\<open>inf * 0\<close>, \<^verbatim>\<open>inf - inf\<close> are all \<^verbatim>\<open>inf\<close> or \<^verbatim>\<open>nan\<close>).
  Dividing a Python \<^verbatim>\<open>int\<close> by the \<^verbatim>\<open>int\<close> zero raises \<^verbatim>\<open>ZeroDivisionError\<close>.
\<close>

datatype error =
    AssertionError
  | IndexError
  | ValueError
  | ZeroDivisionError
  | NegativeWeightError
  | InvalidGeometryError

datatype 'a npval = Finite 'a | NonFinite

text \<open>A point or numpy row of three coordinates.\<close>

datatype vec3 = Vec3 (vx: real) (vy: real) (vz: real)

instantiation vec3 :: real_vector
begin

definition zero_vec3 :: vec3 where
  "zero_vec3 = Vec3 0 0 0"

definition plus_vec3 :: "vec3 \<Rightarrow> vec3 \<Rightarrow> vec3" where
  "plus_vec3 a b = Vec3 (vx a + vx b) (vy a + vy b) (vz a + vz b)"

definition uminus_vec3 :: "vec3 \<Rightarrow> vec3" where
  "uminus_vec3 a = Vec3 (- vx a) (- vy a) (- vz a)"

definition minus_vec3 :: "vec3 \<Rightarrow> vec3 \<Rightarrow> vec3" where
  "minus_vec3 a b = Vec3 (vx a - vx b) (vy a - vy b) (vz a - vz b)"

definition scaleR_vec3 :: "real \<Rightarrow> vec3 \<Rightarrow> vec3" where
  "scaleR_vec3 r a = Vec3 (r * vx a) (r * vy a) (r * vz a)"

instance
  by standard
    (simp_all add: zero_vec3_def plus_vec3_def uminus_vec3_def minus_vec3_def
      scaleR_vec3_def algebra_simps)

end

definition np_div :: "real \<Rightarrow> real \<Rightarrow> real npval" where
  "np_div a b = (if b = 0 then NonFinite else Finite (a / b))"

fun np_add :: "vec3 npval \<Rightarrow> vec3 npval \<Rightarrow> vec3 npval" where
  "np_add (Finite a) (Finite b) = Finite (a + b)"
| "np_add _ _ = NonFinite"


fun np_scale :: "real npval \<Rightarrow> vec3 npval \<Rightarrow> vec3 npval" where
  "np_scale (Finite r) (Finite a) = Finite (r *\<^sub>R a)"
| "np_scale _ _ = NonFinite"

fun np_div_vec :: "vec3 npval \<Rightarrow> real \<Rightarrow> vec3 npval" where
  "np_div_vec (Finite a) w = (if w = 0 then NonFinite else Finite ((1 / w) *\<^sub>R a))"
| "np_div_vec NonFinite w = NonFinite"

definition py_int_div :: "int \<Rightarrow> int \<Rightarrow> error + real" where
  "py_int_div a b = (if b = 0 then Inl ZeroDivisionError else Inr (real_of_int a / real_of_int b))"

text \<open>
  A numpy array has a dtype, and \<^verbatim>\<open>RationalBezierSurface.__init__\<close> keeps the weight array
  it is given as it is, without a conversion: the array of a surface is a \<^verbatim>\<open>float64\<close> array
  or an integer array, as the caller built it. \<open>Int64\<close> stands for the integer dtypes.
  Entries of an \<open>Int64\<close> array are whole numbers.

  \<open>astype dt w\<close> is what an assignment \<^verbatim>\<open>array[i][j] = w\<close> leaves in an array of dtype \<open>dt\<close>:
  a \<^verbatim>\<open>float64\<close> array keeps \<open>w\<close>, an integer array keeps \<open>w\<close> truncated toward zero. For a
  value outside the range of \<^verbatim>\<open>int64\<close> the conversion is that of the processor; the model
  takes the result on x86-64, the least \<^verbatim>\<open>int64\<close>.

  \<open>np_subtract dt a b\<close> is \<^verbatim>\<open>a - b\<close> for two entries of one array of dtype \<open>dt\<close>: the
  difference of two \<^verbatim>\<open>int64\<close> scalars is an \<^verbatim>\<open>int64\<close> that wraps around.
\<close>

datatype dtype = Float64 | Int64

definition int64_of_real :: "real \<Rightarrow> int" where
  "int64_of_real w =
     (let k = (if 0 \<le> w then \<lfloor>w\<rfloor> else \<lceil>w\<rceil>)
      in if - (2 ^ 63) \<le> k \<and> k < 2 ^ 63 then k else - (2 ^ 63))"

definition astype :: "dtype \<Rightarrow> real \<Rightarrow> real" where
  "astype dt w = (case dt of Float64 \<Rightarrow> w | Int64 \<Rightarrow> real_of_int (int64_of_real w))"

definition np_subtract :: "dtype \<Rightarrow> real \<Rightarrow> real \<Rightarrow> real" where
  "np_subtract dt a b =
     (case dt of
        Float64 \<Rightarrow> a - b
      | Int64 \<Rightarrow> real_of_int ((\<lfloor>a\<rfloor> - \<lfloor>b\<rfloor> + 2 ^ 63) mod 2 ^ 64 - 2 ^ 63))"

section \<open>Python sequences\<close>

text \<open>
  \<^verbatim>\<open>xs[k]\<close> and \<^verbatim>\<open>xs[k] = v\<close>: a negative index counts from the end, an index out of
  range raises \<^verbatim>\<open>IndexError\<close>.
\<close>

definition py_index :: "'a list \<Rightarrow> int \<Rightarrow> error + 'a" where
  "py_index xs k =
     (let n = int (length xs); j = (if k < 0 then n + k else k)
      in if 0 \<le> j \<and> j < n then Inr (xs ! nat j) else Inl IndexError)"

definition py_store :: "'a list \<Rightarrow> int \<Rightarrow> 'a \<Rightarrow> error + 'a list" where
  "py_store xs k v =
     (let n = int (length xs); j = (if k < 0 then n + k else k)
      in if 0 \<le> j \<and> j < n then Inr (xs[nat j := v]) else Inl IndexError)"

text \<open>\<^verbatim>\<open>g[a][b]\<close> and \<^verbatim>\<open>g[a][b] = v\<close> on a list of lists or a two-dimensional array.\<close>

definition grid_index :: "'a list list \<Rightarrow> int \<Rightarrow> int \<Rightarrow> error + 'a" where
  "grid_index g a b = (case py_index g a of Inl e \<Rightarrow> Inl e | Inr row \<Rightarrow> py_index row b)"

definition grid_store :: "'a list list \<Rightarrow> int \<Rightarrow> int \<Rightarrow> 'a \<Rightarrow> error + 'a list list" where
  "grid_store g a b v =
     (case py_index g a of
        Inl e \<Rightarrow> Inl e
      | Inr row \<Rightarrow>
          (case py_store row b v of
             Inl e \<Rightarrow> Inl e
           | Inr row' \<Rightarrow> py_store g a row'))"

text \<open>A list comprehension whose elements may raise: the first error, or all the values.\<close>

fun collect :: "(error + 'a) list \<Rightarrow> error + 'a list" where
  "collect [] = Inr []"
| "collect (Inl e # rest) = Inl e"
| "collect (Inr x # rest) = (case collect rest of Inl e \<Rightarrow> Inl e | Inr xs \<Rightarrow> Inr (x # xs))"

text \<open>
  \<^verbatim>\<open>np.array\<close> of a list of rows needs rows of one length (else \<^verbatim>\<open>ValueError\<close>), and
  \<^verbatim>\<open>P.shape[2]\<close> needs a row that is not empty (else \<^verbatim>\<open>IndexError\<close>).
\<close>

definition rectangular :: "'a list list \<Rightarrow> bool" where
  "rectangular g = list_all (\<lambda>row. length row = length (hd g)) g"

definition get_control_point_array :: "'a list list \<Rightarrow> error + 'a list list" where
  "get_control_point_array pts =
     (if \<not> rectangular pts then Inl ValueError
      else if pts = [] \<or> hd pts = [] then Inl IndexError
      else Inr pts)"

section \<open>Bernstein basis\<close>

text \<open>
  Modelled from the spec: \<^verbatim>\<open>astk.utils.math.bernstein_poly\<close> is imported by
  \<^verbatim>\<open>surfaces.py\<close> and is not part of the sources at hand. The spec gives it in closed form,
  \<open>B(n,i,t) = C(n,i) t^i (1-t)^(n-i)\<close>, zero outside \<open>0 \<le> i \<le> n\<close>.
\<close>

definition bernstein_poly :: "int \<Rightarrow> int \<Rightarrow> real \<Rightarrow> real" where
  "bernstein_poly n i t =
     (if i < 0 \<or> n < i then 0
      else real (nat n choose nat i) * t ^ nat i * (1 - t) ^ nat (n - i))"

section \<open>BezierSurface\<close>

datatype SurfaceEdge = North | South | East | West

record BezierSurface =
  bz_points :: "vec3 list list"
  bz_degree_u :: int
  bz_degree_v :: int
  bz_Nu :: int
  bz_Nv :: int

text \<open>\<^verbatim>\<open>BezierSurface.__init__\<close>; \<^verbatim>\<open>points[0]\<close> of an empty list raises.\<close>

definition BezierSurface_init :: "vec3 list list \<Rightarrow> error + BezierSurface" where
  "BezierSurface_init pts =
     (case py_index pts 0 of
        Inl e \<Rightarrow> Inl e
      | Inr row0 \<Rightarrow>
          Inr \<lparr> bz_points = pts,
                bz_degree_u = int (length pts) - 1,
                bz_degree_v = int (length row0) - 1,
                bz_Nu = (int (length pts) - 1) + 1,
                bz_Nv = (int (length row0) - 1) + 1 \<rparr>)"

text \<open>\<^verbatim>\<open>for k in range(n)\<close>.\<close>

definition py_range :: "int \<Rightarrow> nat list" where
  "py_range n = [0..<nat n]"

definition BezierSurface_evaluate_ndarray :: "BezierSurface \<Rightarrow> real \<Rightarrow> real \<Rightarrow> error + vec3" where
  "BezierSurface_evaluate_ndarray self u v =
     (case get_control_point_array (bz_points self) of
        Inl e \<Rightarrow> Inl e
      | Inr P \<Rightarrow>
          Inr (fold (\<lambda>i point.
                 fold (\<lambda>j point.
                   let Bu = bernstein_poly (bz_degree_u self) (int i) u;
                       Bv = bernstein_poly (bz_degree_v self) (int j) v;
                       BuBv = Bu * Bv
                   in point + BuBv *\<^sub>R (P ! i ! j))
                 (py_range (bz_degree_v self + 1)) point)
               (py_range (bz_degree_u self + 1)) 0))"

section \<open>RationalBezierSurface\<close>

record RationalBezierSurface =
  rb_points :: "vec3 npval list list"
  rb_weights :: "real list list"
  rb_weights_dtype :: dtype
  rb_knots_u :: "real list"
  rb_knots_v :: "real list"
  rb_degree_u :: int
  rb_degree_v :: int
  rb_Nu :: int
  rb_Nv :: int

text \<open>
  \<open>rb_weights\<close> and \<open>rb_weights_dtype\<close> are the entries and the dtype of the numpy array
  \<^verbatim>\<open>self.weights\<close>; the entries are finite numbers. \<open>rb_points\<close> is the list of lists of
  \<^verbatim>\<open>Point3D\<close> objects \<^verbatim>\<open>self.points\<close>, which has no dtype.
\<close>

text \<open>
  A weight array is a list of rows. \<^verbatim>\<open>weights.ndim == 2\<close> holds of a non-empty list of rows of
  one length; \<^verbatim>\<open>weights.shape\<close> is then the number of rows and the length of a row.
\<close>

definition ndim2 :: "'a list list \<Rightarrow> bool" where
  "ndim2 w = (w \<noteq> [] \<and> rectangular w)"

definition shape0 :: "'a list list \<Rightarrow> int" where
  "shape0 w = int (length w)"

definition shape1 :: "'a list list \<Rightarrow> int" where
  "shape1 w = int (length (hd w))"

text \<open>The negative weight check of both constructors: the two nested loops that raise.\<close>

definition has_negative_weight :: "real list list \<Rightarrow> bool" where
  "has_negative_weight weights = list_ex (\<lambda>weight_row. list_ex (\<lambda>weight. weight < 0) weight_row) weights"

text \<open>
  \<^verbatim>\<open>RationalBezierSurface.__init__\<close>, called with an array of control points that numpy has
  computed (its entries may be \<^verbatim>\<open>inf\<close> or \<^verbatim>\<open>nan\<close>) and a weight array of dtype \<open>dt\<close> with
  the entries \<open>weights\<close>. The knot vectors are built from the grid, so the two assertions on
  their lengths are kept as the code has them. \<^verbatim>\<open>self.weights = weights\<close> keeps the array,
  its dtype included.
\<close>

definition RationalBezierSurface_init_dtype ::
  "dtype \<Rightarrow> vec3 npval list list \<Rightarrow> real list list \<Rightarrow> error + RationalBezierSurface" where
  "RationalBezierSurface_init_dtype dt pts weights =
     (case py_index pts 0 of
        Inl e \<Rightarrow> Inl e
      | Inr row0 \<Rightarrow>
          (let knots_u = replicate (length pts) 0 @ replicate (length pts) 1;
               knots_v = replicate (length row0) 0 @ replicate (length row0) 1;
               degree_u = int (length pts) - 1;
               degree_v = int (length row0) - 1
           in if \<not> ndim2 weights then Inl AssertionError
              else if int (length knots_u) \<noteq> int (length pts) + degree_u + 1 then Inl AssertionError
              else if int (length knots_v) \<noteq> int (length row0) + degree_v + 1 then Inl AssertionError
              else if int (length pts) \<noteq> shape0 weights then Inl AssertionError
              else if int (length row0) \<noteq> shape1 weights then Inl AssertionError
              else if has_negative_weight weights then Inl NegativeWeightError
              else Inr \<lparr> rb_points = pts,
                         rb_weights = weights,
                         rb_weights_dtype = dt,
                         rb_knots_u = knots_u,
                         rb_knots_v = knots_v,
                         rb_degree_u = degree_u,
                         rb_degree_v = degree_v,
                         rb_Nu = int (length pts),
                         rb_Nv = int (length row0) \<rparr>))"

text \<open>The constructor called with a \<^verbatim>\<open>float64\<close> weight array.\<close>

definition RationalBezierSurface_init_ndarray ::
  "vec3 npval list list \<Rightarrow> real list list \<Rightarrow> error + RationalBezierSurface" where
  "RationalBezierSurface_init_ndarray pts weights =
     RationalBezierSurface_init_dtype Float64 pts weights"

text \<open>The constructor called with control points that are given: they are finite.\<close>

definition RationalBezierSurface_init ::
  "vec3 list list \<Rightarrow> real list list \<Rightarrow> error + RationalBezierSurface" where
  "RationalBezierSurface_init pts weights =
     RationalBezierSurface_init_ndarray (map (map Finite) pts) weights"

definition RationalBezierSurface_evaluate_ndarray ::
  "RationalBezierSurface \<Rightarrow> real \<Rightarrow> real \<Rightarrow> error + vec3 npval" where
  "RationalBezierSurface_evaluate_ndarray self u v =
     (case get_control_point_array (rb_points self) of
        Inl e \<Rightarrow> Inl e
      | Inr P \<Rightarrow>
          (let (point, wBuBv_sum) =
                 fold (\<lambda>i acc.
                   fold (\<lambda>j (point, wBuBv_sum).
                     let Bu = bernstein_poly (rb_degree_u self) (int i) u;
                         Bv = bernstein_poly (rb_degree_v self) (int j) v;
                         wBuBv = Bu * Bv * (rb_weights self ! i ! j)
                     in (np_add point (np_scale (Finite wBuBv) (P ! i ! j)), wBuBv_sum + wBuBv))
                   (py_range (rb_Nv self)) acc)
                 (py_range (rb_Nu self)) (Finite 0, 0)
           in Inr (np_div_vec point wBuBv_sum)))"

section \<open>Example data\<close>

text \<open>Small patches on which the theorems below are run.\<close>

definition zero_weight_patch :: RationalBezierSurface where
  "zero_weight_patch =
     \<lparr> rb_points = [[Finite (Vec3 1 2 3)]], rb_weights = [[0]], rb_weights_dtype = Float64,
       rb_knots_u = [0, 1], rb_knots_v = [0, 1],
       rb_degree_u = 0, rb_degree_v = 0, rb_Nu = 1, rb_Nv = 1 \<rparr>"

definition example_grid :: "vec3 list list" where
  "example_grid = [[Vec3 0 0 0, Vec3 0 1 0, Vec3 0 2 1], [Vec3 1 0 0, Vec3 1 1 2, Vec3 1 2 5]]"

definition example_weights :: "real list list" where
  "example_weights = [[1, 2, 3], [4, 5, 6]]"

definition example_bezier :: BezierSurface where
  "example_bezier = \<lparr> bz_points = example_grid, bz_degree_u = 1, bz_degree_v = 2, bz_Nu = 2, bz_Nv = 3 \<rparr>"

definition example_rational :: RationalBezierSurface where
  "example_rational =
     \<lparr> rb_points = map (map Finite) example_grid, rb_weights = example_weights, rb_weights_dtype = Float64,
       rb_knots_u = [0, 0, 1, 1], rb_knots_v = [0, 0, 0, 1, 1, 1],
       rb_degree_u = 1, rb_degree_v = 2, rb_Nu = 2, rb_Nv = 3 \<rparr>"

definition unit_weights :: "real list list" where
  "unit_weights = [[1, 1, 1], [1, 1, 1]]"

definition example_unit_rational :: RationalBezierSurface where
  "example_unit_rational =
     \<lparr> rb_points = map (map Finite) example_grid, rb_weights = unit_weights, rb_weights_dtype = Float64,
       rb_knots_u = [0, 0, 1, 1], rb_knots_v = [0, 0, 0, 1, 1, 1],
       rb_degree_u = 1, rb_degree_v = 2, rb_Nu = 2, rb_Nv = 3 \<rparr>"

section \<open>NURBSSurface\<close>

record NURBSSurface =
  nb_control_points :: "vec3 list list"
  nb_knots_u :: "real list"
  nb_knots_v :: "real list"
  nb_weights :: "real list list"
  nb_degree_u :: int
  nb_degree_v :: int
  nb_Nu :: int
  nb_Nv :: int
  nb_possible_spans_u :: "(real \<times> real) list"
  nb_possible_span_indices_u :: "nat list"
  nb_possible_spans_v :: "(real \<times> real) list"
  nb_possible_span_indices_v :: "nat list"

text \<open>
  \<^verbatim>\<open>NURBSSurface._get_possible_spans\<close>: the loop over the pairs of neighbouring knots, which
  skips a pair of equal knots and appends the index and the pair otherwise. A span
  \<^verbatim>\<open>[knot_1, knot_2]\<close> is a pair here.
\<close>

definition get_possible_spans :: "real list \<Rightarrow> (real \<times> real) list \<times> nat list" where
  "get_possible_spans knot_vector =
     fold (\<lambda>(knot_idx, (knot_1, knot_2)) (possible_spans, possible_span_indices).
            if knot_1 = knot_2 then (possible_spans, possible_span_indices)
            else (possible_spans @ [(knot_1, knot_2)], possible_span_indices @ [knot_idx]))
          (enumerate 0 (zip (butlast knot_vector) (tl knot_vector)))
          ([], [])"

text \<open>
  \<^verbatim>\<open>NURBSSurface.__init__\<close>. The control points are a three-dimensional array, here a
  non-empty list of rows of one length whose entries have three coordinates; the knot
  vectors are one-dimensional by their type.
\<close>

definition NURBSSurface_init ::
  "vec3 list list \<Rightarrow> real list \<Rightarrow> real list \<Rightarrow> real list list \<Rightarrow> int \<Rightarrow> int
     \<Rightarrow> error + NURBSSurface" where
  "NURBSSurface_init control_points knots_u knots_v weights degree_u degree_v =
     (if \<not> ndim2 control_points then Inl AssertionError
      else if \<not> ndim2 weights then Inl AssertionError
      else if int (length knots_u) \<noteq> shape0 control_points + degree_u + 1 then Inl AssertionError
      else if int (length knots_v) \<noteq> shape1 control_points + degree_v + 1 then Inl AssertionError
      else if (shape0 control_points, shape1 control_points) \<noteq> (shape0 weights, shape1 weights)
        then Inl AssertionError
      else if has_negative_weight weights then Inl NegativeWeightError
      else Inr \<lparr> nb_control_points = control_points,
                 nb_knots_u = knots_u,
                 nb_knots_v = knots_v,
                 nb_weights = weights,
                 nb_degree_u = degree_u,
                 nb_degree_v = degree_v,
                 nb_Nu = shape0 control_points,
                 nb_Nv = shape1 control_points,
                 nb_possible_spans_u = fst (get_possible_spans knots_u),
                 nb_possible_span_indices_u = snd (get_possible_spans knots_u),
                 nb_possible_spans_v = fst (get_possible_spans knots_v),
                 nb_possible_span_indices_v = snd (get_possible_spans knots_v) \<rparr>)"

text \<open>
  \<^verbatim>\<open>NURBSSurface._find_span\<close>: the first span with \<^verbatim>\<open>knot_span[0] <= t < knot_span[1]\<close>;
  failing that, the last span's index when \<open>t\<close> is its upper knot; failing that the
  function falls off its end and returns \<^verbatim>\<open>None\<close>. Reading the last span of an empty array
  raises.
\<close>

fun find_span_loop :: "real \<Rightarrow> ((real \<times> real) \<times> nat) list \<Rightarrow> nat option" where
  "find_span_loop t [] = None"
| "find_span_loop t ((knot_span, knot_span_idx) # rest) =
     (if fst knot_span \<le> t \<and> t < snd knot_span then Some knot_span_idx
      else find_span_loop t rest)"

definition find_span :: "real \<Rightarrow> (real \<times> real) list \<Rightarrow> nat list \<Rightarrow> error + nat option" where
  "find_span t possible_spans possible_span_indices =
     (case find_span_loop t (zip possible_spans possible_span_indices) of
        Some idx \<Rightarrow> Inr (Some idx)
      | None \<Rightarrow>
          (case py_index possible_spans (- 1) of
             Inl e \<Rightarrow> Inl e
           | Inr last_span \<Rightarrow>
               if t = snd last_span
               then (case py_index possible_span_indices (- 1) of
                       Inl e \<Rightarrow> Inl e
                     | Inr idx \<Rightarrow> Inr (Some idx))
               else Inr None))"

text \<open>
  \<^verbatim>\<open>NURBSSurface._cox_de_boor\<close>. A quotient that numpy computes as \<^verbatim>\<open>inf\<close> or \<^verbatim>\<open>nan\<close> is
  replaced by zero. The knots read are at \<open>i\<close>, \<open>i + p\<close>, \<open>i + p + 1\<close> and \<open>i + 1\<close>, none
  negative, so one of the reads raises \<^verbatim>\<open>IndexError\<close> exactly when \<open>i + p + 1\<close> is past the
  end of the knot vector, and that happens before any recursive call.
\<close>

definition zero_if_nonfinite :: "real npval \<Rightarrow> real" where
  "zero_if_nonfinite x = (case x of Finite r \<Rightarrow> r | NonFinite \<Rightarrow> 0)"

fun cox_de_boor ::
  "real \<Rightarrow> nat \<Rightarrow> nat \<Rightarrow> real list \<Rightarrow> (real \<times> real) list \<Rightarrow> nat list \<Rightarrow> error + real" where
  "cox_de_boor t i 0 knot_vector spans span_indices =
     (if i \<in> set span_indices
      then (case find_span t spans span_indices of
              Inl e \<Rightarrow> Inl e
            | Inr r \<Rightarrow> Inr (if r = Some i then 1 else 0))
      else Inr 0)"
| "cox_de_boor t i (Suc q) knot_vector spans span_indices =
     (if length knot_vector \<le> i + Suc q + 1 then Inl IndexError
      else
        let f = zero_if_nonfinite
                  (np_div (t - knot_vector ! i) (knot_vector ! (i + Suc q) - knot_vector ! i));
            g = zero_if_nonfinite
                  (np_div (knot_vector ! (i + Suc q + 1) - t)
                          (knot_vector ! (i + Suc q + 1) - knot_vector ! (i + 1)))
        in if f = 0 \<and> g = 0 then Inr 0
           else if f \<noteq> 0 \<and> g = 0 then
             (case cox_de_boor t i q knot_vector spans span_indices of
                Inl e \<Rightarrow> Inl e
              | Inr a \<Rightarrow> Inr (f * a))
           else if f = 0 \<and> g \<noteq> 0 then
             (case cox_de_boor t (i + 1) q knot_vector spans span_indices of
                Inl e \<Rightarrow> Inl e
              | Inr b \<Rightarrow> Inr (g * b))
           else
             (case cox_de_boor t i q knot_vector spans span_indices of
                Inl e \<Rightarrow> Inl e
              | Inr a \<Rightarrow>
                  (case cox_de_boor t (i + 1) q knot_vector spans span_indices of
                     Inl e \<Rightarrow> Inl e
                   | Inr b \<Rightarrow> Inr (f * a + g * b))))"

definition basis_functions ::
  "real \<Rightarrow> nat \<Rightarrow> real list \<Rightarrow> int \<Rightarrow> (real \<times> real) list \<Rightarrow> nat list \<Rightarrow> error + real list" where
  "basis_functions t p knot_vector n_control_points spans span_indices =
     collect (map (\<lambda>i. cox_de_boor t i p knot_vector spans span_indices)
                  (py_range n_control_points))"

section \<open>Edge addressing and continuity enforcement\<close>

text \<open>
  \<^verbatim>\<open>get_point\<close>, \<^verbatim>\<open>set_point\<close>, \<^verbatim>\<open>get_weight\<close> and \<^verbatim>\<open>set_weight\<close> have one body in the source,
  repeated for the point grid and the weight grid of each class: \<open>edge_get\<close> and \<open>edge_set\<close>.
  The final \<^verbatim>\<open>else: raise ValueError\<close> cannot be reached with a \<open>SurfaceEdge\<close>. Row and
  continuity indices come from \<^verbatim>\<open>range\<close> and from the literals 0, 1, 2, so they are natural
  numbers; the indices \<^verbatim>\<open>-(continuity_index + 1)\<close> are negative.
\<close>

definition edge_get :: "'a list list \<Rightarrow> nat \<Rightarrow> nat \<Rightarrow> SurfaceEdge \<Rightarrow> error + 'a" where
  "edge_get g row_index continuity_index surface_edge =
     (case surface_edge of
        North \<Rightarrow> grid_index g (int row_index) (- (int continuity_index + 1))
      | South \<Rightarrow> grid_index g (int row_index) (int continuity_index)
      | East \<Rightarrow> grid_index g (- (int continuity_index + 1)) (int row_index)
      | West \<Rightarrow> grid_index g (int continuity_index) (int row_index))"

definition edge_set :: "'a list list \<Rightarrow> 'a \<Rightarrow> nat \<Rightarrow> nat \<Rightarrow> SurfaceEdge \<Rightarrow> error + 'a list list" where
  "edge_set g x row_index continuity_index surface_edge =
     (case surface_edge of
        North \<Rightarrow> grid_store g (int row_index) (- (int continuity_index + 1)) x
      | South \<Rightarrow> grid_store g (int row_index) (int continuity_index) x
      | East \<Rightarrow> grid_store g (- (int continuity_index + 1)) (int row_index) x
      | West \<Rightarrow> grid_store g (int continuity_index) (int row_index) x)"

text \<open>
  An operation that mutates a surface in place returns either the surface it leaves behind,
  or the exception it raised together with the surface as the exception left it.
\<close>

type_synonym 's outcome = "(error \<times> 's) + 's"

definition or_raise :: "error + 'a \<Rightarrow> 's \<Rightarrow> ('a \<Rightarrow> 's outcome) \<Rightarrow> 's outcome" where
  "or_raise r s k = (case r of Inl e \<Rightarrow> Inl (e, s) | Inr x \<Rightarrow> k x)"

text \<open>\<^verbatim>\<open>for row_index in range(...)\<close> with a body that may raise.\<close>

fun for_rows :: "(nat \<Rightarrow> 's \<Rightarrow> 's outcome) \<Rightarrow> nat list \<Rightarrow> 's \<Rightarrow> 's outcome" where
  "for_rows body [] s = Inr s"
| "for_rows body (row_index # rest) s =
     (case body row_index s of Inl es \<Rightarrow> Inl es | Inr s' \<Rightarrow> for_rows body rest s')"

subsection \<open>BezierSurface\<close>

definition BezierSurface_get_parallel_degree :: "BezierSurface \<Rightarrow> SurfaceEdge \<Rightarrow> int" where
  "BezierSurface_get_parallel_degree self surface_edge =
     (if surface_edge \<in> set [North, South] then bz_degree_u self else bz_degree_v self)"

definition BezierSurface_get_perpendicular_degree :: "BezierSurface \<Rightarrow> SurfaceEdge \<Rightarrow> int" where
  "BezierSurface_get_perpendicular_degree self surface_edge =
     (if surface_edge \<in> set [North, South] then bz_degree_v self else bz_degree_u self)"

definition BezierSurface_get_point ::
  "BezierSurface \<Rightarrow> nat \<Rightarrow> nat \<Rightarrow> SurfaceEdge \<Rightarrow> error + vec3" where
  "BezierSurface_get_point self row_index continuity_index surface_edge =
     edge_get (bz_points self) row_index continuity_index surface_edge"

definition BezierSurface_set_point ::
  "BezierSurface \<Rightarrow> vec3 \<Rightarrow> nat \<Rightarrow> nat \<Rightarrow> SurfaceEdge \<Rightarrow> error + BezierSurface" where
  "BezierSurface_set_point self point row_index continuity_index surface_edge =
     (case edge_set (bz_points self) point row_index continuity_index surface_edge of
        Inl e \<Rightarrow> Inl e
      | Inr g \<Rightarrow> Inr (self\<lparr>bz_points := g\<rparr>))"

definition BezierSurface_enforce_g0 ::
  "BezierSurface \<Rightarrow> BezierSurface \<Rightarrow> SurfaceEdge \<Rightarrow> SurfaceEdge \<Rightarrow> BezierSurface outcome" where
  "BezierSurface_enforce_g0 self other surface_edge other_surface_edge =
     (if BezierSurface_get_parallel_degree self surface_edge
           \<noteq> BezierSurface_get_parallel_degree other other_surface_edge
      then Inl (AssertionError, self)
      else for_rows
             (\<lambda>row_index self.
                or_raise (BezierSurface_get_point other row_index 0 other_surface_edge) self (\<lambda>point.
                or_raise (BezierSurface_set_point self point row_index 0 surface_edge) self Inr))
             (py_range (BezierSurface_get_parallel_degree self surface_edge + 1)) self)"

definition BezierSurface_enforce_g0g1 ::
  "BezierSurface \<Rightarrow> BezierSurface \<Rightarrow> real \<Rightarrow> SurfaceEdge \<Rightarrow> SurfaceEdge \<Rightarrow> BezierSurface outcome" where
  "BezierSurface_enforce_g0g1 self other f surface_edge other_surface_edge =
     (case BezierSurface_enforce_g0 self other surface_edge other_surface_edge of
        Inl es \<Rightarrow> Inl es
      | Inr self \<Rightarrow>
          or_raise (py_int_div (BezierSurface_get_perpendicular_degree other other_surface_edge)
                               (BezierSurface_get_perpendicular_degree self surface_edge)) self (\<lambda>n_ratio.
          for_rows
            (\<lambda>row_index self.
               or_raise (BezierSurface_get_point self row_index 0 surface_edge) self (\<lambda>P_i0_b.
               or_raise (BezierSurface_get_point other row_index 0 other_surface_edge) self (\<lambda>P_im_a.
               or_raise (BezierSurface_get_point other row_index 1 other_surface_edge) self (\<lambda>P_im1_a.
               let P_i1_b = P_i0_b + (f * n_ratio) *\<^sub>R (P_im_a - P_im1_a)
               in or_raise (BezierSurface_set_point self P_i1_b row_index 1 surface_edge) self Inr))))
            (py_range (BezierSurface_get_parallel_degree self surface_edge + 1)) self))"

text \<open>
  \<^verbatim>\<open>dSdu\<close> and \<^verbatim>\<open>dSdv\<close>, and the first derivative across an edge at a parameter along it:
  the element that \<^verbatim>\<open>get_first_derivs_along_edge(edge, n_points, perp=True)\<close> computes for a
  sample \<open>t\<close> of \<^verbatim>\<open>np.linspace(0.0, 1.0, n_points)\<close>.
\<close>

definition BezierSurface_dSdu :: "BezierSurface \<Rightarrow> real \<Rightarrow> real \<Rightarrow> error + vec3" where
  "BezierSurface_dSdu self u v =
     (case get_control_point_array (bz_points self) of
        Inl e \<Rightarrow> Inl e
      | Inr P \<Rightarrow>
          Inr (fold (\<lambda>i deriv_u.
                 fold (\<lambda>j deriv_u.
                   let dbudu = real_of_int (bz_degree_u self)
                                 * (bernstein_poly (bz_degree_u self - 1) (int i - 1) u
                                    - bernstein_poly (bz_degree_u self - 1) (int i) u);
                       bv = bernstein_poly (bz_degree_v self) (int j) v;
                       dbudubv = dbudu * bv
                   in deriv_u + dbudubv *\<^sub>R (P ! i ! j))
                 (py_range (bz_degree_v self + 1)) deriv_u)
               (py_range (bz_degree_u self + 1)) 0))"

definition BezierSurface_dSdv :: "BezierSurface \<Rightarrow> real \<Rightarrow> real \<Rightarrow> error + vec3" where
  "BezierSurface_dSdv self u v =
     (case get_control_point_array (bz_points self) of
        Inl e \<Rightarrow> Inl e
      | Inr P \<Rightarrow>
          Inr (fold (\<lambda>i deriv_v.
                 fold (\<lambda>j deriv_v.
                   let dbvdv = real_of_int (bz_degree_v self)
                                 * (bernstein_poly (bz_degree_v self - 1) (int j - 1) v
                                    - bernstein_poly (bz_degree_v self - 1) (int j) v);
                       bu = bernstein_poly (bz_degree_u self) (int i) u;
                       budbvdv = bu * dbvdv
                   in deriv_v + budbvdv *\<^sub>R (P ! i ! j))
                 (py_range (bz_degree_v self + 1)) deriv_v)
               (py_range (bz_degree_u self + 1)) 0))"

definition first_deriv_perp :: "BezierSurface \<Rightarrow> SurfaceEdge \<Rightarrow> real \<Rightarrow> error + vec3" where
  "first_deriv_perp self edge t =
     (case edge of
        North \<Rightarrow> BezierSurface_dSdv self t 1
      | South \<Rightarrow> BezierSurface_dSdv self t 0
      | East \<Rightarrow> BezierSurface_dSdu self 1 t
      | West \<Rightarrow> BezierSurface_dSdu self 0 t)"

text \<open>\<^verbatim>\<open>np.linspace(0.0, 1.0, n_points)\<close> for a positive number of points.\<close>

definition linspace01 :: "nat \<Rightarrow> real list" where
  "linspace01 n_points = map (\<lambda>k. real k / real (n_points - 1)) [0..<n_points]"

definition BezierSurface_get_first_derivs_along_edge ::
  "BezierSurface \<Rightarrow> SurfaceEdge \<Rightarrow> nat \<Rightarrow> error + vec3 list" where
  "BezierSurface_get_first_derivs_along_edge self edge n_points =
     collect (map (first_deriv_perp self edge) (linspace01 n_points))"

text \<open>
  The slot of a grid of \<open>Nu\<close> rows and \<open>Nv\<close> columns that a row index and a continuity index
  address on an edge, and the indices that lie on the edge.
\<close>

definition slot :: "nat \<Rightarrow> nat \<Rightarrow> nat \<Rightarrow> nat \<Rightarrow> SurfaceEdge \<Rightarrow> nat \<times> nat" where
  "slot Nu Nv r c e =
     (case e of
        North \<Rightarrow> (r, Nv - 1 - c)
      | South \<Rightarrow> (r, c)
      | East \<Rightarrow> (Nu - 1 - c, r)
      | West \<Rightarrow> (c, r))"

definition on_edge :: "nat \<Rightarrow> nat \<Rightarrow> nat \<Rightarrow> nat \<Rightarrow> SurfaceEdge \<Rightarrow> bool" where
  "on_edge Nu Nv r c e =
     (case e of
        North \<Rightarrow> r < Nu \<and> c < Nv
      | South \<Rightarrow> r < Nu \<and> c < Nv
      | East \<Rightarrow> r < Nv \<and> c < Nu
      | West \<Rightarrow> r < Nv \<and> c < Nu)"

definition grid_at :: "'a list list \<Rightarrow> nat \<times> nat \<Rightarrow> 'a" where
  "grid_at g ij = g ! fst ij ! snd ij"

definition grid_upd :: "'a list list \<Rightarrow> nat \<times> nat \<Rightarrow> 'a \<Rightarrow> 'a list list" where
  "grid_upd g ij x = g[fst ij := (g ! fst ij)[snd ij := x]]"

subsection \<open>RationalBezierSurface\<close>



definition RationalBezierSurface_get_point ::
  "RationalBezierSurface \<Rightarrow> nat \<Rightarrow> nat \<Rightarrow> SurfaceEdge \<Rightarrow> error + vec3 npval" where
  "RationalBezierSurface_get_point self row_index continuity_index surface_edge =
     edge_get (rb_points self) row_index continuity_index surface_edge"


definition RationalBezierSurface_get_weight ::
  "RationalBezierSurface \<Rightarrow> nat \<Rightarrow> nat \<Rightarrow> SurfaceEdge \<Rightarrow> error + real" where
  "RationalBezierSurface_get_weight self row_index continuity_index surface_edge =
     edge_get (rb_weights self) row_index continuity_index surface_edge"






subsection \<open>The class invariants\<close>

text \<open>
  What the constructors establish for a grid with at least one row and one column, and
  what the setters keep: the grids are rectangular, the weight grid has the shape of the
  point grid, and the degrees and counts are those of the grid.
\<close>

definition bz_inv :: "BezierSurface \<Rightarrow> bool" where
  "bz_inv S =
     (bz_points S \<noteq> [] \<and> hd (bz_points S) \<noteq> [] \<and> rectangular (bz_points S)
      \<and> bz_degree_u S = int (length (bz_points S)) - 1
      \<and> bz_degree_v S = int (length (hd (bz_points S))) - 1
      \<and> bz_Nu S = int (length (bz_points S))
      \<and> bz_Nv S = int (length (hd (bz_points S))))"

definition rb_inv :: "RationalBezierSurface \<Rightarrow> bool" where
  "rb_inv S =
     (rb_points S \<noteq> [] \<and> hd (rb_points S) \<noteq> [] \<and> rectangular (rb_points S)
      \<and> rectangular (rb_weights S)
      \<and> length (rb_weights S) = length (rb_points S)
      \<and> length (hd (rb_weights S)) = length (hd (rb_points S))
      \<and> rb_degree_u S = int (length (rb_points S)) - 1
      \<and> rb_degree_v S = int (length (hd (rb_points S))) - 1
      \<and> rb_Nu S = int (length (rb_points S))
      \<and> rb_Nv S = int (length (hd (rb_points S))))"

subsection \<open>Patches of one shape\<close>


definition bz_same_shape :: "BezierSurface \<Rightarrow> BezierSurface \<Rightarrow> bool" where
  "bz_same_shape S B =
     (length (bz_points S) = length (bz_points B)
      \<and> length (hd (bz_points S)) = length (hd (bz_points B)))"

subsection \<open>One row of the rational G1 enforcement\<close>


subsection \<open>The derivative across an edge\<close>

text \<open>North and East are the far boundaries of the grid, South and West the near ones.\<close>

definition far_edge :: "SurfaceEdge \<Rightarrow> bool" where
  "far_edge e = (e = North \<or> e = East)"

definition edge_sign :: "SurfaceEdge \<Rightarrow> real" where
  "edge_sign e = (if far_edge e then - 1 else 1)"

subsection \<open>Example patches for the G1 enforcement\<close>

definition square_patch :: BezierSurface where
  "square_patch =
     \<lparr> bz_points = [[Vec3 0 0 0, Vec3 0 1 0], [Vec3 1 0 0, Vec3 1 1 0]],
       bz_degree_u = 1, bz_degree_v = 1, bz_Nu = 2, bz_Nv = 2 \<rparr>"

definition other_patch :: BezierSurface where
  "other_patch =
     \<lparr> bz_points = [[Vec3 5 0 1, Vec3 5 1 2], [Vec3 7 0 3, Vec3 7 1 4]],
       bz_degree_u = 1, bz_degree_v = 1, bz_Nu = 2, bz_Nv = 2 \<rparr>"

definition other_patch_west_west :: BezierSurface where
  "other_patch_west_west =
     \<lparr> bz_points = [[Vec3 0 0 0, Vec3 0 1 0], [Vec3 (- 1) 0 0, Vec3 (- 1) 1 0]],
       bz_degree_u = 1, bz_degree_v = 1, bz_Nu = 2, bz_Nv = 2 \<rparr>"

definition point_patch :: "vec3 \<Rightarrow> BezierSurface" where
  "point_patch p =
     \<lparr> bz_points = [[p]], bz_degree_u = 0, bz_degree_v = 0, bz_Nu = 1, bz_Nv = 1 \<rparr>"

section \<open>The basis functions in closed form\<close>

text \<open>The knot spans of non-zero length, each with the index of its first knot.\<close>

definition span_list :: "real list \<Rightarrow> (nat \<times> real \<times> real) list" where
  "span_list kv = filter (\<lambda>(k, (a, b)). a \<noteq> b) (enumerate 0 (zip (butlast kv) (tl kv)))"

text \<open>
  The Cox-de Boor recursion as the spec writes it, to compare with what the code computes:
  a basis function of degree 0 is 1 on its half-open knot span, and
  \<open>N(i,p) = f * N(i,p-1) + g * N(i+1,p-1)\<close> with \<open>f = (t - k(i)) / (k(i+p) - k(i))\<close> and
  \<open>g = (k(i+p+1) - t) / (k(i+p+1) - k(i+1))\<close>, a quotient with denominator zero being zero.
\<close>

fun basis_value :: "real list \<Rightarrow> real \<Rightarrow> nat \<Rightarrow> nat \<Rightarrow> real" where
  "basis_value kv t i 0 = (if kv ! i \<le> t \<and> t < kv ! (i + 1) then 1 else 0)"
| "basis_value kv t i (Suc q) =
     (t - kv ! i) / (kv ! (i + Suc q) - kv ! i) * basis_value kv t i q
     + (kv ! (i + Suc q + 1) - t) / (kv ! (i + Suc q + 1) - kv ! (i + 1)) * basis_value kv t (i + 1) q"

text \<open>
  A clamped knot vector for degree \<open>p\<close>: the first knot and the last knot are each repeated
  \<open>p + 1\<close> times.
\<close>

definition clamped :: "nat \<Rightarrow> real list \<Rightarrow> bool" where
  "clamped p kv =
     (take (p + 1) kv = replicate (p + 1) (hd kv)
      \<and> drop (length kv - (p + 1)) kv = replicate (p + 1) (last kv))"

definition example_knots :: "real list" where
  "example_knots = [0, 0, 0, 1 / 2, 1, 1, 1]"

section \<open>Revolution builder\<close>

text \<open>
  Angles are their values in radians (\<^verbatim>\<open>Angle.rad\<close>), and \<^verbatim>\<open>np.pi\<close> is \<open>pi\<close>. For a positive
  divisor, Python's \<^verbatim>\<open>a % b\<close> on floats is \<open>a - b * floor (a / b)\<close> and \<^verbatim>\<open>int(a // b)\<close> is
  \<open>floor (a / b)\<close>. \<^verbatim>\<open>np.linspace(start, stop, num)\<close> raises \<^verbatim>\<open>ValueError\<close> for a negative \<open>num\<close>
  and returns \<open>num\<close> evenly spaced samples otherwise, one sample being \<open>start\<close> alone.
\<close>

definition py_float_mod :: "real \<Rightarrow> real \<Rightarrow> real" where
  "py_float_mod a b = a - b * of_int \<lfloor>a / b\<rfloor>"

definition py_float_floordiv :: "real \<Rightarrow> real \<Rightarrow> int" where
  "py_float_floordiv a b = \<lfloor>a / b\<rfloor>"

definition linspace :: "real \<Rightarrow> real \<Rightarrow> int \<Rightarrow> error + real list" where
  "linspace start stop num =
     (if num < 0 then Inl ValueError
      else Inr (map (\<lambda>k. start + real k * ((stop - start) / real_of_int (num - 1))) [0..<nat num]))"

text \<open>\<^verbatim>\<open>RationalBezierSurface.from_bezier_revolve._determine_angle_distribution\<close>.\<close>

definition RationalBezierSurface_determine_angle_distribution :: "real \<Rightarrow> real \<Rightarrow> error + real list" where
  "RationalBezierSurface_determine_angle_distribution start_angle end_angle =
     (let angle_diff = \<bar>end_angle - start_angle\<bar>
      in if angle_diff = 0 then Inl InvalidGeometryError
         else
           let N_angles =
                 (if py_float_mod angle_diff (0.5 * pi) = 0
                  then 2 * py_float_floordiv angle_diff (0.5 * pi) + 1
                  else 2 * py_float_floordiv angle_diff (0.5 * pi) + 3)
           in linspace start_angle end_angle N_angles)"

text \<open>
  \<^verbatim>\<open>NURBSSurface.from_bezier_revolve._determine_angle_distribution\<close>: the same lines, but the
  angle difference is taken without \<^verbatim>\<open>abs\<close>.
\<close>

definition NURBSSurface_determine_angle_distribution :: "real \<Rightarrow> real \<Rightarrow> error + real list" where
  "NURBSSurface_determine_angle_distribution start_angle end_angle =
     (let angle_diff = end_angle - start_angle
      in if angle_diff = 0 then Inl InvalidGeometryError
         else
           let N_angles =
                 (if py_float_mod angle_diff (0.5 * pi) = 0
                  then 2 * py_float_floordiv angle_diff (0.5 * pi) + 1
                  else 2 * py_float_floordiv angle_diff (0.5 * pi) + 3)
           in linspace start_angle end_angle N_angles)"

text \<open>
  The helpers of \<^verbatim>\<open>astk.geom.tools\<close> and \<^verbatim>\<open>astk.geom.vector\<close> that the builder calls are not
  part of the sources at hand; they are parameters of the model. \<open>normalized_value p0 p1\<close>
  stands for \<^verbatim>\<open>Vector3D(p0=p0, p1=p1).normalized_value()\<close>, which may be \<^verbatim>\<open>nan\<close> for a vector
  of length zero.
\<close>

record 'axis geometry_tools =
  project_point_onto_line :: "vec3 \<Rightarrow> 'axis \<Rightarrow> vec3"
  measure_distance_point_line :: "vec3 \<Rightarrow> 'axis \<Rightarrow> real"
  rotate_point_about_axis :: "vec3 \<Rightarrow> 'axis \<Rightarrow> real \<Rightarrow> vec3"
  normalized_value :: "vec3 \<Rightarrow> vec3 \<Rightarrow> vec3 npval"

text \<open>
  The body of the loop over the profile's control points: the rotated copies of one point
  and their weights. The inner loop writes \<^verbatim>\<open>new_points[idx]\<close> and appends one weight per
  index, so it is a map over the indexed copies; it stops at the first index that raises.
  \<^verbatim>\<open>sine_half_angle\<close> is a \<^verbatim>\<open>float64\<close>, so the division by it does not raise.
\<close>

definition revolve_point ::
  "'axis geometry_tools \<Rightarrow> 'axis \<Rightarrow> real list \<Rightarrow> vec3 \<Rightarrow> error + (vec3 npval \<times> real) list" where
  "revolve_point tools axis angles point =
     (let axis_projection = project_point_onto_line tools point axis;
          radius = measure_distance_point_line tools point axis;
          new_points = (if radius = 0 then map (\<lambda>_. point) angles
                        else map (\<lambda>angle. rotate_point_about_axis tools point axis angle) angles)
      in collect (map (\<lambda>(idx, rotated_point).
                    if idx mod 2 = 0 then Inr (Finite rotated_point, 1)
                    else
                      case py_index angles (int idx + 1) of
                        Inl e \<Rightarrow> Inl e
                      | Inr angle_next \<Rightarrow>
                          (case py_index angles (int idx - 1) of
                             Inl e \<Rightarrow> Inl e
                           | Inr angle_prev \<Rightarrow>
                               let sine_half_angle = sin (0.5 * pi - 0.5 * (angle_next - angle_prev))
                               in Inr (if radius \<noteq> 0
                                       then np_add (Finite axis_projection)
                                              (np_scale (np_div radius sine_half_angle)
                                                 (normalized_value tools axis_projection rotated_point))
                                       else Finite rotated_point,
                                       sine_half_angle)))
                  (enumerate 0 new_points)))"

text \<open>\<^verbatim>\<open>RationalBezierSurface.from_bezier_revolve\<close>; \<open>bezier_points\<close> is \<^verbatim>\<open>bezier.points\<close>.\<close>

definition RationalBezierSurface_from_bezier_revolve ::
  "'axis geometry_tools \<Rightarrow> vec3 list \<Rightarrow> 'axis \<Rightarrow> real \<Rightarrow> real \<Rightarrow> error + RationalBezierSurface" where
  "RationalBezierSurface_from_bezier_revolve tools bezier_points axis start_angle end_angle =
     (case RationalBezierSurface_determine_angle_distribution start_angle end_angle of
        Inl e \<Rightarrow> Inl e
      | Inr angles \<Rightarrow>
          (case collect (map (revolve_point tools axis angles) bezier_points) of
             Inl e \<Rightarrow> Inl e
           | Inr rows \<Rightarrow>
               RationalBezierSurface_init_ndarray (map (map fst) rows) (map (map snd) rows)))"

text \<open>The copy and the weight that the inner loop leaves at index \<open>idx\<close>.\<close>

definition revolved_copy ::
  "'axis geometry_tools \<Rightarrow> 'axis \<Rightarrow> real list \<Rightarrow> vec3 \<Rightarrow> nat \<Rightarrow> vec3 npval \<times> real" where
  "revolved_copy tools axis angles point idx =
     (let axis_projection = project_point_onto_line tools point axis;
          radius = measure_distance_point_line tools point axis;
          rotated_point = (if radius = 0 then point
                           else rotate_point_about_axis tools point axis (angles ! idx));
          sine_half_angle = sin (0.5 * pi - 0.5 * (angles ! (idx + 1) - angles ! (idx - 1)))
      in if even idx then (Finite rotated_point, 1)
         else (if radius \<noteq> 0
               then np_add (Finite axis_projection)
                      (np_scale (np_div radius sine_half_angle)
                         (normalized_value tools axis_projection rotated_point))
               else Finite rotated_point,
               sine_half_angle))"

text \<open>
  An instance of the geometry helpers for the z axis as the axis of revolution, and the
  surface that revolving the single on-axis point \<open>(0, 0, 1)\<close> by a quarter turn gives.
\<close>

definition z_axis_tools :: "unit geometry_tools" where
  "z_axis_tools =
     \<lparr> project_point_onto_line = (\<lambda>p _. Vec3 0 0 (vz p)),
       measure_distance_point_line = (\<lambda>p _. sqrt ((vx p) ^ 2 + (vy p) ^ 2)),
       rotate_point_about_axis =
         (\<lambda>p _ a. Vec3 (vx p * cos a - vy p * sin a) (vx p * sin a + vy p * cos a) (vz p)),
       normalized_value =
         (\<lambda>p0 p1. let d = p1 - p0; n = sqrt ((vx d) ^ 2 + (vy d) ^ 2 + (vz d) ^ 2)
                   in if n = 0 then NonFinite else Finite (d /\<^sub>R n)) \<rparr>"

definition on_axis_revolved :: RationalBezierSurface where
  "on_axis_revolved =
     \<lparr> rb_points = [[Finite (Vec3 0 0 1), Finite (Vec3 0 0 1), Finite (Vec3 0 0 1)]],
       rb_weights = [[1, sqrt 2 / 2, 1]], rb_weights_dtype = Float64,
       rb_knots_u = [0, 1], rb_knots_v = [0, 0, 0, 1, 1, 1],
       rb_degree_u = 0, rb_degree_v = 2, rb_Nu = 1, rb_Nv = 3 \<rparr>"

section \<open>Example patches with one column\<close>

text \<open>
  Patches of two rows and one column: the West and East edges have parallel degree 0 and
  perpendicular degree 1. \<open>column_patch\<close> has a \<^verbatim>\<open>float64\<close> weight array, \<open>integer_patch\<close> an
  integer one, as \<^verbatim>\<open>np.array([[1], [1]])\<close> is.
\<close>

definition column_patch :: RationalBezierSurface where
  "column_patch =
     \<lparr> rb_points = [[Finite (Vec3 0 0 0)], [Finite (Vec3 1 0 0)]],
       rb_weights = [[1], [4]], rb_weights_dtype = Float64,
       rb_knots_u = [0, 0, 1, 1], rb_knots_v = [0, 1],
       rb_degree_u = 1, rb_degree_v = 0, rb_Nu = 2, rb_Nv = 1 \<rparr>"

definition half_weight_patch :: RationalBezierSurface where
  "half_weight_patch =
     \<lparr> rb_points = [[Finite (Vec3 0 0 0)], [Finite (Vec3 1 0 0)]],
       rb_weights = [[1], [1 / 2]], rb_weights_dtype = Float64,
       rb_knots_u = [0, 0, 1, 1], rb_knots_v = [0, 1],
       rb_degree_u = 1, rb_degree_v = 0, rb_Nu = 2, rb_Nv = 1 \<rparr>"

definition integer_patch :: RationalBezierSurface where
  "integer_patch =
     \<lparr> rb_points = [[Finite (Vec3 1 0 0)], [Finite (Vec3 2 0 0)]],
       rb_weights = [[1], [1]], rb_weights_dtype = Int64,
       rb_knots_u = [0, 0, 1, 1], rb_knots_v = [0, 1],
       rb_degree_u = 1, rb_degree_v = 0, rb_Nu = 2, rb_Nv = 1 \<rparr>"



section \<open>Auxiliary facts\<close>

subsection \<open>The constructor on finite control points\<close>

lemma RationalBezierSurface_init_eq:
  "RationalBezierSurface_init pts weights =
     (case py_index pts 0 of
        Inl e \<Rightarrow> Inl e
      | Inr row0 \<Rightarrow>
          (let knots_u = replicate (length pts) 0 @ replicate (length pts) 1;
               knots_v = replicate (length row0) 0 @ replicate (length row0) 1;
               degree_u = int (length pts) - 1;
               degree_v = int (length row0) - 1
           in if \<not> ndim2 weights then Inl AssertionError
              else if int (length knots_u) \<noteq> int (length pts) + degree_u + 1 then Inl AssertionError
              else if int (length knots_v) \<noteq> int (length row0) + degree_v + 1 then Inl AssertionError
              else if int (length pts) \<noteq> shape0 weights then Inl AssertionError
              else if int (length row0) \<noteq> shape1 weights then Inl AssertionError
              else if has_negative_weight weights then Inl NegativeWeightError
              else Inr \<lparr> rb_points = map (map Finite) pts,
                         rb_weights = weights,
                         rb_weights_dtype = Float64,
                         rb_knots_u = knots_u,
                         rb_knots_v = knots_v,
                         rb_degree_u = degree_u,
                         rb_degree_v = degree_v,
                         rb_Nu = int (length pts),
                         rb_Nv = int (length row0) \<rparr>))"
proof (cases pts)
  case Nil
  then show ?thesis
    by (simp add: RationalBezierSurface_init_def RationalBezierSurface_init_ndarray_def RationalBezierSurface_init_dtype_def py_index_def)
next
  case (Cons row rest)
  then have "py_index pts 0 = Inr row" "py_index (map (map Finite) pts) 0 = Inr (map Finite row)"
    by (simp_all add: py_index_def)
  then show ?thesis
    by (simp add: RationalBezierSurface_init_def RationalBezierSurface_init_ndarray_def RationalBezierSurface_init_dtype_def Let_def)
qed

subsection \<open>Loops that add up\<close>

lemma fold_plus_sum_list:
  "fold (\<lambda>i acc. acc + f i) xs (a::'a::comm_monoid_add) = a + sum_list (map f xs)"
  by (induction xs arbitrary: a) (simp_all add: add.assoc)

lemma fold_fold_plus_sum_list:
  "fold (\<lambda>i acc. fold (\<lambda>j acc. acc + f i j) ys acc) xs (a::'a::comm_monoid_add)
     = a + (\<Sum>i\<leftarrow>xs. \<Sum>j\<leftarrow>ys. f i j)"
  by (induction xs arbitrary: a) (simp_all add: fold_plus_sum_list add.assoc)

lemma sum_list_upt_lessThan: "sum_list (map f [0..<n]) = (\<Sum>i<n. f i)"
  by (simp add: interv_sum_list_conv_sum_set_nat atLeast0LessThan)

lemma rat_fold_inner:
  assumes "\<forall>j\<in>set js. row ! j = Finite (q j)"
  shows "fold (\<lambda>j (point, ws). (np_add point (np_scale (Finite (c j)) (row ! j)), ws + c j)) js (Finite a, s)
       = (Finite (a + (\<Sum>j\<leftarrow>js. c j *\<^sub>R q j)), s + (\<Sum>j\<leftarrow>js. c j))"
  using assms by (induction js arbitrary: a s) (simp_all add: add.assoc)

lemma rat_fold_outer:
  assumes "\<forall>i\<in>set is. \<forall>j\<in>set js. P ! i ! j = Finite (q i j)"
  shows "fold (\<lambda>i acc. fold (\<lambda>j (point, ws). (np_add point (np_scale (Finite (c i j)) (P ! i ! j)), ws + c i j)) js acc) is (Finite a, s)
       = (Finite (a + (\<Sum>i\<leftarrow>is. \<Sum>j\<leftarrow>js. c i j *\<^sub>R q i j)), s + (\<Sum>i\<leftarrow>is. \<Sum>j\<leftarrow>js. c i j))"
  using assms
proof (induction "is" arbitrary: a s)
  case Nil
  then show ?case by simp
next
  case (Cons i "is")
  have inner: "\<forall>j\<in>set js. (P ! i) ! j = Finite (q i j)" using Cons.prems by simp
  show ?case
    using Cons.prems by (simp add: rat_fold_inner[OF inner] Cons.IH add.assoc)
qed

subsection \<open>Grids\<close>

lemma rectangular_nth: "rectangular P \<Longrightarrow> i < length P \<Longrightarrow> length (P ! i) = length (hd P)"
  by (simp add: rectangular_def list_all_length)

lemma rectangular_map: "rectangular (map (map f) P) = rectangular P"
  by (cases P) (simp_all add: rectangular_def list_all_iff)

lemma get_control_point_array_ok:
  "rectangular P \<Longrightarrow> P \<noteq> [] \<Longrightarrow> hd P \<noteq> [] \<Longrightarrow> get_control_point_array P = Inr P"
  by (simp add: get_control_point_array_def)

subsection \<open>Bernstein polynomials at the ends, and their sum\<close>

lemma bernstein_poly_at_0:
  "0 \<le> n \<Longrightarrow> bernstein_poly n (int i) 0 = (if i = 0 then 1 else 0)"
  by (auto simp: bernstein_poly_def power_0_left)

lemma bernstein_poly_at_1:
  "0 \<le> n \<Longrightarrow> bernstein_poly n (int i) 1 = (if int i = n then 1 else 0)"
  by (auto simp: bernstein_poly_def power_0_left)

lemma bernstein_poly_sum:
  "(\<Sum>i<Suc n. bernstein_poly (int n) (int i) t) = 1"
proof -
  have "(\<Sum>i<Suc n. bernstein_poly (int n) (int i) t)
      = (\<Sum>i\<le>n. real (n choose i) * t ^ i * (1 - t) ^ (n - i))"
    unfolding lessThan_Suc_atMost
    by (rule sum.cong) (auto simp: bernstein_poly_def nat_diff_distrib')
  also have "\<dots> = (t + (1 - t)) ^ n"
    by (simp only: binomial_ring)
  finally show ?thesis by simp
qed

subsection \<open>Evaluation as a double sum\<close>

lemma BezierSurface_init_fields:
  assumes "BezierSurface_init P = Inr S"
  shows "bz_points S = P" "bz_degree_u S = int (length P) - 1"
    "bz_degree_v S = int (length (hd P)) - 1" "bz_Nu S = int (length P)"
    "bz_Nv S = int (length (hd P))" "P \<noteq> []"
  using assms
  by (auto simp: BezierSurface_init_def py_index_def hd_conv_nth split: if_splits)

lemma Bezier_evaluate_sum:
  assumes "BezierSurface_init P = Inr S" "rectangular P" "hd P \<noteq> []"
  shows "BezierSurface_evaluate_ndarray S u v =
    Inr (\<Sum>i<length P. \<Sum>j<length (hd P).
         (bernstein_poly (int (length P) - 1) (int i) u
           * bernstein_poly (int (length (hd P)) - 1) (int j) v) *\<^sub>R (P ! i ! j))"
proof -
  note f = BezierSurface_init_fields[OF assms(1)]
  have gc: "get_control_point_array P = Inr P"
    using assms(2,3) f(6) by (simp add: get_control_point_array_ok)
  show ?thesis
    unfolding BezierSurface_evaluate_ndarray_def f(1-5) gc
    by (simp add: py_range_def Let_def fold_fold_plus_sum_list sum_list_upt_lessThan)
qed

lemma Rational_init_fields:
  assumes "RationalBezierSurface_init P W = Inr R"
  shows "rb_points R = map (map Finite) P" "rb_weights R = W"
    "rb_degree_u R = int (length P) - 1" "rb_degree_v R = int (length (hd P)) - 1"
    "rb_Nu R = int (length P)" "rb_Nv R = int (length (hd P))" "P \<noteq> []"
    "length W = length P" "length (hd W) = length (hd P)" "rectangular W"
    "\<not> has_negative_weight W"
proof -
  from assms have ne: "P \<noteq> []"
    by (auto simp: RationalBezierSurface_init_eq py_index_def split: if_splits)
  then have p0: "py_index P 0 = Inr (hd P)"
    by (simp add: py_index_def hd_conv_nth)
  have chk: "ndim2 W \<and> int (length P) = shape0 W \<and> int (length (hd P)) = shape1 W
      \<and> \<not> has_negative_weight W"
    using assms unfolding RationalBezierSurface_init_eq p0
    by (simp add: Let_def split: if_splits)
  have R: "R = \<lparr> rb_points = map (map Finite) P, rb_weights = W, rb_weights_dtype = Float64,
      rb_knots_u = replicate (length P) 0 @ replicate (length P) 1,
      rb_knots_v = replicate (length (hd P)) 0 @ replicate (length (hd P)) 1,
      rb_degree_u = int (length P) - 1, rb_degree_v = int (length (hd P)) - 1,
      rb_Nu = int (length P), rb_Nv = int (length (hd P)) \<rparr>"
    using assms unfolding RationalBezierSurface_init_eq p0
    by (simp add: Let_def split: if_splits)
  show "rb_points R = map (map Finite) P" "rb_weights R = W"
    "rb_degree_u R = int (length P) - 1" "rb_degree_v R = int (length (hd P)) - 1"
    "rb_Nu R = int (length P)" "rb_Nv R = int (length (hd P))"
    by (simp_all add: R)
  show "P \<noteq> []" by (rule ne)
  show "length W = length P" "length (hd W) = length (hd P)" "rectangular W"
    "\<not> has_negative_weight W"
    using chk by (simp_all add: ndim2_def shape0_def shape1_def)
qed

subsection \<open>Corner interpolation\<close>


lemma Rational_evaluate_sum:
  assumes "RationalBezierSurface_init P W = Inr R" "rectangular P" "hd P \<noteq> []"
  shows "RationalBezierSurface_evaluate_ndarray R u v =
    Inr (np_div_vec
      (Finite (\<Sum>i<length P. \<Sum>j<length (hd P).
         (bernstein_poly (int (length P) - 1) (int i) u
           * bernstein_poly (int (length (hd P)) - 1) (int j) v * (W ! i ! j)) *\<^sub>R (P ! i ! j)))
      (\<Sum>i<length P. \<Sum>j<length (hd P).
         bernstein_poly (int (length P) - 1) (int i) u
           * bernstein_poly (int (length (hd P)) - 1) (int j) v * (W ! i ! j)))"
proof -
  note f = Rational_init_fields[OF assms(1)]
  have gc: "get_control_point_array (map (map Finite) P) = Inr (map (map Finite) P)"
    using assms(2,3) f(7)
    by (simp add: get_control_point_array_ok rectangular_map hd_map)
  have fin: "\<forall>i\<in>set [0..<length P]. \<forall>j\<in>set [0..<length (hd P)].
      map (map Finite) P ! i ! j = Finite (P ! i ! j)"
    using assms(2) by (simp add: rectangular_nth)
  show ?thesis
    unfolding RationalBezierSurface_evaluate_ndarray_def f(1-6) gc
    by (simp add: Let_def py_range_def rat_fold_outer[OF fin] sum_list_upt_lessThan)
qed

lemmas if_distribs = if_distrib[where f="\<lambda>x. x *\<^sub>R _"] if_distrib[where f="\<lambda>x. x * _"]
  if_distrib[where f="\<lambda>x. _ * x"]

lemma pick_corner:
  fixes g :: "nat \<Rightarrow> nat \<Rightarrow> vec3"
  assumes "a < n" "b < m"
  shows "(\<Sum>i<n. \<Sum>j<m. ((if i = a then 1 else 0) * (if j = b then 1 else 0) * w i j) *\<^sub>R g i j) = w a b *\<^sub>R g a b"
    and "(\<Sum>i<n. \<Sum>j<m. ((if i = a then 1 else 0) * (if j = b then 1 else 0) * w i j)) = w a b"
    and "(\<Sum>i<n. \<Sum>j<m. ((if i = a then 1 else 0) * (if j = b then 1 else (0::real))) *\<^sub>R g i j) = g a b"
  using assms by (simp_all add: if_distribs cong: if_cong)


lemma example_bezier_init: "BezierSurface_init example_grid = Inr example_bezier"
  by (simp add: BezierSurface_init_def py_index_def example_grid_def example_bezier_def)

lemma example_rational_init:
  "RationalBezierSurface_init example_grid example_weights = Inr example_rational"
  by (simp add: RationalBezierSurface_init_eq py_index_def example_grid_def example_rational_def
      example_weights_def ndim2_def rectangular_def shape0_def shape1_def has_negative_weight_def
      numeral_eq_Suc)

lemma example_grid_ok: "rectangular example_grid" "hd example_grid \<noteq> []"
  by (simp_all add: example_grid_def rectangular_def)

text \<open>
  Claim C1, as the code has it. For a rectangular control grid with a non-empty row,
  \<^verbatim>\<open>BezierSurface.evaluate_ndarray\<close> at the parameter corners \<open>(0,0)\<close>, \<open>(1,0)\<close>, \<open>(0,1)\<close>,
  \<open>(1,1)\<close> returns the Southwest, Southeast, Northwest and Northeast control point of the
  grid, and so does \<^verbatim>\<open>RationalBezierSurface.evaluate_ndarray\<close> at every corner whose weight
  is not zero. The constructor admits a zero weight; at a corner of weight zero the
  rational evaluation divides zero by zero and returns no point of the grid.
\<close>

theorem corner_interpolation:
  assumes "rectangular P" and "hd P \<noteq> []"
  shows "(\<forall>S. BezierSurface_init P = Inr S \<longrightarrow>
            BezierSurface_evaluate_ndarray S 0 0 = Inr (P ! 0 ! 0)
          \<and> BezierSurface_evaluate_ndarray S 1 0 = Inr (P ! (length P - 1) ! 0)
          \<and> BezierSurface_evaluate_ndarray S 0 1 = Inr (P ! 0 ! (length (hd P) - 1))
          \<and> BezierSurface_evaluate_ndarray S 1 1 = Inr (P ! (length P - 1) ! (length (hd P) - 1)))
       \<and> (\<forall>W R. RationalBezierSurface_init P W = Inr R \<longrightarrow>
            (W ! 0 ! 0 \<noteq> 0 \<longrightarrow>
               RationalBezierSurface_evaluate_ndarray R 0 0 = Inr (Finite (P ! 0 ! 0)))
          \<and> (W ! (length P - 1) ! 0 \<noteq> 0 \<longrightarrow>
               RationalBezierSurface_evaluate_ndarray R 1 0 = Inr (Finite (P ! (length P - 1) ! 0)))
          \<and> (W ! 0 ! (length (hd P) - 1) \<noteq> 0 \<longrightarrow>
               RationalBezierSurface_evaluate_ndarray R 0 1 = Inr (Finite (P ! 0 ! (length (hd P) - 1))))
          \<and> (W ! (length P - 1) ! (length (hd P) - 1) \<noteq> 0 \<longrightarrow>
               RationalBezierSurface_evaluate_ndarray R 1 1
                 = Inr (Finite (P ! (length P - 1) ! (length (hd P) - 1)))))"
proof (intro conjI allI impI)
  fix S assume S: "BezierSurface_init P = Inr S"
  then have "P \<noteq> []" by (rule BezierSurface_init_fields)
  then have lp: "0 < length P" and lh: "0 < length (hd P)" using assms(2) by auto
  have e1: "int i = int (length P) - 1 \<longleftrightarrow> i = length P - 1" for i using lp by arith
  have e2: "int i = int (length (hd P)) - 1 \<longleftrightarrow> i = length (hd P) - 1" for i using lh by arith
  note ev = Bezier_evaluate_sum[OF S assms]
  show "BezierSurface_evaluate_ndarray S 0 0 = Inr (P ! 0 ! 0)"
    using lp lh by (simp add: ev bernstein_poly_at_0 pick_corner(3))
  show "BezierSurface_evaluate_ndarray S 1 0 = Inr (P ! (length P - 1) ! 0)"
    using lp lh by (simp add: ev bernstein_poly_at_0 bernstein_poly_at_1 e1 pick_corner(3))
  show "BezierSurface_evaluate_ndarray S 0 1 = Inr (P ! 0 ! (length (hd P) - 1))"
    using lp lh by (simp add: ev bernstein_poly_at_0 bernstein_poly_at_1 e2 pick_corner(3))
  show "BezierSurface_evaluate_ndarray S 1 1 = Inr (P ! (length P - 1) ! (length (hd P) - 1))"
    using lp lh by (simp add: ev bernstein_poly_at_1 e1 e2 pick_corner(3))
next
  fix W R assume R: "RationalBezierSurface_init P W = Inr R"
  then have "P \<noteq> []" by (rule Rational_init_fields)
  then have lp: "0 < length P" and lh: "0 < length (hd P)" using assms(2) by auto
  have e1: "int i = int (length P) - 1 \<longleftrightarrow> i = length P - 1" for i using lp by arith
  have e2: "int i = int (length (hd P)) - 1 \<longleftrightarrow> i = length (hd P) - 1" for i using lh by arith
  note ev = Rational_evaluate_sum[OF R assms]
  { assume "W ! 0 ! 0 \<noteq> 0"
    then show "RationalBezierSurface_evaluate_ndarray R 0 0 = Inr (Finite (P ! 0 ! 0))"
      using lp lh by (simp add: ev bernstein_poly_at_0 pick_corner(1,2)) }
  { assume "W ! (length P - 1) ! 0 \<noteq> 0"
    then show "RationalBezierSurface_evaluate_ndarray R 1 0 = Inr (Finite (P ! (length P - 1) ! 0))"
      using lp lh by (simp add: ev bernstein_poly_at_0 bernstein_poly_at_1 e1 pick_corner(1,2)) }
  { assume "W ! 0 ! (length (hd P) - 1) \<noteq> 0"
    then show "RationalBezierSurface_evaluate_ndarray R 0 1 = Inr (Finite (P ! 0 ! (length (hd P) - 1)))"
      using lp lh by (simp add: ev bernstein_poly_at_0 bernstein_poly_at_1 e2 pick_corner(1,2)) }
  { assume "W ! (length P - 1) ! (length (hd P) - 1) \<noteq> 0"
    then show "RationalBezierSurface_evaluate_ndarray R 1 1
        = Inr (Finite (P ! (length P - 1) ! (length (hd P) - 1)))"
      using lp lh by (simp add: ev bernstein_poly_at_1 e1 e2 pick_corner(1,2)) }
qed

theorem corner_interpolation_witness:
  "rectangular example_grid \<and> hd example_grid \<noteq> []
   \<and> BezierSurface_init example_grid = Inr example_bezier
   \<and> RationalBezierSurface_init example_grid example_weights = Inr example_rational
   \<and> example_weights ! 0 ! 0 \<noteq> 0 \<and> example_weights ! 1 ! 0 \<noteq> 0
   \<and> example_weights ! 0 ! 2 \<noteq> 0 \<and> example_weights ! 1 ! 2 \<noteq> 0
   \<and> BezierSurface_evaluate_ndarray example_bezier 0 0 = Inr (Vec3 0 0 0)
   \<and> BezierSurface_evaluate_ndarray example_bezier 1 0 = Inr (Vec3 1 0 0)
   \<and> BezierSurface_evaluate_ndarray example_bezier 0 1 = Inr (Vec3 0 2 1)
   \<and> BezierSurface_evaluate_ndarray example_bezier 1 1 = Inr (Vec3 1 2 5)
   \<and> RationalBezierSurface_evaluate_ndarray example_rational 0 0 = Inr (Finite (Vec3 0 0 0))
   \<and> RationalBezierSurface_evaluate_ndarray example_rational 1 0 = Inr (Finite (Vec3 1 0 0))
   \<and> RationalBezierSurface_evaluate_ndarray example_rational 0 1 = Inr (Finite (Vec3 0 2 1))
   \<and> RationalBezierSurface_evaluate_ndarray example_rational 1 1 = Inr (Finite (Vec3 1 2 5))"
proof -
  have w: "example_weights ! 0 ! 0 \<noteq> 0" "example_weights ! 1 ! 0 \<noteq> 0"
    "example_weights ! 0 ! 2 \<noteq> 0" "example_weights ! 1 ! 2 \<noteq> 0"
    by (simp_all add: example_weights_def)
  have l: "length example_grid - 1 = 1" "length (hd example_grid) - 1 = 2"
    "example_grid ! 0 ! 0 = Vec3 0 0 0" "example_grid ! 1 ! 0 = Vec3 1 0 0"
    "example_grid ! 0 ! 2 = Vec3 0 2 1" "example_grid ! 1 ! 2 = Vec3 1 2 5"
    by (simp_all add: example_grid_def)
  from corner_interpolation[OF example_grid_ok] example_bezier_init example_rational_init w
  show ?thesis
    unfolding l by (simp add: example_grid_ok)
qed

text \<open>
  A one-point patch of weight zero: the weight grid is non-negative, the constructor
  accepts it, and the evaluation at \<open>(0,0)\<close> is not the control point.
\<close>

theorem corner_zero_weight_counterexample:
  "RationalBezierSurface_init [[Vec3 1 2 3]] [[0]] = Inr zero_weight_patch
   \<and> \<not> has_negative_weight [[0]]
   \<and> RationalBezierSurface_evaluate_ndarray zero_weight_patch 0 0 = Inr NonFinite
   \<and> RationalBezierSurface_evaluate_ndarray zero_weight_patch 0 0 \<noteq> Inr (Finite (Vec3 1 2 3))"
  by (simp add: RationalBezierSurface_init_eq py_index_def zero_weight_patch_def ndim2_def
      rectangular_def shape0_def shape1_def has_negative_weight_def
      RationalBezierSurface_evaluate_ndarray_def get_control_point_array_def py_range_def
      bernstein_poly_def Let_def)

subsection \<open>Unit weights\<close>

lemma bernstein_poly_sum_length:
  assumes "0 < n"
  shows "(\<Sum>i<n. bernstein_poly (int n - 1) (int i) t) = 1"
proof -
  obtain k where k: "n = Suc k" using assms by (cases n) auto
  show ?thesis unfolding k using bernstein_poly_sum[of k t] by simp
qed

text \<open>
  Claim C2. With every weight equal to 1, \<^verbatim>\<open>RationalBezierSurface.evaluate_ndarray\<close> returns
  the point that \<^verbatim>\<open>BezierSurface.evaluate_ndarray\<close> returns for the same control grid, at
  every parameter pair \<open>(u, v)\<close>, those of the unit square included: the sum of the weighted
  basis values is 1. Both evaluations return.
\<close>

theorem unit_weights_agree:
  assumes "rectangular P" and "hd P \<noteq> []"
    and "BezierSurface_init P = Inr S"
    and "RationalBezierSurface_init P W = Inr R"
    and "list_all (list_all (\<lambda>w. w = 1)) W"
  shows "\<exists>x. BezierSurface_evaluate_ndarray S u v = Inr x
           \<and> RationalBezierSurface_evaluate_ndarray R u v = Inr (Finite x)"
proof -
  note f = Rational_init_fields[OF assms(4)]
  have lp: "0 < length P" and lh: "0 < length (hd P)" using f(7) assms(2) by auto
  have one: "W ! i ! j = 1" if "i < length P" "j < length (hd P)" for i j
  proof -
    have "i < length W" using that f(8) by simp
    moreover have "j < length (W ! i)"
      using that f(8,9,10) by (simp add: rectangular_nth)
    ultimately show ?thesis using assms(5) by (simp add: list_all_length)
  qed
  let ?c = "\<lambda>i j. bernstein_poly (int (length P) - 1) (int i) u
                * bernstein_poly (int (length (hd P)) - 1) (int j) v"
  have pts: "(\<Sum>i<length P. \<Sum>j<length (hd P). (?c i j * (W ! i ! j)) *\<^sub>R (P ! i ! j))
           = (\<Sum>i<length P. \<Sum>j<length (hd P). ?c i j *\<^sub>R (P ! i ! j))"
    by (intro sum.cong refl) (simp add: one)
  have "(\<Sum>i<length P. \<Sum>j<length (hd P). ?c i j * (W ! i ! j))
           = (\<Sum>i<length P. \<Sum>j<length (hd P). ?c i j)"
    by (intro sum.cong refl) (simp add: one)
  also have "\<dots> = (\<Sum>i<length P. bernstein_poly (int (length P) - 1) (int i) u)
                 * (\<Sum>j<length (hd P). bernstein_poly (int (length (hd P)) - 1) (int j) v)"
    by (simp add: sum_product)
  also have "\<dots> = 1"
    by (simp only: bernstein_poly_sum_length[OF lp] bernstein_poly_sum_length[OF lh] mult_1)
  finally have ws: "(\<Sum>i<length P. \<Sum>j<length (hd P). ?c i j * (W ! i ! j)) = 1" .
  show ?thesis
    unfolding Bezier_evaluate_sum[OF assms(3,1,2)] Rational_evaluate_sum[OF assms(4,1,2)] pts ws
    by simp
qed

lemma example_unit_rational_init:
  "RationalBezierSurface_init example_grid unit_weights = Inr example_unit_rational"
  by (simp add: RationalBezierSurface_init_eq py_index_def example_grid_def example_unit_rational_def
      unit_weights_def ndim2_def rectangular_def shape0_def shape1_def has_negative_weight_def
      numeral_eq_Suc)

theorem unit_weights_agree_witness:
  "rectangular example_grid \<and> hd example_grid \<noteq> []
   \<and> BezierSurface_init example_grid = Inr example_bezier
   \<and> RationalBezierSurface_init example_grid unit_weights = Inr example_unit_rational
   \<and> list_all (list_all (\<lambda>w. w = 1)) unit_weights
   \<and> (\<exists>x. BezierSurface_evaluate_ndarray example_bezier (1/2) (1/4) = Inr x
           \<and> RationalBezierSurface_evaluate_ndarray example_unit_rational (1/2) (1/4) = Inr (Finite x))"
proof -
  have u: "list_all (list_all (\<lambda>w. w = 1)) unit_weights"
    by (simp add: unit_weights_def)
  from unit_weights_agree[OF example_grid_ok example_bezier_init example_unit_rational_init u,
      of "1/2" "1/4"]
  show ?thesis
    by (simp add: example_grid_ok example_bezier_init example_unit_rational_init u)
qed

subsection \<open>Constructors and negative weights\<close>

lemma has_negative_weight_iff:
  "has_negative_weight W \<longleftrightarrow> (\<exists>row\<in>set W. \<exists>w\<in>set row. w < 0)"
  by (simp add: has_negative_weight_def list_ex_iff)

text \<open>
  Claim C5, as the code has it. Both constructors check their assertions on the shapes
  first and the weights second. Where the shapes are consistent (the control grid is not
  empty, the weight array is two-dimensional and of the grid's shape and, for a NURBS
  surface, the control array is rectangular and the knot vectors have
  \<open>N + degree + 1\<close> entries), the constructor raises \<^verbatim>\<open>NegativeWeightError\<close> if some
  weight is strictly negative and returns a surface otherwise.
\<close>

theorem constructor_negative_weight:
  "(pts \<noteq> [] \<and> ndim2 W \<and> length pts = length W \<and> length (hd pts) = length (hd W) \<longrightarrow>
      ((\<exists>row\<in>set W. \<exists>w\<in>set row. w < 0) \<longrightarrow>
          RationalBezierSurface_init pts W = Inl NegativeWeightError)
    \<and> (\<not> (\<exists>row\<in>set W. \<exists>w\<in>set row. w < 0) \<longrightarrow>
          (\<exists>R. RationalBezierSurface_init pts W = Inr R)))
   \<and> (ndim2 cps \<and> ndim2 W \<and> length cps = length W \<and> length (hd cps) = length (hd W)
      \<and> int (length knots_u) = int (length cps) + degree_u + 1
      \<and> int (length knots_v) = int (length (hd cps)) + degree_v + 1 \<longrightarrow>
      ((\<exists>row\<in>set W. \<exists>w\<in>set row. w < 0) \<longrightarrow>
          NURBSSurface_init cps knots_u knots_v W degree_u degree_v = Inl NegativeWeightError)
    \<and> (\<not> (\<exists>row\<in>set W. \<exists>w\<in>set row. w < 0) \<longrightarrow>
          (\<exists>N. NURBSSurface_init cps knots_u knots_v W degree_u degree_v = Inr N)))"
proof (intro conjI impI)
  assume a: "pts \<noteq> [] \<and> ndim2 W \<and> length pts = length W \<and> length (hd pts) = length (hd W)"
  then have "pts \<noteq> []" by blast
  then have p0: "py_index pts 0 = Inr (hd pts)"
    by (simp add: py_index_def hd_conv_nth)
  { assume "\<exists>row\<in>set W. \<exists>w\<in>set row. w < 0"
    then show "RationalBezierSurface_init pts W = Inl NegativeWeightError"
      using a unfolding RationalBezierSurface_init_eq p0
      by (simp add: Let_def shape0_def shape1_def has_negative_weight_iff) }
  { assume "\<not> (\<exists>row\<in>set W. \<exists>w\<in>set row. w < 0)"
    then show "\<exists>R. RationalBezierSurface_init pts W = Inr R"
      using a unfolding RationalBezierSurface_init_eq p0
      by (simp add: Let_def shape0_def shape1_def has_negative_weight_iff) }
next
  assume a: "ndim2 cps \<and> ndim2 W \<and> length cps = length W \<and> length (hd cps) = length (hd W)
      \<and> int (length knots_u) = int (length cps) + degree_u + 1
      \<and> int (length knots_v) = int (length (hd cps)) + degree_v + 1"
  { assume "\<exists>row\<in>set W. \<exists>w\<in>set row. w < 0"
    then show "NURBSSurface_init cps knots_u knots_v W degree_u degree_v = Inl NegativeWeightError"
      using a unfolding NURBSSurface_init_def
      by (simp add: shape0_def shape1_def has_negative_weight_iff) }
  { assume "\<not> (\<exists>row\<in>set W. \<exists>w\<in>set row. w < 0)"
    then show "\<exists>N. NURBSSurface_init cps knots_u knots_v W degree_u degree_v = Inr N"
      using a unfolding NURBSSurface_init_def
      by (simp add: shape0_def shape1_def has_negative_weight_iff) }
qed

theorem constructor_negative_weight_witness:
  "RationalBezierSurface_init [[Vec3 0 0 0, Vec3 1 0 0]] [[1, - 1]] = Inl NegativeWeightError
   \<and> (\<exists>R. RationalBezierSurface_init [[Vec3 0 0 0, Vec3 1 0 0]] [[1, 0]] = Inr R)
   \<and> NURBSSurface_init [[Vec3 0 0 0, Vec3 1 0 0]] [0, 1] [0, 0, 1, 1] [[1, - 1]] 0 1
        = Inl NegativeWeightError
   \<and> (\<exists>N. NURBSSurface_init [[Vec3 0 0 0, Vec3 1 0 0]] [0, 1] [0, 0, 1, 1] [[1, 0]] 0 1 = Inr N)"
  using constructor_negative_weight[of "[[Vec3 0 0 0, Vec3 1 0 0]]" "[[1, - 1]]"
      "[[Vec3 0 0 0, Vec3 1 0 0]]" "[0, 1]" 0 "[0, 0, 1, 1]" 1]
    constructor_negative_weight[of "[[Vec3 0 0 0, Vec3 1 0 0]]" "[[1, 0]]"
      "[[Vec3 0 0 0, Vec3 1 0 0]]" "[0, 1]" 0 "[0, 0, 1, 1]" 1]
  by (simp add: ndim2_def rectangular_def)

text \<open>
  A negative weight in a weight array that is wider than the control grid: the assertion
  on the shapes fails first, for both constructors.
\<close>

theorem constructor_shape_counterexample:
  "has_negative_weight [[- 1, 2]]
   \<and> RationalBezierSurface_init [[Vec3 0 0 0]] [[- 1, 2]] = Inl AssertionError
   \<and> NURBSSurface_init [[Vec3 0 0 0]] [0, 1] [0, 1] [[- 1, 2]] 0 0 = Inl AssertionError"
  by (simp add: RationalBezierSurface_init_eq NURBSSurface_init_def py_index_def ndim2_def
      rectangular_def shape0_def shape1_def Let_def has_negative_weight_def)

subsection \<open>Edge addressing\<close>

lemma py_index_nat: "i < length xs \<Longrightarrow> py_index xs (int i) = Inr (xs ! i)"
  by (simp add: py_index_def)

lemma py_index_neg:
  assumes "c < length xs"
  shows "py_index xs (- int c - 1) = Inr (xs ! (length xs - Suc c))"
proof -
  have "nat (int (length xs) + (- int c - 1)) = length xs - Suc c"
    using assms by arith
  then show ?thesis
    using assms by (simp add: py_index_def Let_def)
qed

lemma py_store_nat: "i < length xs \<Longrightarrow> py_store xs (int i) x = Inr (xs[i := x])"
  by (simp add: py_store_def)

lemma py_store_neg:
  assumes "c < length xs"
  shows "py_store xs (- int c - 1) x = Inr (xs[length xs - Suc c := x])"
proof -
  have "nat (int (length xs) + (- int c - 1)) = length xs - Suc c"
    using assms by arith
  then show ?thesis
    using assms by (simp add: py_store_def Let_def)
qed

lemma edge_get_slot:
  assumes "rectangular g" "on_edge (length g) (length (hd g)) r c e"
  shows "edge_get g r c e = Inr (grid_at g (slot (length g) (length (hd g)) r c e))"
proof (cases e)
  case North
  then have r: "r < length g" and c: "c < length (hd g)" using assms(2) by (simp_all add: on_edge_def)
  have len: "length (g ! r) = length (hd g)" using assms(1) r by (rule rectangular_nth)
  show ?thesis
    using r c by (simp add: North edge_get_def grid_index_def py_index_nat py_index_neg len slot_def grid_at_def)
next
  case South
  then have r: "r < length g" and c: "c < length (hd g)" using assms(2) by (simp_all add: on_edge_def)
  have len: "length (g ! r) = length (hd g)" using assms(1) r by (rule rectangular_nth)
  show ?thesis
    using r c by (simp add: South edge_get_def grid_index_def py_index_nat len slot_def grid_at_def)
next
  case East
  then have r: "r < length (hd g)" and c: "c < length g" using assms(2) by (simp_all add: on_edge_def)
  have len: "length (g ! (length g - Suc c)) = length (hd g)"
    using assms(1) c by (intro rectangular_nth) auto
  show ?thesis
    using r c by (simp add: East edge_get_def grid_index_def py_index_nat py_index_neg len slot_def grid_at_def)
next
  case West
  then have r: "r < length (hd g)" and c: "c < length g" using assms(2) by (simp_all add: on_edge_def)
  have len: "length (g ! c) = length (hd g)" using assms(1) c by (rule rectangular_nth)
  show ?thesis
    using r c by (simp add: West edge_get_def grid_index_def py_index_nat len slot_def grid_at_def)
qed

lemma edge_set_slot:
  assumes "rectangular g" "on_edge (length g) (length (hd g)) r c e"
  shows "edge_set g x r c e = Inr (grid_upd g (slot (length g) (length (hd g)) r c e) x)"
proof (cases e)
  case North
  then have r: "r < length g" and c: "c < length (hd g)" using assms(2) by (simp_all add: on_edge_def)
  have len: "length (g ! r) = length (hd g)" using assms(1) r by (rule rectangular_nth)
  show ?thesis
    using r c by (simp add: North edge_set_def grid_store_def py_index_nat py_store_nat py_store_neg len slot_def grid_upd_def)
next
  case South
  then have r: "r < length g" and c: "c < length (hd g)" using assms(2) by (simp_all add: on_edge_def)
  have len: "length (g ! r) = length (hd g)" using assms(1) r by (rule rectangular_nth)
  show ?thesis
    using r c by (simp add: South edge_set_def grid_store_def py_index_nat py_store_nat len slot_def grid_upd_def)
next
  case East
  then have r: "r < length (hd g)" and c: "c < length g" using assms(2) by (simp_all add: on_edge_def)
  have len: "length (g ! (length g - Suc c)) = length (hd g)"
    using assms(1) c by (intro rectangular_nth) auto
  show ?thesis
    using r c by (simp add: East edge_set_def grid_store_def py_index_nat py_index_neg py_store_nat py_store_neg len slot_def grid_upd_def)
next
  case West
  then have r: "r < length (hd g)" and c: "c < length g" using assms(2) by (simp_all add: on_edge_def)
  have len: "length (g ! c) = length (hd g)" using assms(1) c by (rule rectangular_nth)
  show ?thesis
    using r c by (simp add: West edge_set_def grid_store_def py_index_nat py_store_nat len slot_def grid_upd_def)
qed

lemma slot_in_range:
  assumes "on_edge Nu Nv r c e"
  shows "fst (slot Nu Nv r c e) < Nu" "snd (slot Nu Nv r c e) < Nv"
  using assms by (cases e; auto simp: on_edge_def slot_def)+

lemma slot_inj:
  assumes "on_edge Nu Nv r c e" "on_edge Nu Nv r' c' e"
  shows "slot Nu Nv r c e = slot Nu Nv r' c' e \<longleftrightarrow> r = r' \<and> c = c'"
  using assms by (cases e) (auto simp: on_edge_def slot_def)

lemma grid_upd_length [simp]: "length (grid_upd g ij x) = length g"
  by (simp add: grid_upd_def)

lemma grid_upd_hd_length:
  "rectangular g \<Longrightarrow> fst ij < length g \<Longrightarrow> length (hd (grid_upd g ij x)) = length (hd g)"
  by (cases g; cases "fst ij") (simp_all add: grid_upd_def rectangular_def)

lemma grid_upd_rectangular:
  assumes "rectangular g" "fst ij < length g"
  shows "rectangular (grid_upd g ij x)"
  unfolding rectangular_def list_all_length
proof (intro allI impI)
  fix n assume "n < length (grid_upd g ij x)"
  then have n: "n < length g" by simp
  have "length (grid_upd g ij x ! n) = length (g ! n)"
    using n by (cases "n = fst ij") (simp_all add: grid_upd_def)
  then show "length (grid_upd g ij x ! n) = length (hd (grid_upd g ij x))"
    using assms n by (simp add: grid_upd_hd_length rectangular_nth)
qed

lemma grid_at_upd:
  assumes "rectangular g" "fst ij < length g" "snd ij < length (hd g)"
  shows "grid_at (grid_upd g ij x) kl = (if kl = ij then x else grid_at g kl)"
proof -
  have len: "length (g ! fst ij) = length (hd g)" using assms(1,2) by (rule rectangular_nth)
  show ?thesis
    using assms(2,3) len
    by (cases "fst kl = fst ij"; cases "snd kl = snd ij")
       (auto simp: grid_at_def grid_upd_def prod_eq_iff)
qed

subsection \<open>Loops over rows\<close>

lemma for_rows_establishes:
  assumes "I s"
    and step: "\<And>r s. r \<in> set rs \<Longrightarrow> I s \<Longrightarrow>
              \<exists>s'. body r s = Inr s' \<and> I s' \<and> Q r s' \<and> (\<forall>r'. Q r' s \<longrightarrow> Q r' s')"
  shows "\<exists>s'. for_rows body rs s = Inr s' \<and> I s' \<and> (\<forall>r\<in>set rs. Q r s')"
  using assms
proof (induction rs arbitrary: s)
  case Nil
  then show ?case by simp
next
  case (Cons r rs)
  from Cons.prems(2)[of r s] Cons.prems(1)
  obtain s1 where s1: "body r s = Inr s1" "I s1" "Q r s1" by auto
  have "\<exists>s'. for_rows body rs s1 = Inr s' \<and> I s' \<and> (\<forall>r\<in>set rs. Q r s')"
    by (rule Cons.IH[OF s1(2)]) (use Cons.prems(2) in auto)
  then obtain s2 where s2: "for_rows body rs s1 = Inr s2" "I s2" "\<forall>r\<in>set rs. Q r s2" by blast
  have keep: "Q r s2"
    using s1(2,3) s2(1) Cons.prems(2)
  proof (induction rs arbitrary: s1)
    case Nil
    then show ?case by simp
  next
    case (Cons r' rs')
    from Cons.prems(4)[of r' s1] Cons.prems(1)
    obtain s3 where s3: "body r' s1 = Inr s3" "I s3" "\<forall>x. Q x s1 \<longrightarrow> Q x s3" by auto
    show ?case
      by (rule Cons.IH[OF s3(2)]) (use s3 Cons.prems in auto)
  qed
  show ?case using s1 s2 keep by auto
qed

lemma in_py_range: "r \<in> set (py_range n) \<longleftrightarrow> int r < n"
  by (auto simp: py_range_def)

subsection \<open>Methods of a rational patch\<close>





text \<open>
  The dtype of the weight array plays no part in the constructor's checks nor in the
  evaluation: what holds of a surface built from a \<^verbatim>\<open>float64\<close> array holds of one built from
  an integer array with the same entries.
\<close>

lemma RationalBezierSurface_init_any_dtype:
  "RationalBezierSurface_init_dtype dt pts weights
     = (case RationalBezierSurface_init_ndarray pts weights of
          Inl e \<Rightarrow> Inl e
        | Inr S \<Rightarrow> Inr (S\<lparr>rb_weights_dtype := dt\<rparr>))"
  by (cases "py_index pts 0")
     (simp_all add: RationalBezierSurface_init_ndarray_def RationalBezierSurface_init_dtype_def Let_def)

lemma RationalBezierSurface_evaluate_any_dtype:
  "RationalBezierSurface_evaluate_ndarray (S\<lparr>rb_weights_dtype := dt\<rparr>) u v
     = RationalBezierSurface_evaluate_ndarray S u v"
  by (simp add: RationalBezierSurface_evaluate_ndarray_def cong: sum.case_cong)


lemma grid_upd_nonempty:
  assumes "g \<noteq> []" "hd g \<noteq> []" "rectangular g" "fst ij < length g"
  shows "grid_upd g ij x \<noteq> []" "hd (grid_upd g ij x) \<noteq> []"
proof -
  have "length (grid_upd g ij x) = length g" by simp
  then show "grid_upd g ij x \<noteq> []" using assms(1) by (metis length_0_conv)
  have "length (hd (grid_upd g ij x)) = length (hd g)"
    using assms(3,4) by (rule grid_upd_hd_length)
  then show "hd (grid_upd g ij x) \<noteq> []" using assms(2) by (metis length_0_conv)
qed





lemma rb_get_point_upd_weights [simp]:
  "RationalBezierSurface_get_point (S\<lparr>rb_weights := w\<rparr>) r c e = RationalBezierSurface_get_point S r c e"
  by (simp add: RationalBezierSurface_get_point_def)

lemma rb_get_weight_upd_points [simp]:
  "RationalBezierSurface_get_weight (S\<lparr>rb_points := g\<rparr>) r c e = RationalBezierSurface_get_weight S r c e"
  by (simp add: RationalBezierSurface_get_weight_def)







lemma column_patches_inv:
  "rb_inv column_patch" "rb_inv half_weight_patch" "rb_inv integer_patch"
  by (simp_all add: rb_inv_def column_patch_def half_weight_patch_def integer_patch_def
      rectangular_def)

lemma astype_Float64 [simp]: "astype Float64 w = w"
  by (simp add: astype_def)





subsection \<open>G1 enforcement on rational patches\<close>




lemma astype_zero [simp]: "astype dt 0 = 0"
  by (cases dt) (simp_all add: astype_def int64_of_real_def)

lemma np_subtract_Float64 [simp]: "np_subtract Float64 a b = a - b"
  by (simp add: np_subtract_def)

lemma np_subtract_Int64_in_range:
  assumes "- (2 ^ 63) \<le> i - j" "i - j < 2 ^ 63"
  shows "np_subtract Int64 (real_of_int i) (real_of_int j) = real_of_int (i - j)"
proof -
  have "(i - j + 2 ^ 63) mod 2 ^ 64 = i - j + 2 ^ 63"
    using assms by (intro mod_pos_pos_trivial) simp_all
  then show ?thesis by (simp add: np_subtract_def)
qed










lemma bz_on_edge:
  assumes "bz_inv S"
  shows "on_edge (length (bz_points S)) (length (hd (bz_points S))) r c e
     \<longleftrightarrow> int r \<le> BezierSurface_get_parallel_degree S e
         \<and> int c \<le> BezierSurface_get_perpendicular_degree S e"
  using assms
  by (cases e) (auto simp: bz_inv_def on_edge_def BezierSurface_get_parallel_degree_def
      BezierSurface_get_perpendicular_degree_def)

lemma bz_same_shape_degrees:
  assumes "bz_inv S" "bz_inv B" "bz_same_shape S B"
  shows "BezierSurface_get_parallel_degree S e = BezierSurface_get_parallel_degree B e"
    and "BezierSurface_get_perpendicular_degree S e = BezierSurface_get_perpendicular_degree B e"
  using assms
  by (simp_all add: bz_inv_def bz_same_shape_def BezierSurface_get_parallel_degree_def
      BezierSurface_get_perpendicular_degree_def)

lemma bz_perp_nonneg:
  "bz_inv S \<Longrightarrow> 0 \<le> BezierSurface_get_perpendicular_degree S e"
  by (cases "bz_points S"; cases "hd (bz_points S)")
     (simp_all add: bz_inv_def BezierSurface_get_perpendicular_degree_def)

lemma bz_get_point:
  assumes "bz_inv S" "on_edge (length (bz_points S)) (length (hd (bz_points S))) r c e"
  shows "BezierSurface_get_point S r c e
     = Inr (grid_at (bz_points S) (slot (length (bz_points S)) (length (hd (bz_points S))) r c e))"
  using assms by (simp add: BezierSurface_get_point_def edge_get_slot bz_inv_def)

lemma bz_set_point:
  assumes "bz_inv S" "on_edge (length (bz_points S)) (length (hd (bz_points S))) r c e"
  shows "BezierSurface_set_point S x r c e
     = Inr (S\<lparr>bz_points := grid_upd (bz_points S)
                 (slot (length (bz_points S)) (length (hd (bz_points S))) r c e) x\<rparr>)"
  using assms by (simp add: BezierSurface_set_point_def edge_set_slot bz_inv_def)

lemma bz_inv_upd:
  assumes "bz_inv S" "fst ij < length (bz_points S)"
  shows "bz_inv (S\<lparr>bz_points := grid_upd (bz_points S) ij x\<rparr>)"
    and "bz_same_shape (S\<lparr>bz_points := grid_upd (bz_points S) ij x\<rparr>) S"
proof -
  have g: "bz_points S \<noteq> []" "hd (bz_points S) \<noteq> []" "rectangular (bz_points S)"
    using assms(1) by (simp_all add: bz_inv_def)
  note ne = grid_upd_nonempty[OF g assms(2), of x]
  note hl = grid_upd_hd_length[OF g(3) assms(2), of x]
  note re = grid_upd_rectangular[OF g(3) assms(2), of x]
  show "bz_inv (S\<lparr>bz_points := grid_upd (bz_points S) ij x\<rparr>)"
    using assms(1) unfolding bz_inv_def by (simp add: ne hl re)
  show "bz_same_shape (S\<lparr>bz_points := grid_upd (bz_points S) ij x\<rparr>) S"
    by (simp add: bz_same_shape_def hl)
qed

lemma bz_get_point_upd:
  assumes "bz_inv S"
    and "on_edge (length (bz_points S)) (length (hd (bz_points S))) r c e"
    and "on_edge (length (bz_points S)) (length (hd (bz_points S))) r' c' e"
  shows "BezierSurface_get_point
           (S\<lparr>bz_points := grid_upd (bz_points S)
                 (slot (length (bz_points S)) (length (hd (bz_points S))) r c e) x\<rparr>) r' c' e
         = (if r' = r \<and> c' = c then Inr x else BezierSurface_get_point S r' c' e)"
proof -
  let ?Nu = "length (bz_points S)" and ?Nv = "length (hd (bz_points S))"
  let ?S' = "S\<lparr>bz_points := grid_upd (bz_points S) (slot ?Nu ?Nv r c e) x\<rparr>"
  have g: "rectangular (bz_points S)" using assms(1) by (simp add: bz_inv_def)
  note sr = slot_in_range[OF assms(2)]
  have inv': "bz_inv ?S'" using assms(1) sr(1) by (rule bz_inv_upd)
  have dims: "length (bz_points ?S') = ?Nu" "length (hd (bz_points ?S')) = ?Nv"
    using g sr(1) by (simp_all add: grid_upd_hd_length)
  have "BezierSurface_get_point ?S' r' c' e
      = Inr (grid_at (bz_points ?S') (slot ?Nu ?Nv r' c' e))"
    using bz_get_point[OF inv', of r' c' e] assms(3) unfolding dims by simp
  also have "\<dots> = Inr (if slot ?Nu ?Nv r' c' e = slot ?Nu ?Nv r c e then x
                        else grid_at (bz_points S) (slot ?Nu ?Nv r' c' e))"
    using g sr by (simp add: grid_at_upd)
  also have "\<dots> = (if r' = r \<and> c' = c then Inr x else BezierSurface_get_point S r' c' e)"
    using bz_get_point[OF assms(1,3)] slot_inj[OF assms(3,2)] by simp
  finally show ?thesis .
qed

lemma bz_enforce_g0_ok:
  assumes "bz_inv A" "bz_inv B"
    and par: "BezierSurface_get_parallel_degree B eB = BezierSurface_get_parallel_degree A eA"
  shows "\<exists>B'. BezierSurface_enforce_g0 B A eB eA = Inr B' \<and> bz_inv B' \<and> bz_same_shape B' B
           \<and> (\<forall>r. int r \<le> BezierSurface_get_parallel_degree B eB \<longrightarrow>
                 (\<exists>p. BezierSurface_get_point A r 0 eA = Inr p
                      \<and> BezierSurface_get_point B' r 0 eB = Inr p))"
proof -
  let ?par = "BezierSurface_get_parallel_degree B eB"
  let ?body = "\<lambda>row_index self.
      or_raise (BezierSurface_get_point A row_index 0 eA) self (\<lambda>point.
      or_raise (BezierSurface_set_point self point row_index 0 eB) self Inr)"
  let ?I = "\<lambda>s. bz_inv s \<and> bz_same_shape s B"
  let ?Q = "\<lambda>r s. int r \<le> ?par
      \<and> (\<exists>p. BezierSurface_get_point A r 0 eA = Inr p \<and> BezierSurface_get_point s r 0 eB = Inr p)"
  have step: "\<exists>s'. ?body r s = Inr s' \<and> ?I s' \<and> ?Q r s' \<and> (\<forall>r'. ?Q r' s \<longrightarrow> ?Q r' s')"
    if r: "r \<in> set (py_range (?par + 1))" and I: "?I s" for r s
  proof -
    let ?Nu = "length (bz_points s)" and ?Nv = "length (hd (bz_points s))"
    have inv: "bz_inv s" and sh: "bz_same_shape s B" using I by simp_all
    have rB: "int r \<le> ?par" using r by (simp add: in_py_range)
    have oe: "on_edge ?Nu ?Nv r' 0 eB" if "int r' \<le> ?par" for r'
      using that bz_same_shape_degrees(1)[OF inv assms(2) sh] bz_perp_nonneg[OF inv]
      by (simp add: bz_on_edge[OF inv])
    have oeA: "on_edge (length (bz_points A)) (length (hd (bz_points A))) r 0 eA"
      using rB par bz_perp_nonneg[OF assms(1)] by (simp add: bz_on_edge[OF assms(1)])
    let ?p = "grid_at (bz_points A) (slot (length (bz_points A)) (length (hd (bz_points A))) r 0 eA)"
    let ?s1 = "s\<lparr>bz_points := grid_upd (bz_points s) (slot ?Nu ?Nv r 0 eB) ?p\<rparr>"
    note sr = slot_in_range[OF oe[OF rB]]
    have body: "?body r s = Inr ?s1"
      using bz_get_point[OF assms(1) oeA] bz_set_point[OF inv oe[OF rB], of ?p]
      by (simp add: or_raise_def)
    have inv1: "bz_inv ?s1" using inv sr(1) by (rule bz_inv_upd)
    have "bz_same_shape ?s1 s" using inv sr(1) by (rule bz_inv_upd)
    then have sh1: "bz_same_shape ?s1 B" using sh by (simp add: bz_same_shape_def)
    have gp: "BezierSurface_get_point ?s1 r' 0 eB
        = (if r' = r then Inr ?p else BezierSurface_get_point s r' 0 eB)"
      if "int r' \<le> ?par" for r'
      using bz_get_point_upd[OF inv oe[OF rB] oe[OF that], of ?p] by simp
    have Qr: "?Q r ?s1" using rB bz_get_point[OF assms(1) oeA] gp[OF rB] by simp
    have keep: "\<forall>r'. ?Q r' s \<longrightarrow> ?Q r' ?s1"
    proof (intro allI impI)
      fix r' assume q: "?Q r' s"
      then have r': "int r' \<le> ?par" by simp
      show "?Q r' ?s1"
      proof (cases "r' = r")
        case True
        then show ?thesis using Qr by simp
      next
        case False
        then show ?thesis using q gp[OF r'] by simp
      qed
    qed
    show ?thesis using body inv1 sh1 Qr keep by blast
  qed
  have I0: "?I B" using assms(2) by (simp add: bz_same_shape_def)
  from for_rows_establishes[where I = ?I and Q = ?Q and body = ?body, OF I0 step]
  obtain B' where B': "for_rows ?body (py_range (?par + 1)) B = Inr B'" "bz_inv B'"
    "bz_same_shape B' B" "\<forall>r\<in>set (py_range (?par + 1)). ?Q r B'"
    by blast
  have "BezierSurface_enforce_g0 B A eB eA = Inr B'"
    using B'(1) par by (simp add: BezierSurface_enforce_g0_def)
  moreover have "\<forall>r. int r \<le> ?par \<longrightarrow> ?Q r B'"
    using B'(4) by (simp add: in_py_range)
  ultimately show ?thesis using B'(2,3) by blast
qed

subsection \<open>G1 enforcement on polynomial patches\<close>

lemma bz_enforce_g0g1_ok:
  assumes "bz_inv A" "bz_inv B"
    and par: "BezierSurface_get_parallel_degree B eB = BezierSurface_get_parallel_degree A eA"
    and perpA: "1 \<le> BezierSurface_get_perpendicular_degree A eA"
    and perpB: "1 \<le> BezierSurface_get_perpendicular_degree B eB"
  defines "n_ratio \<equiv> real_of_int (BezierSurface_get_perpendicular_degree A eA)
                       / real_of_int (BezierSurface_get_perpendicular_degree B eB)"
  shows "\<exists>B'. BezierSurface_enforce_g0g1 B A f eB eA = Inr B' \<and> bz_inv B' \<and> bz_same_shape B' B
           \<and> (\<forall>r. int r \<le> BezierSurface_get_parallel_degree B eB \<longrightarrow>
                 (\<exists>p0 p1. BezierSurface_get_point A r 0 eA = Inr p0
                      \<and> BezierSurface_get_point A r 1 eA = Inr p1
                      \<and> BezierSurface_get_point B' r 0 eB = Inr p0
                      \<and> BezierSurface_get_point B' r 1 eB = Inr (p0 + (f * n_ratio) *\<^sub>R (p0 - p1))))"
proof -
  let ?par = "BezierSurface_get_parallel_degree B eB"
  from bz_enforce_g0_ok[OF assms(1,2) par]
  obtain B0 where B0: "BezierSurface_enforce_g0 B A eB eA = Inr B0" "bz_inv B0" "bz_same_shape B0 B"
    "\<forall>r. int r \<le> ?par \<longrightarrow>
       (\<exists>p. BezierSurface_get_point A r 0 eA = Inr p \<and> BezierSurface_get_point B0 r 0 eB = Inr p)"
    by blast
  have deg0: "BezierSurface_get_parallel_degree B0 eB = ?par"
    "BezierSurface_get_perpendicular_degree B0 eB = BezierSurface_get_perpendicular_degree B eB"
    using bz_same_shape_degrees[OF B0(2) assms(2) B0(3)] by simp_all
  have nr: "py_int_div (BezierSurface_get_perpendicular_degree A eA)
              (BezierSurface_get_perpendicular_degree B0 eB) = Inr n_ratio"
    using perpB by (simp add: py_int_div_def deg0 n_ratio_def)
  let ?body = "\<lambda>row_index self.
      or_raise (BezierSurface_get_point self row_index 0 eB) self (\<lambda>P_i0_b.
      or_raise (BezierSurface_get_point A row_index 0 eA) self (\<lambda>P_im_a.
      or_raise (BezierSurface_get_point A row_index 1 eA) self (\<lambda>P_im1_a.
      let P_i1_b = P_i0_b + (f * n_ratio) *\<^sub>R (P_im_a - P_im1_a)
      in or_raise (BezierSurface_set_point self P_i1_b row_index 1 eB) self Inr)))"
  let ?a = "\<lambda>r c. grid_at (bz_points A) (slot (length (bz_points A)) (length (hd (bz_points A))) r c eA)"
  have oeA: "on_edge (length (bz_points A)) (length (hd (bz_points A))) r c eA"
    if "int r \<le> ?par" "c \<le> 1" for r c
    using that par perpA by (simp add: bz_on_edge[OF assms(1)])
  have getA: "BezierSurface_get_point A r c eA = Inr (?a r c)" if "int r \<le> ?par" "c \<le> 1" for r c
    using bz_get_point[OF assms(1) oeA[OF that]] .
  let ?I = "\<lambda>s. bz_inv s \<and> bz_same_shape s B
      \<and> (\<forall>r. int r \<le> ?par \<longrightarrow> BezierSurface_get_point s r 0 eB = Inr (?a r 0))"
  let ?Q = "\<lambda>r s. int r \<le> ?par
      \<and> BezierSurface_get_point s r 1 eB = Inr (?a r 0 + (f * n_ratio) *\<^sub>R (?a r 0 - ?a r 1))"
  have step: "\<exists>s'. ?body r s = Inr s' \<and> ?I s' \<and> ?Q r s' \<and> (\<forall>r'. ?Q r' s \<longrightarrow> ?Q r' s')"
    if r: "r \<in> set (py_range (?par + 1))" and I: "?I s" for r s
  proof -
    let ?Nu = "length (bz_points s)" and ?Nv = "length (hd (bz_points s))"
    have inv: "bz_inv s" and sh: "bz_same_shape s B"
      and b0: "\<And>r. int r \<le> ?par \<Longrightarrow> BezierSurface_get_point s r 0 eB = Inr (?a r 0)"
      using I by simp_all
    have rB: "int r \<le> ?par" using r by (simp add: in_py_range)
    have oe: "on_edge ?Nu ?Nv r' c eB" if "int r' \<le> ?par" "c \<le> 1" for r' c
      using that bz_same_shape_degrees[OF inv assms(2) sh] perpB
      by (simp add: bz_on_edge[OF inv])
    let ?p = "?a r 0 + (f * n_ratio) *\<^sub>R (?a r 0 - ?a r 1)"
    let ?s1 = "s\<lparr>bz_points := grid_upd (bz_points s) (slot ?Nu ?Nv r 1 eB) ?p\<rparr>"
    have oe1: "on_edge ?Nu ?Nv r 1 eB" using oe[OF rB] by simp
    note sr = slot_in_range[OF oe1]
    have body: "?body r s = Inr ?s1"
      using b0[OF rB] getA[OF rB, of 0] getA[OF rB, of 1] bz_set_point[OF inv oe1, of ?p]
      by (simp add: or_raise_def Let_def del: One_nat_def)
    have inv1: "bz_inv ?s1" using inv sr(1) by (rule bz_inv_upd)
    have "bz_same_shape ?s1 s" using inv sr(1) by (rule bz_inv_upd)
    then have sh1: "bz_same_shape ?s1 B" using sh by (simp add: bz_same_shape_def)
    have gp: "BezierSurface_get_point ?s1 r' c eB
        = (if r' = r \<and> c = 1 then Inr ?p else BezierSurface_get_point s r' c eB)"
      if "int r' \<le> ?par" "c \<le> 1" for r' c
      using bz_get_point_upd[OF inv oe1 oe[OF that], of ?p] by simp
    have I1: "?I ?s1"
      using inv1 sh1 b0 gp[of _ 0] by simp
    have Qr: "?Q r ?s1" using rB gp[OF rB, of 1] by simp
    have keep: "\<forall>r'. ?Q r' s \<longrightarrow> ?Q r' ?s1"
    proof (intro allI impI)
      fix r' assume q: "?Q r' s"
      then have r': "int r' \<le> ?par" by simp
      show "?Q r' ?s1"
      proof (cases "r' = r")
        case True
        then show ?thesis using Qr by simp
      next
        case False
        then show ?thesis using q gp[OF r', of 1] by simp
      qed
    qed
    show ?thesis using body I1 Qr keep by blast
  qed
  have I0: "?I B0"
  proof (intro conjI allI impI)
    fix r assume r: "int r \<le> ?par"
    from B0(4) r obtain p where "BezierSurface_get_point A r 0 eA = Inr p"
      "BezierSurface_get_point B0 r 0 eB = Inr p" by blast
    then show "BezierSurface_get_point B0 r 0 eB = Inr (?a r 0)"
      using getA[OF r, of 0] by simp
  qed (use B0 in simp_all)
  from for_rows_establishes[where I = ?I and Q = ?Q and body = ?body, OF I0 step]
  obtain B' where B': "for_rows ?body (py_range (?par + 1)) B0 = Inr B'" "?I B'"
    "\<forall>r\<in>set (py_range (?par + 1)). ?Q r B'"
    by blast
  have "BezierSurface_enforce_g0g1 B A f eB eA = Inr B'"
    using B'(1) nr unfolding deg0
    by (simp add: BezierSurface_enforce_g0g1_def B0(1) or_raise_def deg0)
  moreover have "\<forall>r. int r \<le> ?par \<longrightarrow>
                 (\<exists>p0 p1. BezierSurface_get_point A r 0 eA = Inr p0
                      \<and> BezierSurface_get_point A r 1 eA = Inr p1
                      \<and> BezierSurface_get_point B' r 0 eB = Inr p0
                      \<and> BezierSurface_get_point B' r 1 eB = Inr (p0 + (f * n_ratio) *\<^sub>R (p0 - p1)))"
  proof (intro allI impI)
    fix r assume r: "int r \<le> ?par"
    then have "?Q r B'" using B'(3) by (simp add: in_py_range)
    then show "\<exists>p0 p1. BezierSurface_get_point A r 0 eA = Inr p0
                      \<and> BezierSurface_get_point A r 1 eA = Inr p1
                      \<and> BezierSurface_get_point B' r 0 eB = Inr p0
                      \<and> BezierSurface_get_point B' r 1 eB = Inr (p0 + (f * n_ratio) *\<^sub>R (p0 - p1))"
      using getA[OF r, of 0] getA[OF r, of 1] B'(2) r by simp
  qed
  ultimately show ?thesis using B'(2) by blast
qed

lemma bernstein_poly_int_at_0:
  "0 \<le> n \<Longrightarrow> bernstein_poly n k 0 = (if k = 0 then 1 else 0)"
  by (auto simp: bernstein_poly_def power_0_left)

lemma bernstein_poly_int_at_1:
  "0 \<le> n \<Longrightarrow> bernstein_poly n k 1 = (if k = n then 1 else 0)"
  by (auto simp: bernstein_poly_def power_0_left)

lemma pick_two:
  fixes g :: "nat \<Rightarrow> vec3"
  assumes "a < N" "b < N"
  shows "(\<Sum>i<N. (c * ((if i = a then 1 else 0) - (if i = b then 1 else 0))) *\<^sub>R g i)
       = c *\<^sub>R (g a - g b)"
proof -
  have "(\<Sum>i<N. (c * ((if i = a then 1 else 0) - (if i = b then 1 else 0))) *\<^sub>R g i)
      = (\<Sum>i<N. (if i = a then c *\<^sub>R g i else 0) - (if i = b then c *\<^sub>R g i else 0))"
    by (intro sum.cong refl) (simp add: algebra_simps)
  also have "\<dots> = c *\<^sub>R g a - c *\<^sub>R g b"
    using assms by (simp add: sum_subtractf)
  finally show ?thesis by (simp add: algebra_simps)
qed

lemma pick_two_outer:
  fixes P :: "nat \<Rightarrow> nat \<Rightarrow> vec3"
  assumes "a < N" "b < N"
  shows "(\<Sum>i<N. \<Sum>j<M. (n * ((if i = a then 1 else 0) - (if i = b then 1 else 0)) * B j) *\<^sub>R P i j)
       = (\<Sum>j<M. (n * B j) *\<^sub>R (P a j - P b j))"
proof -
  have "(\<Sum>i<N. \<Sum>j<M. (n * ((if i = a then 1 else 0) - (if i = b then 1 else 0)) * B j) *\<^sub>R P i j)
      = (\<Sum>j<M. \<Sum>i<N. ((n * B j) * ((if i = a then 1 else 0) - (if i = b then 1 else 0))) *\<^sub>R P i j)"
    by (subst sum.swap) (simp add: mult_ac)
  also have "\<dots> = (\<Sum>j<M. (n * B j) *\<^sub>R (P a j - P b j))"
    by (intro sum.cong refl) (rule pick_two[OF assms])
  finally show ?thesis .
qed

lemma pick_two_inner:
  fixes P :: "nat \<Rightarrow> nat \<Rightarrow> vec3"
  assumes "a < M" "b < M"
  shows "(\<Sum>i<N. \<Sum>j<M. (B i * (n * ((if j = a then 1 else 0) - (if j = b then 1 else 0)))) *\<^sub>R P i j)
       = (\<Sum>i<N. (n * B i) *\<^sub>R (P i a - P i b))"
proof -
  have "(\<Sum>j<M. (B i * (n * ((if j = a then 1 else 0) - (if j = b then 1 else 0)))) *\<^sub>R P i j)
      = (n * B i) *\<^sub>R (P i a - P i b)" for i
    using pick_two[OF assms, of "n * B i" "P i"] by (simp add: mult_ac)
  then show ?thesis by simp
qed

lemma bz_dSdu_sum:
  assumes "bz_inv S"
  shows "BezierSurface_dSdu S u v =
    Inr (\<Sum>i<length (bz_points S). \<Sum>j<length (hd (bz_points S)).
         (real_of_int (bz_degree_u S)
            * (bernstein_poly (bz_degree_u S - 1) (int i - 1) u - bernstein_poly (bz_degree_u S - 1) (int i) u)
            * bernstein_poly (bz_degree_v S) (int j) v) *\<^sub>R (bz_points S ! i ! j))"
proof -
  have gc: "get_control_point_array (bz_points S) = Inr (bz_points S)"
    using assms by (simp add: get_control_point_array_ok bz_inv_def)
  have r: "py_range (bz_degree_u S + 1) = [0..<length (bz_points S)]"
    "py_range (bz_degree_v S + 1) = [0..<length (hd (bz_points S))]"
    using assms by (simp_all add: py_range_def bz_inv_def)
  show ?thesis
    unfolding BezierSurface_dSdu_def gc r
    by (simp add: Let_def fold_fold_plus_sum_list sum_list_upt_lessThan)
qed

lemma bz_dSdv_sum:
  assumes "bz_inv S"
  shows "BezierSurface_dSdv S u v =
    Inr (\<Sum>i<length (bz_points S). \<Sum>j<length (hd (bz_points S)).
         (bernstein_poly (bz_degree_u S) (int i) u
            * (real_of_int (bz_degree_v S)
                * (bernstein_poly (bz_degree_v S - 1) (int j - 1) v - bernstein_poly (bz_degree_v S - 1) (int j) v)))
          *\<^sub>R (bz_points S ! i ! j))"
proof -
  have gc: "get_control_point_array (bz_points S) = Inr (bz_points S)"
    using assms by (simp add: get_control_point_array_ok bz_inv_def)
  have r: "py_range (bz_degree_u S + 1) = [0..<length (bz_points S)]"
    "py_range (bz_degree_v S + 1) = [0..<length (hd (bz_points S))]"
    using assms by (simp_all add: py_range_def bz_inv_def)
  show ?thesis
    unfolding BezierSurface_dSdv_def gc r
    by (simp add: Let_def fold_fold_plus_sum_list sum_list_upt_lessThan)
qed

lemma first_deriv_perp_formula:
  assumes inv: "bz_inv S" and perp: "1 \<le> BezierSurface_get_perpendicular_degree S e"
  shows "first_deriv_perp S e t =
    Inr (\<Sum>r<nat (BezierSurface_get_parallel_degree S e + 1).
          (real_of_int (BezierSurface_get_perpendicular_degree S e)
             * bernstein_poly (BezierSurface_get_parallel_degree S e) (int r) t)
          *\<^sub>R (edge_sign e *\<^sub>R
               (grid_at (bz_points S) (slot (length (bz_points S)) (length (hd (bz_points S))) r 1 e)
                - grid_at (bz_points S) (slot (length (bz_points S)) (length (hd (bz_points S))) r 0 e))))"
proof -
  let ?Nu = "length (bz_points S)" and ?Nv = "length (hd (bz_points S))"
  have du: "bz_degree_u S = int ?Nu - 1" and dv: "bz_degree_v S = int ?Nv - 1"
    using inv by (simp_all add: bz_inv_def)
  have pos: "0 < ?Nu" "0 < ?Nv" using inv by (simp_all add: bz_inv_def)
  have i0: "int i = 0 \<longleftrightarrow> i = 0" "int i - 1 = 0 \<longleftrightarrow> i = 1" for i by auto
  show ?thesis
  proof (cases e)
    case West
    then have n2: "2 \<le> ?Nu"
      using perp du by (simp add: BezierSurface_get_perpendicular_degree_def)
    then have lo: "1 < ?Nu" "0 < ?Nu" and hi: "?Nu - 1 < ?Nu" "?Nu - 2 < ?Nu" by arith+
    have d0: "0 \<le> bz_degree_u S - 1" using n2 du by simp
    have c: "bernstein_poly (bz_degree_u S - 1) (int i - 1) 0 - bernstein_poly (bz_degree_u S - 1) (int i) 0
        = (if i = 1 then 1 else 0) - (if i = 0 then 1 else 0)" for i
      by (simp only: bernstein_poly_int_at_0[OF d0] i0)
    have "BezierSurface_dSdu S 0 t
        = Inr (\<Sum>i<?Nu. \<Sum>j<?Nv.
            (real_of_int (bz_degree_u S) * ((if i = 1 then 1 else 0) - (if i = 0 then 1 else 0))
              * bernstein_poly (bz_degree_v S) (int j) t) *\<^sub>R (bz_points S ! i ! j))"
      by (simp only: bz_dSdu_sum[OF inv] c)
    also have "\<dots> = Inr (\<Sum>j<?Nv. (real_of_int (bz_degree_u S) * bernstein_poly (bz_degree_v S) (int j) t)
                        *\<^sub>R (bz_points S ! 1 ! j - bz_points S ! 0 ! j))"
      by (subst pick_two_outer[OF lo]) (rule refl)
    finally show ?thesis
      using pos by (simp add: West first_deriv_perp_def BezierSurface_get_parallel_degree_def
          BezierSurface_get_perpendicular_degree_def edge_sign_def far_edge_def slot_def grid_at_def dv)
  next
    case East
    then have n2: "2 \<le> ?Nu"
      using perp du by (simp add: BezierSurface_get_perpendicular_degree_def)
    then have lo: "1 < ?Nu" "0 < ?Nu" and hi: "?Nu - 1 < ?Nu" "?Nu - 2 < ?Nu" by arith+
    have d0: "0 \<le> bz_degree_u S - 1" using n2 du by simp
    have i1: "int i - 1 = bz_degree_u S - 1 \<longleftrightarrow> i = ?Nu - 1"
      "int i = bz_degree_u S - 1 \<longleftrightarrow> i = ?Nu - 2" for i
      unfolding du using n2 by arith+
    have c: "bernstein_poly (bz_degree_u S - 1) (int i - 1) 1 - bernstein_poly (bz_degree_u S - 1) (int i) 1
        = (if i = ?Nu - 1 then 1 else 0) - (if i = ?Nu - 2 then 1 else 0)" for i
      by (simp only: bernstein_poly_int_at_1[OF d0] i1)
    have "BezierSurface_dSdu S 1 t
        = Inr (\<Sum>i<?Nu. \<Sum>j<?Nv.
            (real_of_int (bz_degree_u S) * ((if i = ?Nu - 1 then 1 else 0) - (if i = ?Nu - 2 then 1 else 0))
              * bernstein_poly (bz_degree_v S) (int j) t) *\<^sub>R (bz_points S ! i ! j))"
      by (simp only: bz_dSdu_sum[OF inv] c)
    also have "\<dots> = Inr (\<Sum>j<?Nv. (real_of_int (bz_degree_u S) * bernstein_poly (bz_degree_v S) (int j) t)
                        *\<^sub>R (bz_points S ! (?Nu - 1) ! j - bz_points S ! (?Nu - 2) ! j))"
      by (subst pick_two_outer[OF hi]) (rule refl)
    finally show ?thesis
      using pos by (simp add: East first_deriv_perp_def BezierSurface_get_parallel_degree_def
          BezierSurface_get_perpendicular_degree_def edge_sign_def far_edge_def slot_def grid_at_def dv
          numeral_2_eq_2 algebra_simps)
  next
    case South
    then have n2: "2 \<le> ?Nv"
      using perp dv by (simp add: BezierSurface_get_perpendicular_degree_def)
    then have lo: "1 < ?Nv" "0 < ?Nv" and hi: "?Nv - 1 < ?Nv" "?Nv - 2 < ?Nv" by arith+
    have d0: "0 \<le> bz_degree_v S - 1" using n2 dv by simp
    have c: "bernstein_poly (bz_degree_v S - 1) (int j - 1) 0 - bernstein_poly (bz_degree_v S - 1) (int j) 0
        = (if j = 1 then 1 else 0) - (if j = 0 then 1 else 0)" for j
      by (simp only: bernstein_poly_int_at_0[OF d0] i0)
    have "BezierSurface_dSdv S t 0
        = Inr (\<Sum>i<?Nu. \<Sum>j<?Nv.
            (bernstein_poly (bz_degree_u S) (int i) t
              * (real_of_int (bz_degree_v S) * ((if j = 1 then 1 else 0) - (if j = 0 then 1 else 0))))
            *\<^sub>R (bz_points S ! i ! j))"
      by (simp only: bz_dSdv_sum[OF inv] c)
    also have "\<dots> = Inr (\<Sum>i<?Nu. (real_of_int (bz_degree_v S) * bernstein_poly (bz_degree_u S) (int i) t)
                        *\<^sub>R (bz_points S ! i ! 1 - bz_points S ! i ! 0))"
      by (subst pick_two_inner[OF lo]) (rule refl)
    finally show ?thesis
      using pos by (simp add: South first_deriv_perp_def BezierSurface_get_parallel_degree_def
          BezierSurface_get_perpendicular_degree_def edge_sign_def far_edge_def slot_def grid_at_def du)
  next
    case North
    then have n2: "2 \<le> ?Nv"
      using perp dv by (simp add: BezierSurface_get_perpendicular_degree_def)
    then have lo: "1 < ?Nv" "0 < ?Nv" and hi: "?Nv - 1 < ?Nv" "?Nv - 2 < ?Nv" by arith+
    have d0: "0 \<le> bz_degree_v S - 1" using n2 dv by simp
    have i1: "int j - 1 = bz_degree_v S - 1 \<longleftrightarrow> j = ?Nv - 1"
      "int j = bz_degree_v S - 1 \<longleftrightarrow> j = ?Nv - 2" for j
      unfolding dv using n2 by arith+
    have c: "bernstein_poly (bz_degree_v S - 1) (int j - 1) 1 - bernstein_poly (bz_degree_v S - 1) (int j) 1
        = (if j = ?Nv - 1 then 1 else 0) - (if j = ?Nv - 2 then 1 else 0)" for j
      by (simp only: bernstein_poly_int_at_1[OF d0] i1)
    have "BezierSurface_dSdv S t 1
        = Inr (\<Sum>i<?Nu. \<Sum>j<?Nv.
            (bernstein_poly (bz_degree_u S) (int i) t
              * (real_of_int (bz_degree_v S) * ((if j = ?Nv - 1 then 1 else 0) - (if j = ?Nv - 2 then 1 else 0))))
            *\<^sub>R (bz_points S ! i ! j))"
      by (simp only: bz_dSdv_sum[OF inv] c)
    also have "\<dots> = Inr (\<Sum>i<?Nu. (real_of_int (bz_degree_v S) * bernstein_poly (bz_degree_u S) (int i) t)
                        *\<^sub>R (bz_points S ! i ! (?Nv - 1) - bz_points S ! i ! (?Nv - 2)))"
      by (subst pick_two_inner[OF hi]) (rule refl)
    finally show ?thesis
      using pos by (simp add: North first_deriv_perp_def BezierSurface_get_parallel_degree_def
          BezierSurface_get_perpendicular_degree_def edge_sign_def far_edge_def slot_def grid_at_def du
          numeral_2_eq_2 algebra_simps)
  qed
qed

lemma bz_g1_derivative:
  assumes invA: "bz_inv A" and invB: "bz_inv B"
    and par: "BezierSurface_get_parallel_degree B eB = BezierSurface_get_parallel_degree A eA"
    and perp: "BezierSurface_get_perpendicular_degree B eB = BezierSurface_get_perpendicular_degree A eA"
    and perp1: "1 \<le> BezierSurface_get_perpendicular_degree B eB"
  shows "\<exists>B'. BezierSurface_enforce_g0g1 B A 1 eB eA = Inr B'
           \<and> (\<forall>t. \<exists>dA. first_deriv_perp A eA t = Inr dA
                  \<and> first_deriv_perp B' eB t = Inr ((- (edge_sign eB * edge_sign eA)) *\<^sub>R dA))"
proof -
  let ?par = "BezierSurface_get_parallel_degree B eB"
  let ?perp = "BezierSurface_get_perpendicular_degree B eB"
  have perpA: "1 \<le> BezierSurface_get_perpendicular_degree A eA" using perp perp1 by simp
  from bz_enforce_g0g1_ok[OF invA invB par perpA perp1, of 1]
  obtain B' where B': "BezierSurface_enforce_g0g1 B A 1 eB eA = Inr B'" "bz_inv B'"
    "bz_same_shape B' B"
    "\<And>r. int r \<le> ?par \<Longrightarrow>
       \<exists>p0 p1. BezierSurface_get_point A r 0 eA = Inr p0
           \<and> BezierSurface_get_point A r 1 eA = Inr p1
           \<and> BezierSurface_get_point B' r 0 eB = Inr p0
           \<and> BezierSurface_get_point B' r 1 eB = Inr (p0 + (p0 - p1))"
    using perp perp1 by auto
  have deg: "BezierSurface_get_parallel_degree B' eB = ?par"
    "BezierSurface_get_perpendicular_degree B' eB = ?perp"
    using bz_same_shape_degrees[OF B'(2) invB B'(3)] by simp_all
  let ?a = "\<lambda>r c. grid_at (bz_points A) (slot (length (bz_points A)) (length (hd (bz_points A))) r c eA)"
  let ?b = "\<lambda>r c. grid_at (bz_points B') (slot (length (bz_points B')) (length (hd (bz_points B'))) r c eB)"
  have diff: "?b r 1 - ?b r 0 = ?a r 0 - ?a r 1" if r: "int r \<le> ?par" for r
  proof -
    have oeA: "on_edge (length (bz_points A)) (length (hd (bz_points A))) r c eA" if "c \<le> 1" for c
      using that r par perpA by (simp add: bz_on_edge[OF invA])
    have oeB: "on_edge (length (bz_points B')) (length (hd (bz_points B'))) r c eB" if "c \<le> 1" for c
      using that r perp1 deg by (simp add: bz_on_edge[OF B'(2)])
    from B'(4)[OF r] obtain p0 p1 where p:
      "BezierSurface_get_point A r 0 eA = Inr p0" "BezierSurface_get_point A r 1 eA = Inr p1"
      "BezierSurface_get_point B' r 0 eB = Inr p0" "BezierSurface_get_point B' r 1 eB = Inr (p0 + (p0 - p1))"
      by blast
    have "?a r 0 = p0" "?a r 1 = p1" "?b r 0 = p0" "?b r 1 = p0 + (p0 - p1)"
      using p bz_get_point[OF invA oeA, of 0] bz_get_point[OF invA oeA, of 1]
        bz_get_point[OF B'(2) oeB, of 0] bz_get_point[OF B'(2) oeB, of 1]
      by simp_all
    then show ?thesis by simp
  qed
  let ?c = "\<lambda>r t. real_of_int ?perp * bernstein_poly ?par (int r) t"
  have sq: "edge_sign eA * edge_sign eA = 1" by (simp add: edge_sign_def)
  have "\<exists>dA. first_deriv_perp A eA t = Inr dA
          \<and> first_deriv_perp B' eB t = Inr ((- (edge_sign eB * edge_sign eA)) *\<^sub>R dA)" for t
  proof -
    let ?dA = "\<Sum>r<nat (?par + 1). ?c r t *\<^sub>R (edge_sign eA *\<^sub>R (?a r 1 - ?a r 0))"
    have dA: "first_deriv_perp A eA t = Inr ?dA"
      using first_deriv_perp_formula[OF invA perpA, of t] by (simp add: par perp)
    have "first_deriv_perp B' eB t
        = Inr (\<Sum>r<nat (?par + 1). ?c r t *\<^sub>R (edge_sign eB *\<^sub>R (?b r 1 - ?b r 0)))"
      using first_deriv_perp_formula[OF B'(2), of eB t] perp1 by (simp add: deg)
    also have "(\<Sum>r<nat (?par + 1). ?c r t *\<^sub>R (edge_sign eB *\<^sub>R (?b r 1 - ?b r 0)))
        = (\<Sum>r<nat (?par + 1). (- (edge_sign eB * edge_sign eA)) *\<^sub>R
              (?c r t *\<^sub>R (edge_sign eA *\<^sub>R (?a r 1 - ?a r 0))))"
    proof (intro sum.cong refl)
      fix r assume "r \<in> {..<nat (?par + 1)}"
      then have r: "int r \<le> ?par" by auto
      have "(- (edge_sign eB * edge_sign eA)) *\<^sub>R (?c r t *\<^sub>R (edge_sign eA *\<^sub>R (?a r 1 - ?a r 0)))
          = (?c r t * edge_sign eB * (edge_sign eA * edge_sign eA)) *\<^sub>R (?a r 0 - ?a r 1)"
        by (simp add: algebra_simps)
      also have "\<dots> = ?c r t *\<^sub>R (edge_sign eB *\<^sub>R (?a r 0 - ?a r 1))"
        unfolding sq by simp
      finally show "?c r t *\<^sub>R (edge_sign eB *\<^sub>R (?b r 1 - ?b r 0))
          = (- (edge_sign eB * edge_sign eA)) *\<^sub>R (?c r t *\<^sub>R (edge_sign eA *\<^sub>R (?a r 1 - ?a r 0)))"
        unfolding diff[OF r] by simp
    qed
    also have "\<dots> = (- (edge_sign eB * edge_sign eA)) *\<^sub>R ?dA"
      by (simp only: scaleR_sum_right)
    finally show ?thesis using dA by blast
  qed
  then show ?thesis using B'(1) by blast
qed

lemma patches_inv: "bz_inv square_patch" "bz_inv other_patch"
  by (simp_all add: bz_inv_def square_patch_def other_patch_def rectangular_def)

lemma patches_degrees:
  "BezierSurface_get_parallel_degree square_patch e = 1"
  "BezierSurface_get_perpendicular_degree square_patch e = 1"
  "BezierSurface_get_parallel_degree other_patch e = 1"
  "BezierSurface_get_perpendicular_degree other_patch e = 1"
  by (simp_all add: BezierSurface_get_parallel_degree_def BezierSurface_get_perpendicular_degree_def
      square_patch_def other_patch_def)

lemma py_range_2: "py_range 2 = [0, 1]" "py_range 1 = [0]"
  by (simp_all add: py_range_def numeral_2_eq_2)

lemma square_patch_deriv_west:
  "first_deriv_perp square_patch West t = Inr (Vec3 1 0 0)"
  by (simp add: first_deriv_perp_def BezierSurface_dSdu_def square_patch_def
      get_control_point_array_def rectangular_def py_range_2 bernstein_poly_def
      zero_vec3_def plus_vec3_def scaleR_vec3_def)

text \<open>
  Joining the West edge of one patch to the West edge of another: the degrees agree, the
  enforcement returns, and the derivative across the edge of the joined patch is the
  opposite of the other patch's, not equal to it. And joining two patches of perpendicular
  degree 0: the ratio of the degrees raises \<^verbatim>\<open>ZeroDivisionError\<close> after the boundary has been
  copied.
\<close>

theorem bezier_g1_same_side_counterexample:
  "BezierSurface_init [[Vec3 0 0 0, Vec3 0 1 0], [Vec3 1 0 0, Vec3 1 1 0]] = Inr square_patch
   \<and> BezierSurface_init [[Vec3 5 0 1, Vec3 5 1 2], [Vec3 7 0 3, Vec3 7 1 4]] = Inr other_patch
   \<and> BezierSurface_get_parallel_degree other_patch West
        = BezierSurface_get_parallel_degree square_patch West
   \<and> BezierSurface_get_perpendicular_degree other_patch West
        = BezierSurface_get_perpendicular_degree square_patch West
   \<and> BezierSurface_enforce_g0g1 other_patch square_patch 1 West West = Inr other_patch_west_west
   \<and> first_deriv_perp other_patch_west_west West (1 / 2) = Inr (Vec3 (- 1) 0 0)
   \<and> first_deriv_perp square_patch West (1 / 2) = Inr (Vec3 1 0 0)
   \<and> BezierSurface_init [[Vec3 1 1 1]] = Inr (point_patch (Vec3 1 1 1))
   \<and> BezierSurface_init [[Vec3 0 0 0]] = Inr (point_patch (Vec3 0 0 0))
   \<and> BezierSurface_enforce_g0g1 (point_patch (Vec3 1 1 1)) (point_patch (Vec3 0 0 0)) 1 West East
        = Inl (ZeroDivisionError, point_patch (Vec3 0 0 0))"
proof -
  have 5: "BezierSurface_enforce_g0 (point_patch (Vec3 1 1 1)) (point_patch (Vec3 0 0 0)) West East
      = Inr (point_patch (Vec3 0 0 0))"
    by (simp add: BezierSurface_enforce_g0_def BezierSurface_get_parallel_degree_def py_range_2
        or_raise_def BezierSurface_get_point_def BezierSurface_set_point_def edge_get_def
        edge_set_def grid_index_def grid_store_def py_index_def py_store_def point_patch_def)
  have 6: "BezierSurface_enforce_g0g1 (point_patch (Vec3 1 1 1)) (point_patch (Vec3 0 0 0)) 1 West East
        = Inl (ZeroDivisionError, point_patch (Vec3 0 0 0))"
    unfolding BezierSurface_enforce_g0g1_def 5
    by (simp add: BezierSurface_get_perpendicular_degree_def py_int_div_def or_raise_def
        point_patch_def)
  have 7: "BezierSurface_init [[p]] = Inr (point_patch p)" for p
    by (simp add: BezierSurface_init_def py_index_def point_patch_def)
  have 1: "BezierSurface_enforce_g0 other_patch square_patch West West
      = Inr \<lparr> bz_points = [[Vec3 0 0 0, Vec3 0 1 0], [Vec3 7 0 3, Vec3 7 1 4]],
              bz_degree_u = 1, bz_degree_v = 1, bz_Nu = 2, bz_Nv = 2 \<rparr>"
    unfolding BezierSurface_enforce_g0_def patches_degrees
    by (simp add: py_range_2 or_raise_def
        BezierSurface_get_point_def BezierSurface_set_point_def edge_get_def edge_set_def
        grid_index_def grid_store_def py_index_def py_store_def square_patch_def other_patch_def)
  have 2: "BezierSurface_enforce_g0g1 other_patch square_patch 1 West West = Inr other_patch_west_west"
    unfolding BezierSurface_enforce_g0g1_def 1
    by (simp add: BezierSurface_get_parallel_degree_def BezierSurface_get_perpendicular_degree_def
        py_int_div_def py_range_2 or_raise_def
        BezierSurface_get_point_def BezierSurface_set_point_def edge_get_def edge_set_def
        grid_index_def grid_store_def py_index_def py_store_def square_patch_def
        other_patch_west_west_def plus_vec3_def minus_vec3_def scaleR_vec3_def)
  have 3: "first_deriv_perp other_patch_west_west West (1 / 2) = Inr (Vec3 (- 1) 0 0)"
    by (simp add: first_deriv_perp_def BezierSurface_dSdu_def other_patch_west_west_def
      get_control_point_array_def rectangular_def py_range_2 bernstein_poly_def
      zero_vec3_def plus_vec3_def scaleR_vec3_def)
  have 4: "BezierSurface_init [[Vec3 0 0 0, Vec3 0 1 0], [Vec3 1 0 0, Vec3 1 1 0]] = Inr square_patch"
    "BezierSurface_init [[Vec3 5 0 1, Vec3 5 1 2], [Vec3 7 0 3, Vec3 7 1 4]] = Inr other_patch"
    by (simp_all add: BezierSurface_init_def py_index_def square_patch_def other_patch_def)
  show ?thesis
    using 2 3 4 6 7 square_patch_deriv_west[of "1 / 2"] by (simp add: patches_degrees)
qed

lemma square_patch_deriv_east:
  "first_deriv_perp square_patch East t = Inr (Vec3 1 0 0)"
  by (simp add: first_deriv_perp_def BezierSurface_dSdu_def square_patch_def
      get_control_point_array_def rectangular_def py_range_2 bernstein_poly_def
      zero_vec3_def plus_vec3_def scaleR_vec3_def)

text \<open>
  Claim C4, as the code has it. \<open>A\<close> and \<open>B\<close> are two polynomial patches (two objects, each
  with at least one control point) whose joined edges \<open>eA\<close> and \<open>eB\<close> have equal parallel
  degrees and equal perpendicular degrees, the latter at least 1 (with perpendicular
  degree 0 the ratio of the degrees is a division by zero). Then
  \<^verbatim>\<open>B.enforce_g0g1(A, 1.0, eB, eA)\<close> returns, and at every parameter \<open>t\<close> along the boundary
  the first derivative of \<open>B\<close> across \<open>eB\<close> is exactly the first derivative of \<open>A\<close> across
  \<open>eA\<close> when one of the two edges is a near edge (South, West) and the other a far edge
  (North, East), and exactly its opposite when both are near or both are far. For a near
  and a far edge the arrays of \<^verbatim>\<open>get_first_derivs_along_edge\<close> are equal for every number
  of sample points.
\<close>

theorem bezier_g1_tangent:
  assumes "bz_inv A" and "bz_inv B"
    and "BezierSurface_get_parallel_degree B eB = BezierSurface_get_parallel_degree A eA"
    and "BezierSurface_get_perpendicular_degree B eB = BezierSurface_get_perpendicular_degree A eA"
    and "1 \<le> BezierSurface_get_perpendicular_degree B eB"
  shows "\<exists>B'. BezierSurface_enforce_g0g1 B A 1 eB eA = Inr B'
           \<and> (\<forall>t. \<exists>dA. first_deriv_perp A eA t = Inr dA
                  \<and> first_deriv_perp B' eB t
                       = Inr (if far_edge eB = far_edge eA then - dA else dA))
           \<and> (far_edge eB \<noteq> far_edge eA \<longrightarrow>
                (\<forall>n_points. BezierSurface_get_first_derivs_along_edge B' eB n_points
                    = BezierSurface_get_first_derivs_along_edge A eA n_points))"
proof -
  from bz_g1_derivative[OF assms]
  obtain B' where B': "BezierSurface_enforce_g0g1 B A 1 eB eA = Inr B'"
    "\<And>t. \<exists>dA. first_deriv_perp A eA t = Inr dA
        \<and> first_deriv_perp B' eB t = Inr ((- (edge_sign eB * edge_sign eA)) *\<^sub>R dA)"
    by blast
  have sgn: "- (edge_sign eB * edge_sign eA) = (if far_edge eB = far_edge eA then - 1 else 1)"
    by (simp add: edge_sign_def)
  have pt: "\<exists>dA. first_deriv_perp A eA t = Inr dA
        \<and> first_deriv_perp B' eB t = Inr (if far_edge eB = far_edge eA then - dA else dA)" for t
    using B'(2)[of t] unfolding sgn by auto
  have "BezierSurface_get_first_derivs_along_edge B' eB n_points
      = BezierSurface_get_first_derivs_along_edge A eA n_points"
    if "far_edge eB \<noteq> far_edge eA" for n_points
  proof -
    have "first_deriv_perp B' eB t = first_deriv_perp A eA t" for t
      using pt[of t] that by auto
    then have "first_deriv_perp B' eB = first_deriv_perp A eA" by (rule ext)
    then show ?thesis by (simp add: BezierSurface_get_first_derivs_along_edge_def)
  qed
  then show ?thesis using B'(1) pt by blast
qed

theorem bezier_g1_tangent_witness:
  "bz_inv square_patch \<and> bz_inv other_patch
   \<and> BezierSurface_get_parallel_degree other_patch West
        = BezierSurface_get_parallel_degree square_patch East
   \<and> BezierSurface_get_perpendicular_degree other_patch West
        = BezierSurface_get_perpendicular_degree square_patch East
   \<and> 1 \<le> BezierSurface_get_perpendicular_degree other_patch West
   \<and> (\<exists>B'. BezierSurface_enforce_g0g1 other_patch square_patch 1 West East = Inr B'
         \<and> first_deriv_perp square_patch East (1 / 2) = Inr (Vec3 1 0 0)
         \<and> first_deriv_perp B' West (1 / 2) = Inr (Vec3 1 0 0))"
proof -
  have d: "BezierSurface_get_parallel_degree other_patch West
        = BezierSurface_get_parallel_degree square_patch East"
    "BezierSurface_get_perpendicular_degree other_patch West
        = BezierSurface_get_perpendicular_degree square_patch East"
    "1 \<le> BezierSurface_get_perpendicular_degree other_patch West"
    by (simp_all add: patches_degrees)
  from bezier_g1_tangent[OF patches_inv d]
  obtain B' where B': "BezierSurface_enforce_g0g1 other_patch square_patch 1 West East = Inr B'"
    "\<And>t. \<exists>dA. first_deriv_perp square_patch East t = Inr dA
        \<and> first_deriv_perp B' West t = Inr (if far_edge West = far_edge East then - dA else dA)"
    by blast
  from B'(2)[of "1 / 2"] have "first_deriv_perp B' West (1 / 2) = Inr (Vec3 1 0 0)"
    by (simp add: square_patch_deriv_east far_edge_def)
  then show ?thesis
    using B'(1) patches_inv d square_patch_deriv_east[of "1 / 2"] by blast
qed

subsection \<open>Knot spans\<close>

lemma get_possible_spans_fold:
  "fold (\<lambda>(knot_idx, (knot_1, knot_2)) (possible_spans, possible_span_indices).
            if knot_1 = knot_2 then (possible_spans, possible_span_indices)
            else (possible_spans @ [(knot_1, knot_2)], possible_span_indices @ [knot_idx]))
        xs (S, I)
   = (S @ map snd (filter (\<lambda>(k, (a, b)). a \<noteq> b) xs),
      I @ map fst (filter (\<lambda>(k, (a, b)). a \<noteq> b) xs))"
  by (induction xs arbitrary: S I) (auto split: prod.splits)

lemma get_possible_spans_eq:
  "get_possible_spans kv = (map snd (span_list kv), map fst (span_list kv))"
  by (simp add: get_possible_spans_def get_possible_spans_fold span_list_def)

lemma in_span_list:
  "(k, ab) \<in> set (span_list kv)
     \<longleftrightarrow> k + 1 < length kv \<and> ab = (kv ! k, kv ! (k + 1)) \<and> kv ! k \<noteq> kv ! (k + 1)"
  by (auto simp: span_list_def in_set_enumerate_eq nth_butlast nth_tl)

lemma zip_snd_fst: "zip (map snd xs) (map fst xs) = map (\<lambda>(k, ab). (ab, k)) xs"
  by (induction xs) auto

lemma find_span_loop_Some:
  "find_span_loop t (map (\<lambda>(k, ab). (ab, k)) xs) = Some s
     \<Longrightarrow> \<exists>ab. (s, ab) \<in> set xs \<and> fst ab \<le> t \<and> t < snd ab"
proof (induction xs)
  case Nil
  then show ?case by simp
next
  case (Cons x xs)
  obtain k a b where x: "x = (k, (a, b))" by (cases x) auto
  show ?case
  proof (cases "a \<le> t \<and> t < b")
    case True
    then have "s = k" using Cons.prems by (simp add: x)
    then show ?thesis using True by (intro exI[of _ "(a, b)"]) (simp add: x)
  next
    case False
    then have "find_span_loop t (map (\<lambda>(k, ab). (ab, k)) xs) = Some s"
      using Cons.prems by (auto simp: x)
    from Cons.IH[OF this] show ?thesis by auto
  qed
qed

lemma find_span_loop_None:
  "find_span_loop t (map (\<lambda>(k, ab). (ab, k)) xs) = None
     \<Longrightarrow> (s, ab) \<in> set xs \<Longrightarrow> \<not> (fst ab \<le> t \<and> t < snd ab)"
  by (induction xs) (auto split: if_splits)

text \<open>Between two knots that bracket \<open>t\<close> there is a span that holds it.\<close>

lemma span_exists:
  fixes kv :: "real list"
  assumes "kv ! a \<le> t" "t < kv ! b"
  shows "a < b \<Longrightarrow> \<exists>k. a \<le> k \<and> k < b \<and> kv ! k \<le> t \<and> t < kv ! (k + 1)"
  using assms(2)
proof (induction b)
  case 0
  then show ?case by simp
next
  case (Suc b)
  show ?case
  proof (cases "kv ! b \<le> t")
    case True
    then show ?thesis using Suc.prems by (intro exI[of _ b]) auto
  next
    case False
    then have "a \<noteq> b" using assms(1) by auto
    then have "a < b" using Suc.prems(1) by simp
    from Suc.IH[OF this] False obtain k where "a \<le> k" "k < b" "kv ! k \<le> t" "t < kv ! (k + 1)"
      by auto
    then show ?thesis by (intro exI[of _ k]) auto
  qed
qed

lemma span_unique:
  fixes kv :: "real list"
  assumes "sorted kv" "k + 1 < length kv" "k' + 1 < length kv"
    and "kv ! k \<le> t" "t < kv ! (k + 1)" "kv ! k' \<le> t" "t < kv ! (k' + 1)"
  shows "k = k'"
proof (rule ccontr)
  assume "k \<noteq> k'"
  then consider "k + 1 \<le> k'" | "k' + 1 \<le> k" by linarith
  then show False
  proof cases
    case 1
    then have "kv ! (k + 1) \<le> kv ! k'" using assms(1,3) by (intro sorted_nth_mono) auto
    then show False using assms(5,6) by simp
  next
    case 2
    then have "kv ! (k' + 1) \<le> kv ! k" using assms(1,2) by (intro sorted_nth_mono) auto
    then show False using assms(4,7) by simp
  qed
qed

lemma find_span_interior:
  assumes "sorted kv" "k + 1 < length kv" "kv ! k \<le> t" "t < kv ! (k + 1)"
  shows "find_span t (fst (get_possible_spans kv)) (snd (get_possible_spans kv)) = Inr (Some k)"
proof -
  have mem: "(k, (kv ! k, kv ! (k + 1))) \<in> set (span_list kv)"
    using assms by (simp add: in_span_list)
  let ?L = "map (\<lambda>(k, ab). (ab, k)) (span_list kv)"
  have "find_span_loop t ?L \<noteq> None"
    using find_span_loop_None[of t "span_list kv" k "(kv ! k, kv ! (k + 1))"] mem assms(3,4)
    by auto
  then obtain s where s: "find_span_loop t ?L = Some s" by auto
  from find_span_loop_Some[OF this] obtain ab where
    "(s, ab) \<in> set (span_list kv)" "fst ab \<le> t" "t < snd ab" by blast
  then have "s + 1 < length kv" "kv ! s \<le> t" "t < kv ! (s + 1)"
    by (auto simp: in_span_list)
  then have "s = k" using span_unique[OF assms(1) _ assms(2) _ _ assms(3,4)] by blast
  then show ?thesis
    using s by (simp add: find_span_def get_possible_spans_eq zip_snd_fst)
qed

subsection \<open>The code computes the Cox-de Boor recursion\<close>

lemma zero_if_nonfinite_np_div: "zero_if_nonfinite (np_div a b) = a / b"
  by (simp add: zero_if_nonfinite_def np_div_def)

lemma cox_de_boor_degree_0:
  assumes "sorted kv" "i + 1 < length kv" "kv ! 0 \<le> t" "t < kv ! (length kv - 1)"
  shows "cox_de_boor t i 0 kv (fst (get_possible_spans kv)) (snd (get_possible_spans kv))
       = Inr (basis_value kv t i 0)"
proof -
  have "0 < length kv - 1" using assms(2) by simp
  from span_exists[OF assms(3,4) this]
  obtain k where k: "k < length kv - 1" "kv ! k \<le> t" "t < kv ! (k + 1)" by blast
  then have k1: "k + 1 < length kv" by simp
  note fs = find_span_interior[OF assms(1) k1 k(2,3)]
  have "i \<in> fst ` set (span_list kv) \<longleftrightarrow> (\<exists>ab. (i, ab) \<in> set (span_list kv))"
    by force
  then have idx: "i \<in> set (snd (get_possible_spans kv)) \<longleftrightarrow> kv ! i \<noteq> kv ! (i + 1)"
    using assms(2) by (simp add: get_possible_spans_eq in_span_list)
  show ?thesis
  proof (cases "kv ! i \<le> t \<and> t < kv ! (i + 1)")
    case True
    then have "k = i" using span_unique[OF assms(1) k1 assms(2) k(2,3)] by blast
    moreover have "kv ! i \<noteq> kv ! (i + 1)" using True by auto
    ultimately show ?thesis using True fs idx by simp
  next
    case False
    then have "k \<noteq> i" using k by auto
    then show ?thesis using False fs idx by simp
  qed
qed

lemma cox_de_boor_basis_value:
  assumes "sorted kv" "kv ! 0 \<le> t" "t < kv ! (length kv - 1)"
  shows "i + p + 1 < length kv \<Longrightarrow>
     cox_de_boor t i p kv (fst (get_possible_spans kv)) (snd (get_possible_spans kv))
       = Inr (basis_value kv t i p)"
proof (induction p arbitrary: i)
  case 0
  then show ?case using cox_de_boor_degree_0[OF assms(1) _ assms(2,3), of i] by simp
next
  case (Suc q)
  have a: "cox_de_boor t i q kv (fst (get_possible_spans kv)) (snd (get_possible_spans kv))
       = Inr (basis_value kv t i q)"
    using Suc.prems by (intro Suc.IH) simp
  have b: "cox_de_boor t (i + 1) q kv (fst (get_possible_spans kv)) (snd (get_possible_spans kv))
       = Inr (basis_value kv t (i + 1) q)"
    using Suc.prems by (intro Suc.IH) simp
  have len: "\<not> length kv \<le> i + Suc q + 1" using Suc.prems by simp
  show ?case
    unfolding cox_de_boor.simps
    by (simp only: len if_False Let_def zero_if_nonfinite_np_div a b sum.case basis_value.simps)
       auto
qed

subsection \<open>Partition of unity\<close>

lemma basis_value_support:
  assumes "sorted kv"
  shows "i + q + 1 < length kv \<Longrightarrow> basis_value kv t i q \<noteq> 0
           \<Longrightarrow> kv ! i \<le> t \<and> t < kv ! (i + q + 1)"
proof (induction q arbitrary: i)
  case 0
  then show ?case by (simp split: if_splits)
next
  case (Suc q)
  have "basis_value kv t i q \<noteq> 0 \<or> basis_value kv t (i + 1) q \<noteq> 0"
  proof (rule ccontr)
    assume "\<not> (basis_value kv t i q \<noteq> 0 \<or> basis_value kv t (i + 1) q \<noteq> 0)"
    then have "basis_value kv t i (Suc q) = 0" by simp
    then show False using Suc.prems(2) by simp
  qed
  then consider "basis_value kv t i q \<noteq> 0" | "basis_value kv t (i + 1) q \<noteq> 0"
    by blast
  then show ?case
  proof cases
    case 1
    then have "kv ! i \<le> t \<and> t < kv ! (i + q + 1)"
      using Suc.prems(1) by (intro Suc.IH) simp_all
    moreover have "kv ! (i + q + 1) \<le> kv ! (i + Suc q + 1)"
      using assms Suc.prems(1) by (intro sorted_nth_mono) simp_all
    ultimately show ?thesis by simp
  next
    case 2
    then have "kv ! (i + 1) \<le> t \<and> t < kv ! (i + 1 + q + 1)"
      using Suc.prems(1) by (intro Suc.IH) simp_all
    moreover have "kv ! i \<le> kv ! (i + 1)"
      using assms Suc.prems(1) by (intro sorted_nth_mono) simp_all
    ultimately show ?thesis by (simp add: add.commute add.left_commute)
  qed
qed

lemma basis_value_degree_0_sum:
  assumes "sorted kv" "n < length kv" "kv ! p \<le> t" "t < kv ! n" "p < length kv"
  shows "(\<Sum>i = p..<n. basis_value kv t i 0) = 1"
proof -
  have pn: "p < n"
  proof (rule ccontr)
    assume "\<not> p < n"
    then have "kv ! n \<le> kv ! p"
      using assms(1,5) by (intro sorted_nth_mono) simp_all
    then show False using assms(3,4) by simp
  qed
  from span_exists[OF assms(3,4) pn]
  obtain k where k: "p \<le> k" "k < n" "kv ! k \<le> t" "t < kv ! (k + 1)" by blast
  have "basis_value kv t i 0 = (if i = k then 1 else 0)" if "i \<in> {p..<n}" for i
  proof (cases "kv ! i \<le> t \<and> t < kv ! (i + 1)")
    case True
    have "i = k"
      using span_unique[OF assms(1), of i k t] True k that assms(2) by auto
    then show ?thesis using True by simp
  next
    case False
    then have "i \<noteq> k" using k by auto
    then show ?thesis using False by simp
  qed
  then have "(\<Sum>i = p..<n. basis_value kv t i 0) = (\<Sum>i = p..<n. if i = k then 1 else 0)"
    by (intro sum.cong refl)
  also have "\<dots> = 1" using k by simp
  finally show ?thesis .
qed

lemma basis_value_partition:
  assumes srt: "sorted kv" and len: "length kv = n + p + 1"
    and lo: "kv ! p \<le> t" and hi: "t < kv ! n"
  shows "q \<le> p \<Longrightarrow> (\<Sum>i = p - q..<n. basis_value kv t i q) = 1"
proof (induction q)
  case 0
  show ?case
    using basis_value_degree_0_sum[OF srt _ lo hi] len by simp
next
  case (Suc q)
  define a where "a = p - Suc q"
  have a: "Suc a = p - q" "a + q + 1 = p" using Suc.prems by (simp_all add: a_def)
  have pn: "p < n"
  proof (rule ccontr)
    assume "\<not> p < n"
    then have "kv ! n \<le> kv ! p" using srt len by (intro sorted_nth_mono) simp_all
    then show False using lo hi by simp
  qed
  have an: "a < n" using pn a by simp
  define F where "F i = (t - kv ! i) / (kv ! (i + Suc q) - kv ! i) * basis_value kv t i q" for i
  define G where "G j = (kv ! (j + Suc q) - t) / (kv ! (j + Suc q) - kv ! j) * basis_value kv t j q" for j
  have bv: "basis_value kv t i (Suc q) = F i + G (Suc i)" for i
    by (simp add: F_def G_def)
  have Fa: "F a = 0"
  proof -
    have "basis_value kv t a q = 0"
    proof (rule ccontr)
      assume "basis_value kv t a q \<noteq> 0"
      then have "t < kv ! (a + q + 1)"
        using basis_value_support[OF srt, of a q t] a len by simp
      then show False using lo a by simp
    qed
    then show ?thesis by (simp add: F_def)
  qed
  have Gn: "G n = 0"
  proof -
    have "basis_value kv t n q = 0"
    proof (rule ccontr)
      assume "basis_value kv t n q \<noteq> 0"
      then have "kv ! n \<le> t"
        using basis_value_support[OF srt, of n q t] Suc.prems len by simp
      then show False using hi by simp
    qed
    then show ?thesis by (simp add: G_def)
  qed
  have FG: "F j + G j = basis_value kv t j q" if "j \<in> {Suc a..<n}" for j
  proof (cases "kv ! (j + Suc q) = kv ! j")
    case True
    have "basis_value kv t j q = 0"
    proof (rule ccontr)
      assume "basis_value kv t j q \<noteq> 0"
      then have "kv ! j \<le> t \<and> t < kv ! (j + q + 1)"
        using basis_value_support[OF srt, of j q t] that Suc.prems len by simp
      then show False using True by simp
    qed
    then show ?thesis by (simp add: F_def G_def)
  next
    case False
    then have d: "kv ! (j + Suc q) - kv ! j \<noteq> 0" by simp
    have "F j + G j = ((t - kv ! j) + (kv ! (j + Suc q) - t)) / (kv ! (j + Suc q) - kv ! j)
        * basis_value kv t j q"
      unfolding F_def G_def by (simp only: add_divide_distrib ring_distribs)
    also have "\<dots> = basis_value kv t j q"
      using d by simp
    finally show ?thesis .
  qed
  have "(\<Sum>i = p - Suc q..<n. basis_value kv t i (Suc q))
      = (\<Sum>i = a..<n. F i) + (\<Sum>i = a..<n. G (Suc i))"
    by (simp only: bv sum.distrib flip: a_def)
  also have "(\<Sum>i = a..<n. G (Suc i)) = (\<Sum>i = Suc a..<Suc n. G i)"
    by (simp only: sum.shift_bounds_Suc_ivl)
  also have "\<dots> = (\<Sum>i = Suc a..<n. G i) + G n"
    using an by (simp add: sum.atLeastLessThan_Suc)
  also have "(\<Sum>i = a..<n. F i) = F a + (\<Sum>i = Suc a..<n. F i)"
    using an by (simp add: sum.atLeast_Suc_lessThan)
  finally have "(\<Sum>i = p - Suc q..<n. basis_value kv t i (Suc q))
      = (\<Sum>i = Suc a..<n. F i + G i)"
    by (simp add: Fa Gn sum.distrib)
  also have "\<dots> = (\<Sum>i = Suc a..<n. basis_value kv t i q)"
    by (intro sum.cong refl FG)
  also have "\<dots> = 1"
    using Suc.IH Suc.prems a(1) by simp
  finally show ?case .
qed

subsection \<open>Clamped knot vectors\<close>

lemma clamped_ends:
  assumes "clamped p kv" "length kv = n + p + 1"
  shows "kv ! p = hd kv" "kv ! n = last kv"
proof -
  have t: "take (p + 1) kv = replicate (p + 1) (hd kv)"
    and d: "drop n kv = replicate (p + 1) (last kv)"
    using assms by (simp_all add: clamped_def)
  have "kv ! p = take (p + 1) kv ! p" by simp
  also have "\<dots> = replicate (p + 1) (hd kv) ! p" by (simp only: t)
  also have "\<dots> = hd kv" by (rule nth_replicate) simp
  finally show "kv ! p = hd kv" .
  have "kv ! n = drop n kv ! 0" using assms(2) by simp
  also have "\<dots> = replicate (p + 1) (last kv) ! 0" by (simp only: d)
  also have "\<dots> = last kv" by (rule nth_replicate) simp
  finally show "kv ! n = last kv" .
qed

lemma collect_Inr: "collect (map (\<lambda>i. Inr (g i)) xs) = Inr (map g xs)"
  by (induction xs) simp_all

text \<open>
  Claim C7. For a non-decreasing knot vector of \<open>n + p + 1\<close> knots that is clamped for degree
  \<open>p\<close>, and a parameter \<open>t\<close> strictly between the first and the last knot,
  \<^verbatim>\<open>_basis_functions\<close> returns the \<open>n\<close> values of \<^verbatim>\<open>_cox_de_boor\<close> (no read is out of range) and
  they sum to 1, in exact arithmetic. This holds for every degree \<open>p\<close>, those from 1 to 5
  included. The spans and span indices are the ones the constructor computes from the
  knot vector.
\<close>

theorem cox_de_boor_partition_of_unity:
  assumes "sorted kv" and "length kv = n + p + 1" and "clamped p kv"
    and "hd kv < t" and "t < last kv"
  shows "\<exists>bs. basis_functions t p kv (int n)
                 (fst (get_possible_spans kv)) (snd (get_possible_spans kv)) = Inr bs
            \<and> length bs = n \<and> sum_list bs = 1"
proof -
  have ne: "kv \<noteq> []" using assms(2) by auto
  note ends = clamped_ends[OF assms(3,2)]
  have lo: "kv ! p \<le> t" and hi: "t < kv ! n" using assms(4,5) ends by simp_all
  have lo0: "kv ! 0 \<le> t" using assms(4) ne by (simp add: hd_conv_nth)
  have hi1: "t < kv ! (length kv - 1)" using assms(5) ne by (simp add: last_conv_nth)
  have "map (\<lambda>i. cox_de_boor t i p kv (fst (get_possible_spans kv)) (snd (get_possible_spans kv))) [0..<n]
      = map (\<lambda>i. Inr (basis_value kv t i p)) [0..<n]"
    using assms(2) by (intro map_cong refl cox_de_boor_basis_value[OF assms(1) lo0 hi1]) simp
  then have bf: "basis_functions t p kv (int n)
                 (fst (get_possible_spans kv)) (snd (get_possible_spans kv))
      = Inr (map (\<lambda>i. basis_value kv t i p) [0..<n])"
    unfolding basis_functions_def py_range_def by (simp only: nat_int collect_Inr)
  have "sum_list (map (\<lambda>i. basis_value kv t i p) [0..<n]) = (\<Sum>i = p - p..<n. basis_value kv t i p)"
    by (simp add: interv_sum_list_conv_sum_set_nat)
  also have "\<dots> = 1"
    by (rule basis_value_partition[OF assms(1,2) lo hi]) simp
  finally show ?thesis using bf by simp
qed

theorem cox_de_boor_partition_of_unity_witness:
  "sorted example_knots \<and> length example_knots = 4 + 2 + 1 \<and> clamped 2 example_knots
   \<and> hd example_knots < 1 / 4 \<and> 1 / 4 < last example_knots
   \<and> (\<exists>bs. basis_functions (1 / 4) 2 example_knots (int 4)
               (fst (get_possible_spans example_knots)) (snd (get_possible_spans example_knots))
             = Inr bs
          \<and> length bs = 4 \<and> sum_list bs = 1)"
proof -
  have h: "sorted example_knots" "length example_knots = 4 + 2 + 1" "clamped 2 example_knots"
    "hd example_knots < 1 / 4" "1 / 4 < last example_knots"
    by (simp_all add: example_knots_def clamped_def numeral_eq_Suc)
  from cox_de_boor_partition_of_unity[OF h] h show ?thesis by blast
qed

subsection \<open>Angle samples of the revolution builder\<close>

lemma py_float_mod_zero_iff:
  assumes "0 < b"
  shows "py_float_mod a b = 0 \<longleftrightarrow> (\<exists>k::int. a = of_int k * b)"
proof
  assume "py_float_mod a b = 0"
  then have "a = of_int \<lfloor>a / b\<rfloor> * b" by (simp add: py_float_mod_def mult.commute)
  then show "\<exists>k::int. a = of_int k * b" by blast
next
  assume "\<exists>k::int. a = of_int k * b"
  then obtain k :: int where "a = of_int k * b" by blast
  then show "py_float_mod a b = 0" using assms by (simp add: py_float_mod_def)
qed

lemma linspace_ends:
  assumes "2 \<le> num" "linspace start stop num = Inr xs"
  shows "length xs = nat num" "hd xs = start" "last xs = stop"
proof -
  let ?f = "\<lambda>k. start + real k * ((stop - start) / real_of_int (num - 1))"
  have xs: "xs = map ?f [0..<nat num]"
    using assms by (simp add: linspace_def split: if_splits)
  show "length xs = nat num" by (simp add: xs)
  have ne: "[0..<nat num] \<noteq> []" using assms(1) by simp
  show "hd xs = start" using assms(1) by (simp add: xs hd_map[OF ne])
  have "last xs = ?f (nat num - 1)"
    using ne by (simp add: xs last_map)
  also have "real (nat num - 1) = real_of_int (num - 1)" using assms(1) by simp
  finally show "last xs = stop" using assms(1) by simp
qed

text \<open>
  What claim C8 states holds of the rational builder: for distinct angles the count of
  samples is \<open>2 * floor (|d| / (pi / 2)) + 1\<close> if \<open>|d|\<close> is a multiple of \<open>pi / 2\<close> and
  \<open>2 * floor (|d| / (pi / 2)) + 3\<close> otherwise, it is odd, and the samples start at the start
  angle and end at the end angle; equal angles raise \<^verbatim>\<open>InvalidGeometryError\<close>.
\<close>

lemma rational_angle_distribution:
  fixes start_angle end_angle :: real
  defines "d \<equiv> \<bar>end_angle - start_angle\<bar>"
  shows "start_angle \<noteq> end_angle \<Longrightarrow>
           \<exists>angles. RationalBezierSurface_determine_angle_distribution start_angle end_angle = Inr angles
             \<and> int (length angles)
                  = 2 * \<lfloor>d / (pi / 2)\<rfloor> + (if \<exists>k::int. d = of_int k * (pi / 2) then 1 else 3)
             \<and> odd (length angles) \<and> 3 \<le> length angles
             \<and> hd angles = start_angle \<and> last angles = end_angle"
    and "start_angle = end_angle \<Longrightarrow>
           RationalBezierSurface_determine_angle_distribution start_angle end_angle
             = Inl InvalidGeometryError"
proof -
  show "RationalBezierSurface_determine_angle_distribution start_angle end_angle
             = Inl InvalidGeometryError" if "start_angle = end_angle"
    using that by (simp add: RationalBezierSurface_determine_angle_distribution_def)
  assume ne: "start_angle \<noteq> end_angle"
  then have dpos: "0 < d" by (simp add: d_def)
  let ?q = "\<lfloor>d / (pi / 2)\<rfloor>"
  let ?N = "2 * ?q + (if \<exists>k::int. d = of_int k * (pi / 2) then 1 else 3)"
  have q0: "0 \<le> ?q" using dpos by simp
  have q1: "1 \<le> ?q" if "\<exists>k::int. d = of_int k * (pi / 2)"
  proof -
    from that obtain k :: int where k: "d = of_int k * (pi / 2)" by blast
    have "0 < real_of_int k * (pi / 2)" using dpos k by simp
    then have "0 < real_of_int k" by (simp add: zero_less_mult_iff)
    then have "1 \<le> k" by simp
    moreover have "d / (pi / 2) = of_int k" using k by simp
    ultimately show ?thesis by simp
  qed
  have N3: "3 \<le> ?N" using q0 q1 by auto
  have half: "0.5 * pi = pi / 2" by simp
  have run: "RationalBezierSurface_determine_angle_distribution start_angle end_angle
      = linspace start_angle end_angle ?N"
    using dpos
    by (simp add: RationalBezierSurface_determine_angle_distribution_def Let_def
        py_float_floordiv_def py_float_mod_zero_iff flip: d_def)
  obtain angles where a: "linspace start_angle end_angle ?N = Inr angles"
    using N3 by (auto simp: linspace_def)
  have N2: "2 \<le> ?N" using N3 by linarith
  note e = linspace_ends[OF N2 a]
  have len: "int (length angles) = ?N" using e(1) N3 by simp
  have "odd ?N" by simp
  then have "odd (int (length angles))" using len by simp
  then have "odd (length angles)" by simp
  moreover have "3 \<le> length angles" using len N3 by linarith
  ultimately show "\<exists>angles. RationalBezierSurface_determine_angle_distribution start_angle end_angle = Inr angles
             \<and> int (length angles)
                  = 2 * \<lfloor>d / (pi / 2)\<rfloor> + (if \<exists>k::int. d = of_int k * (pi / 2) then 1 else 3)
             \<and> odd (length angles) \<and> 3 \<le> length angles
             \<and> hd angles = start_angle \<and> last angles = end_angle"
    using run a len e(2,3) by auto
qed

lemma floor_half_over_pi: "\<lfloor>(1 / 2) / (pi / 2)\<rfloor> = 0" "\<lfloor>(- (1 / 2)) / (pi / 2)\<rfloor> = - 1"
proof -
  have p: "2 \<le> pi" by (rule pi_ge_two)
  have a: "0 < 1 / pi" "1 / pi < 1" using p by (simp_all add: field_simps)
  have e: "(1 / 2) / (pi / 2) = 1 / pi" "(- (1 / 2)) / (pi / 2) = - (1 / pi)" by simp_all
  show "\<lfloor>(1 / 2) / (pi / 2)\<rfloor> = 0" unfolding e using a by (simp add: floor_eq_iff)
  have "- 1 \<le> - (1 / pi)" "- (1 / pi) < 0" using a by simp_all
  then show "\<lfloor>(- (1 / 2)) / (pi / 2)\<rfloor> = - 1" unfolding e by (simp add: floor_eq_iff)
qed

text \<open>
  Claim C8 at decreasing angles. From half a radian down to 0 the rational builder
  generates the three samples the claim states. The NURBS builder, whose angle difference
  is \<open>- 1 / 2\<close>, computes \<open>N_angles = 2 * (-1) + 3 = 1\<close> and generates the start angle alone;
  from a quarter turn down to 0 it computes \<open>N_angles = 2 * (-1) + 1 = -1\<close>, and
  \<^verbatim>\<open>np.linspace\<close> raises.
\<close>

theorem nurbs_angle_distribution_decreasing:
  "RationalBezierSurface_determine_angle_distribution (1 / 2) 0 = Inr [1 / 2, 1 / 4, 0]
   \<and> NURBSSurface_determine_angle_distribution (1 / 2) 0 = Inr [1 / 2]
   \<and> NURBSSurface_determine_angle_distribution (pi / 2) 0 = Inl ValueError"
proof -
  have p: "2 \<le> pi" by (rule pi_ge_two)
  have m1: "py_float_mod (1 / 2) (pi / 2) \<noteq> 0"
    unfolding py_float_mod_def floor_half_over_pi by simp
  have m2: "py_float_mod (- (1 / 2)) (pi / 2) \<noteq> 0"
    unfolding py_float_mod_def floor_half_over_pi using p by simp
  have m3: "py_float_mod (- (pi / 2)) (pi / 2) = 0" by (simp add: py_float_mod_def)
  have f1: "py_float_floordiv (1 / 2) (pi / 2) = 0" "py_float_floordiv (- (1 / 2)) (pi / 2) = - 1"
    unfolding py_float_floordiv_def by (rule floor_half_over_pi)+
  have f3: "py_float_floordiv (- (pi / 2)) (pi / 2) = - 1"
    by (simp add: py_float_floordiv_def floor_eq_iff)
  have h: "0.5 * pi = pi / 2" by simp
  have 1: "RationalBezierSurface_determine_angle_distribution (1 / 2) 0 = Inr [1 / 2, 1 / 4, 0]"
    unfolding RationalBezierSurface_determine_angle_distribution_def h
    using m1 by (simp add: f1 linspace_def numeral_3_eq_3)
  have 2: "NURBSSurface_determine_angle_distribution (1 / 2) 0 = Inr [1 / 2]"
    unfolding NURBSSurface_determine_angle_distribution_def h
    using m2 by (simp add: f1 linspace_def)
  have 3: "NURBSSurface_determine_angle_distribution (pi / 2) 0 = Inl ValueError"
    unfolding NURBSSurface_determine_angle_distribution_def h
    using m3 by (simp add: f3 linspace_def)
  from 1 2 3 show ?thesis by blast
qed

subsection \<open>Rows of the revolved grid\<close>

lemma collect_map_Inr:
  "(\<And>x. x \<in> set xs \<Longrightarrow> f x = Inr (g x)) \<Longrightarrow> collect (map f xs) = Inr (map g xs)"
  by (induction xs) simp_all

lemma collect_Inr_nth:
  "collect rs = Inr ys \<Longrightarrow> length ys = length rs \<and> (\<forall>i<length rs. rs ! i = Inr (ys ! i))"
proof (induction rs arbitrary: ys)
  case Nil
  then show ?case by simp
next
  case (Cons r rs)
  then obtain y ys' where r: "r = Inr y" and c: "collect rs = Inr ys'" and ys: "ys = y # ys'"
    by (cases r; cases "collect rs") auto
  from Cons.IH[OF c] have l: "length ys' = length rs"
    and n: "\<And>i. i < length rs \<Longrightarrow> rs ! i = Inr (ys' ! i)" by simp_all
  have "(r # rs) ! i = Inr (ys ! i)" if "i < length (r # rs)" for i
  proof (cases i)
    case 0
    then show ?thesis by (simp add: r ys)
  next
    case (Suc j)
    then show ?thesis using that n[of j] by (simp add: ys)
  qed
  then show ?case using l by (simp add: ys)
qed

lemma revolve_step:
  assumes odd: "odd (length angles)" and idx: "idx < length angles"
  shows "(if idx mod 2 = 0 then Inr (Finite rp, 1)
          else
            case py_index angles (int idx + 1) of
              Inl e \<Rightarrow> Inl e
            | Inr angle_next \<Rightarrow>
                (case py_index angles (int idx - 1) of
                   Inl e \<Rightarrow> Inl e
                 | Inr angle_prev \<Rightarrow>
                     let sine_half_angle = sin (0.5 * pi - 0.5 * (angle_next - angle_prev))
                     in Inr (if radius \<noteq> 0
                             then np_add (Finite ap)
                                    (np_scale (np_div radius sine_half_angle) (nv ap rp))
                             else Finite rp,
                             sine_half_angle)))
       = Inr (if even idx then (Finite rp, 1)
              else (if radius \<noteq> 0
                    then np_add (Finite ap)
                           (np_scale (np_div radius
                               (sin (0.5 * pi - 0.5 * (angles ! (idx + 1) - angles ! (idx - 1)))))
                              (nv ap rp))
                    else Finite rp,
                    sin (0.5 * pi - 0.5 * (angles ! (idx + 1) - angles ! (idx - 1)))))"
proof (cases "even idx")
  case True
  then have "idx mod 2 = 0" by presburger
  then show ?thesis using True by simp
next
  case False
  then have m: "idx mod 2 \<noteq> 0" by presburger
  have "idx \<noteq> length angles - 1" using False odd by auto
  then have nxt: "idx + 1 < length angles" using idx by simp
  have prv: "1 \<le> idx" using False by (cases idx) auto
  have "int idx + 1 = int (idx + 1)" by simp
  then have i1: "py_index angles (int idx + 1) = Inr (angles ! (idx + 1))"
    using py_index_nat[OF nxt] by (simp only:)
  have p: "idx - 1 < length angles" using idx by simp
  have "int idx - 1 = int (idx - 1)" using prv by simp
  then have i2: "py_index angles (int idx - 1) = Inr (angles ! (idx - 1))"
    using py_index_nat[OF p] by (simp only:)
  show ?thesis
    by (simp only: m False if_False i1 i2 sum.case Let_def)
qed

lemma revolve_point_rows:
  assumes "odd (length angles)"
  shows "revolve_point tools axis angles point
       = Inr (map (revolved_copy tools axis angles point) [0..<length angles])"
proof -
  define radius where "radius = measure_distance_point_line tools point axis"
  define ap where "ap = project_point_onto_line tools point axis"
  define rot where "rot idx = (if radius = 0 then point
       else rotate_point_about_axis tools point axis (angles ! idx))" for idx
  define new_points where "new_points = (if radius = 0 then map (\<lambda>_. point) angles
       else map (\<lambda>angle. rotate_point_about_axis tools point axis angle) angles)"
  define f where "f = (\<lambda>(idx, rotated_point).
        if idx mod 2 = 0 then Inr (Finite rotated_point, 1)
        else
          case py_index angles (int idx + 1) of
            Inl e \<Rightarrow> Inl e
          | Inr angle_next \<Rightarrow>
              (case py_index angles (int idx - 1) of
                 Inl e \<Rightarrow> Inl e
               | Inr angle_prev \<Rightarrow>
                   let sine_half_angle = sin (0.5 * pi - 0.5 * (angle_next - angle_prev))
                   in Inr (if radius \<noteq> 0
                           then np_add (Finite ap)
                                  (np_scale (np_div radius sine_half_angle)
                                     (normalized_value tools ap rotated_point))
                           else Finite rotated_point,
                           sine_half_angle)))"
  have len: "length new_points = length angles" by (simp add: new_points_def)
  have np: "new_points ! idx = rot idx" if "idx < length angles" for idx
    using that by (simp add: new_points_def rot_def)
  have rc: "revolved_copy tools axis angles point idx
      = (if even idx then (Finite (rot idx), 1)
         else (if radius \<noteq> 0
               then np_add (Finite ap)
                      (np_scale (np_div radius
                          (sin (0.5 * pi - 0.5 * (angles ! (idx + 1) - angles ! (idx - 1)))))
                         (normalized_value tools ap (rot idx)))
               else Finite (rot idx),
               sin (0.5 * pi - 0.5 * (angles ! (idx + 1) - angles ! (idx - 1)))))" for idx
    unfolding revolved_copy_def Let_def radius_def ap_def rot_def by (rule refl)
  have step: "f x = Inr (revolved_copy tools axis angles point (fst x))"
    if "x \<in> set (enumerate 0 new_points)" for x
  proof -
    obtain idx rp where x: "x = (idx, rp)" by (cases x)
    from that have idx: "idx < length angles" and rp: "rp = rot idx"
      unfolding x in_set_enumerate_eq using len np by auto
    have "f x = Inr (if even idx then (Finite rp, 1)
              else (if radius \<noteq> 0
                    then np_add (Finite ap)
                           (np_scale (np_div radius
                               (sin (0.5 * pi - 0.5 * (angles ! (idx + 1) - angles ! (idx - 1)))))
                              (normalized_value tools ap rp))
                    else Finite rp,
                    sin (0.5 * pi - 0.5 * (angles ! (idx + 1) - angles ! (idx - 1)))))"
      unfolding f_def x prod.case
      by (rule revolve_step[OF assms idx])
    then show ?thesis unfolding rc x fst_conv rp .
  qed
  have "revolve_point tools axis angles point = collect (map f (enumerate 0 new_points))"
    unfolding revolve_point_def Let_def f_def new_points_def radius_def ap_def by (rule refl)
  also have "\<dots> = Inr (map (\<lambda>x. revolved_copy tools axis angles point (fst x)) (enumerate 0 new_points))"
    by (rule collect_map_Inr) (rule step)
  also have "map (\<lambda>x. revolved_copy tools axis angles point (fst x)) (enumerate 0 new_points)
      = map (revolved_copy tools axis angles point) [0..<length angles]"
    by (rule nth_equalityI) (simp_all add: nth_enumerate_eq len)
  finally show ?thesis .
qed

subsection \<open>The revolved surface\<close>

lemma init_ndarray_fields:
  assumes "RationalBezierSurface_init_ndarray P W = Inr S"
  shows "rb_points S = P" "rb_weights S = W"
proof -
  from assms obtain row0 where r: "py_index P 0 = Inr row0"
    by (cases "py_index P 0") (simp_all add: RationalBezierSurface_init_ndarray_def RationalBezierSurface_init_dtype_def)
  have "S = \<lparr> rb_points = P, rb_weights = W, rb_weights_dtype = Float64,
      rb_knots_u = replicate (length P) 0 @ replicate (length P) 1,
      rb_knots_v = replicate (length row0) 0 @ replicate (length row0) 1,
      rb_degree_u = int (length P) - 1, rb_degree_v = int (length row0) - 1,
      rb_Nu = int (length P), rb_Nv = int (length row0) \<rparr>"
    using assms unfolding RationalBezierSurface_init_ndarray_def RationalBezierSurface_init_dtype_def r
    by (simp add: Let_def split: if_splits)
  then show "rb_points S = P" "rb_weights S = W" by simp_all
qed

lemma linspace_nth:
  assumes "linspace start stop num = Inr xs" "k < length xs"
  shows "xs ! k = start + real k * ((stop - start) / real_of_int (num - 1))"
  using assms by (auto simp: linspace_def split: if_splits)

text \<open>
  The samples of the rational builder are evenly spaced, and the spacing is at most an
  eighth of a turn: it is \<open>pi / 4\<close> when the angle difference is a multiple of \<open>pi / 2\<close>
  and less otherwise.
\<close>

lemma rational_angle_step:
  fixes start_angle end_angle :: real
  assumes "RationalBezierSurface_determine_angle_distribution start_angle end_angle = Inr angles"
  shows "\<exists>h. 0 < \<bar>h\<bar> \<and> \<bar>h\<bar> \<le> pi / 4
           \<and> (\<forall>k<length angles. angles ! k = start_angle + real k * h)"
proof -
  define d where "d = \<bar>end_angle - start_angle\<bar>"
  have ne: "start_angle \<noteq> end_angle"
    using assms rational_angle_distribution(2)[of start_angle end_angle] by auto
  then have dpos: "0 < d" by (simp add: d_def)
  let ?q = "\<lfloor>d / (pi / 2)\<rfloor>"
  define N where "N = 2 * ?q + (if \<exists>k::int. d = of_int k * (pi / 2) then 1 else 3)"
  have q0: "0 \<le> ?q" using dpos by simp
  have run: "RationalBezierSurface_determine_angle_distribution start_angle end_angle
      = linspace start_angle end_angle N"
    using dpos unfolding N_def
    by (simp add: RationalBezierSurface_determine_angle_distribution_def Let_def
        py_float_floordiv_def py_float_mod_zero_iff flip: d_def)
  define h where "h = (end_angle - start_angle) / real_of_int (N - 1)"
  have nth: "\<forall>k<length angles. angles ! k = start_angle + real k * h"
    using assms unfolding run h_def by (simp add: linspace_nth)
  have bound: "0 < real_of_int (N - 1) \<and> d / real_of_int (N - 1) \<le> pi / 4"
  proof (cases "\<exists>k::int. d = of_int k * (pi / 2)")
    case True
    then obtain k :: int where k: "d = of_int k * (pi / 2)" by blast
    have "0 < real_of_int k * (pi / 2)" using dpos k by simp
    then have kpos: "0 < real_of_int k" by (simp add: zero_less_mult_iff)
    have "d / (pi / 2) = of_int k" using k by simp
    then have "?q = k" by simp
    then have N: "real_of_int (N - 1) = 2 * real_of_int k" using True by (simp add: N_def)
    have "d / (2 * real_of_int k) = pi / 4" using kpos by (simp add: k)
    then have "d / real_of_int (N - 1) \<le> pi / 4" by (simp only: N)
    moreover have "0 < 2 * real_of_int k" using kpos by simp
    then have "0 < real_of_int (N - 1)" by (simp only: N)
    ultimately show ?thesis by blast
  next
    case False
    then have N: "real_of_int (N - 1) = 2 * (real_of_int ?q + 1)" by (simp add: N_def)
    define r where "r = real_of_int ?q + 1"
    have pos: "0 < r" using q0 unfolding r_def by linarith
    have "d / (pi / 2) < r" unfolding r_def by linarith
    then have "d / (pi / 2) * (pi / 2) < r * (pi / 2)"
      by (rule mult_strict_right_mono) simp
    then have "d < r * (pi / 2)" by simp
    then have "d / (2 * r) \<le> pi / 4" using pos by (simp add: field_simps)
    then have "d / real_of_int (N - 1) \<le> pi / 4" by (simp only: N r_def)
    moreover have "0 < 2 * r" using pos by simp
    then have "0 < real_of_int (N - 1)" by (simp only: N r_def)
    ultimately show ?thesis by blast
  qed
  have "\<bar>h\<bar> = d / real_of_int (N - 1)" using bound by (simp add: h_def d_def abs_mult)
  moreover have "0 < d / real_of_int (N - 1)" using bound dpos by simp
  ultimately have "0 < \<bar>h\<bar> \<and> \<bar>h\<bar> \<le> pi / 4" using bound by simp
  with nth show ?thesis by blast
qed

lemma revolve_weight_range:
  assumes "RationalBezierSurface_determine_angle_distribution start_angle end_angle = Inr angles"
    and "odd idx" "idx < length angles" "odd (length angles)"
  shows "0 \<le> sin (0.5 * pi - 0.5 * (angles ! (idx + 1) - angles ! (idx - 1)))"
    and "sin (0.5 * pi - 0.5 * (angles ! (idx + 1) - angles ! (idx - 1))) < 1"
proof -
  from rational_angle_step[OF assms(1)] obtain h where
    h: "0 < \<bar>h\<bar>" "\<bar>h\<bar> \<le> pi / 4"
    and nth: "\<forall>k<length angles. angles ! k = start_angle + real k * h" by blast
  have "even (idx + 1)" using assms(2) by simp
  then have "idx + 1 \<noteq> length angles" using assms(4) by metis
  then have up: "idx + 1 < length angles" using assms(3) by linarith
  have low: "idx - 1 < length angles" using assms(3) by linarith
  have pos: "1 \<le> idx" using assms(2) by (cases idx) simp_all
  have "angles ! (idx + 1) - angles ! (idx - 1) = real (idx + 1) * h - real (idx - 1) * h"
    using nth up low by simp
  also have "\<dots> = 2 * h" using pos by (simp add: of_nat_diff algebra_simps)
  finally have "sin (0.5 * pi - 0.5 * (angles ! (idx + 1) - angles ! (idx - 1))) = sin (pi / 2 - h)"
    by simp
  also have "\<dots> = cos h" by (simp add: sin_diff)
  also have "\<dots> = cos \<bar>h\<bar>" by simp
  finally have e: "sin (0.5 * pi - 0.5 * (angles ! (idx + 1) - angles ! (idx - 1))) = cos \<bar>h\<bar>" .
  have "\<bar>h\<bar> \<le> pi / 2" using h(2) pi_ge_two by linarith
  then have "0 \<le> cos \<bar>h\<bar>" by (intro cos_ge_zero) linarith+
  then show "0 \<le> sin (0.5 * pi - 0.5 * (angles ! (idx + 1) - angles ! (idx - 1)))"
    by (simp only: e)
  have "\<bar>h\<bar> \<le> pi" using h(2) pi_ge_two by linarith
  then have "cos \<bar>h\<bar> < cos 0" using h(1) by (intro cos_monotone_0_pi) simp_all
  then show "sin (0.5 * pi - 0.5 * (angles ! (idx + 1) - angles ! (idx - 1))) < 1"
    by (simp only: e cos_zero)
qed

lemma init_ndarray_returns:
  assumes "P \<noteq> []" "length W = length P"
    and "\<forall>row\<in>set P. length row = n" "\<forall>row\<in>set W. length row = n"
    and "\<not> has_negative_weight W"
  shows "\<exists>S. RationalBezierSurface_init_ndarray P W = Inr S"
proof -
  have W: "W \<noteq> []" using assms(1,2) by auto
  have r: "py_index P 0 = Inr (hd P)"
    using assms(1) by (simp add: py_index_def hd_conv_nth)
  have hP: "length (hd P) = n" using assms(1,3) by simp
  have hW: "length (hd W) = n" using W assms(4) by simp
  have rect: "rectangular W" using assms(4) hW by (simp add: rectangular_def list_all_iff)
  show ?thesis
    unfolding RationalBezierSurface_init_ndarray_def RationalBezierSurface_init_dtype_def r
    using W rect hP hW assms(2,5) by (simp add: Let_def ndim2_def shape0_def shape1_def)
qed

text \<open>
  Claim C9, as the code has it. For distinct angles and a profile with at least one control
  point, \<^verbatim>\<open>from_bezier_revolve\<close> returns a surface. In it the row of a profile point at
  distance 0 from the axis holds that point at every index. The weights of every row, of a
  point on the axis or off it, are 1 at the even indices and \<open>sin (pi / 2 - half angle)\<close> at
  the odd ones, the half angle being half the difference of the two neighbouring angle
  samples, and that weight is less than 1: the guard \<^verbatim>\<open>if radius != 0.0\<close> covers the
  repositioning of the copy only, not the weight.
\<close>

theorem revolve_weights_and_axis_points:
  assumes "start_angle \<noteq> end_angle" "pts \<noteq> []"
  shows "\<exists>S angles.
           RationalBezierSurface_from_bezier_revolve tools pts axis start_angle end_angle = Inr S
           \<and> RationalBezierSurface_determine_angle_distribution start_angle end_angle = Inr angles
           \<and> (\<forall>i < length pts. \<forall>idx < length angles.
                 rb_weights S ! i ! idx
                   = (if even idx then 1
                      else sin (0.5 * pi - 0.5 * (angles ! (idx + 1) - angles ! (idx - 1))))
               \<and> (odd idx \<longrightarrow> rb_weights S ! i ! idx < 1)
               \<and> (measure_distance_point_line tools (pts ! i) axis = 0 \<longrightarrow>
                     rb_points S ! i ! idx = Finite (pts ! i)))"
proof -
  from rational_angle_distribution(1)[OF assms(1)] obtain angles where
    a: "RationalBezierSurface_determine_angle_distribution start_angle end_angle = Inr angles"
    and odd: "odd (length angles)" by blast
  define P where "P = map (\<lambda>point. map (\<lambda>idx. fst (revolved_copy tools axis angles point idx))
                                          [0..<length angles]) pts"
  define W where "W = map (\<lambda>point. map (\<lambda>idx. snd (revolved_copy tools axis angles point idx))
                                          [0..<length angles]) pts"
  have rows: "collect (map (revolve_point tools axis angles) pts)
      = Inr (map (\<lambda>point. map (revolved_copy tools axis angles point) [0..<length angles]) pts)"
    by (rule collect_map_Inr) (rule revolve_point_rows[OF odd])
  have run: "RationalBezierSurface_from_bezier_revolve tools pts axis start_angle end_angle
      = RationalBezierSurface_init_ndarray P W"
    by (simp add: RationalBezierSurface_from_bezier_revolve_def a rows P_def W_def comp_def)
  have weight: "W ! i ! idx
      = (if even idx then 1
         else sin (0.5 * pi - 0.5 * (angles ! (idx + 1) - angles ! (idx - 1))))"
    if "i < length pts" "idx < length angles" for i idx
    using that unfolding W_def by (simp add: revolved_copy_def Let_def)
  have point: "P ! i ! idx = Finite (pts ! i)"
    if "i < length pts" "idx < length angles"
      "measure_distance_point_line tools (pts ! i) axis = 0" for i idx
    using that unfolding P_def by (simp add: revolved_copy_def Let_def)
  have nonneg: "0 \<le> w" if "row \<in> set W" "w \<in> set row" for row w
  proof -
    from that(1) obtain i where i: "i < length pts" "row = W ! i"
      unfolding W_def by (auto simp: in_set_conv_nth)
    have "length row = length angles" using i unfolding W_def by simp
    with that(2) obtain idx where idx: "idx < length angles" "w = row ! idx"
      by (auto simp: in_set_conv_nth)
    show ?thesis
    proof (cases "even idx")
      case True
      then show ?thesis using weight[OF i(1) idx(1)] i(2) idx(2) by simp
    next
      case False
      then show ?thesis
        using weight[OF i(1) idx(1)] i(2) idx(2) revolve_weight_range(1)[OF a False idx(1) odd]
        by simp
    qed
  qed
  then have "\<not> has_negative_weight W"
    by (fastforce simp: has_negative_weight_iff)
  moreover have "P \<noteq> []" "length W = length P" using assms(2) by (simp_all add: P_def W_def)
  moreover have "\<forall>row\<in>set P. length row = length angles" by (auto simp: P_def)
  moreover have "\<forall>row\<in>set W. length row = length angles" by (auto simp: W_def)
  ultimately obtain S where S: "RationalBezierSurface_init_ndarray P W = Inr S"
    using init_ndarray_returns[of P W "length angles"] by blast
  note f = init_ndarray_fields[OF S]
  have "rb_weights S ! i ! idx
          = (if even idx then 1
             else sin (0.5 * pi - 0.5 * (angles ! (idx + 1) - angles ! (idx - 1))))
      \<and> (odd idx \<longrightarrow> rb_weights S ! i ! idx < 1)
      \<and> (measure_distance_point_line tools (pts ! i) axis = 0 \<longrightarrow>
            rb_points S ! i ! idx = Finite (pts ! i))"
    if "i < length pts" "idx < length angles" for i idx
    using weight[OF that] point[OF that] revolve_weight_range(2)[OF a _ that(2) odd]
    unfolding f by simp
  then have "\<forall>i < length pts. \<forall>idx < length angles.
      rb_weights S ! i ! idx
          = (if even idx then 1
             else sin (0.5 * pi - 0.5 * (angles ! (idx + 1) - angles ! (idx - 1))))
      \<and> (odd idx \<longrightarrow> rb_weights S ! i ! idx < 1)
      \<and> (measure_distance_point_line tools (pts ! i) axis = 0 \<longrightarrow>
            rb_points S ! i ! idx = Finite (pts ! i))"
    by blast
  moreover have "RationalBezierSurface_from_bezier_revolve tools pts axis start_angle end_angle = Inr S"
    by (simp only: run S)
  ultimately show ?thesis using a by (intro exI conjI)
qed

lemma quarter_turn_angles:
  "RationalBezierSurface_determine_angle_distribution 0 (pi / 2) = Inr [0, pi / 4, pi / 2]"
proof -
  have h: "0.5 * pi = pi / 2" by simp
  have m: "py_float_mod (pi / 2) (pi / 2) = 0" by (simp add: py_float_mod_def)
  have f: "py_float_floordiv (pi / 2) (pi / 2) = 1" by (simp add: py_float_floordiv_def)
  show ?thesis
    unfolding RationalBezierSurface_determine_angle_distribution_def h
    using m by (simp add: f linspace_def numeral_3_eq_3)
qed

lemma quarter_turn_weight: "sin (0.5 * pi - 0.5 * (pi / 2 - 0)) = sqrt 2 / 2"
proof -
  have "0.5 * pi - 0.5 * (pi / 2 - 0) = pi / 4" by simp
  then show ?thesis by (simp only: sin_45)
qed

theorem revolve_weights_and_axis_points_witness:
  "\<exists>S. RationalBezierSurface_from_bezier_revolve z_axis_tools [Vec3 0 0 1, Vec3 1 0 0] () 0 (pi / 2)
          = Inr S
       \<and> rb_weights S ! 0 ! 1 = sqrt 2 / 2 \<and> rb_weights S ! 0 ! 1 < 1
       \<and> rb_weights S ! 1 ! 1 = sqrt 2 / 2 \<and> rb_weights S ! 1 ! 2 = 1
       \<and> rb_points S ! 0 ! 1 = Finite (Vec3 0 0 1)"
proof -
  have ne: "(0::real) \<noteq> pi / 2" "[Vec3 0 0 1, Vec3 1 0 0] \<noteq> []" by simp_all
  have r: "measure_distance_point_line z_axis_tools ([Vec3 0 0 1, Vec3 1 0 0] ! 0) () = 0"
    by (simp add: z_axis_tools_def)
  from revolve_weights_and_axis_points[OF ne, of z_axis_tools "()"] obtain S angles where
    S: "RationalBezierSurface_from_bezier_revolve z_axis_tools [Vec3 0 0 1, Vec3 1 0 0] () 0 (pi / 2)
          = Inr S"
    and a: "RationalBezierSurface_determine_angle_distribution 0 (pi / 2) = Inr angles"
    and all: "\<forall>i < length [Vec3 0 0 1, Vec3 1 0 0]. \<forall>idx < length angles.
                 rb_weights S ! i ! idx
                   = (if even idx then 1
                      else sin (0.5 * pi - 0.5 * (angles ! (idx + 1) - angles ! (idx - 1))))
               \<and> (odd idx \<longrightarrow> rb_weights S ! i ! idx < 1)
               \<and> (measure_distance_point_line z_axis_tools ([Vec3 0 0 1, Vec3 1 0 0] ! i) () = 0 \<longrightarrow>
                     rb_points S ! i ! idx = Finite ([Vec3 0 0 1, Vec3 1 0 0] ! i))"
    by blast
  have angles: "angles = [0, pi / 4, pi / 2]" using a by (simp add: quarter_turn_angles)
  define X where "X = sin (0.5 * pi - 0.5 * (angles ! (1 + 1) - angles ! (1 - 1)))"
  have w: "X = sqrt 2 / 2"
    unfolding X_def angles using quarter_turn_weight by simp
  have sel: "(if even (1::nat) then 1 else X) = X" "odd (1::nat)"
    "(if even (2::nat) then 1 else Y) = 1" for Y :: real
    by simp_all
  have 01: "(0::nat) < length [Vec3 0 0 1, Vec3 1 0 0]" "(1::nat) < length angles"
    and 12: "(1::nat) < length [Vec3 0 0 1, Vec3 1 0 0]" "(2::nat) < length angles"
    by (simp_all add: angles)
  from all 01 have
    "rb_weights S ! 0 ! 1 = (if even (1::nat) then 1 else X)
     \<and> (odd (1::nat) \<longrightarrow> rb_weights S ! 0 ! 1 < 1)
     \<and> (measure_distance_point_line z_axis_tools ([Vec3 0 0 1, Vec3 1 0 0] ! 0) () = 0 \<longrightarrow>
           rb_points S ! 0 ! 1 = Finite ([Vec3 0 0 1, Vec3 1 0 0] ! 0))"
    unfolding X_def by blast
  then have "rb_weights S ! 0 ! 1 = X" "rb_weights S ! 0 ! 1 < 1"
    "rb_points S ! 0 ! 1 = Finite ([Vec3 0 0 1, Vec3 1 0 0] ! 0)"
    using r sel(2) unfolding sel(1) by blast+
  then have 1: "rb_weights S ! 0 ! 1 = sqrt 2 / 2" "rb_weights S ! 0 ! 1 < 1"
    "rb_points S ! 0 ! 1 = Finite (Vec3 0 0 1)"
    unfolding w by simp_all
  from all 12(1) 01(2) have "rb_weights S ! 1 ! 1 = (if even (1::nat) then 1 else X)"
    unfolding X_def by blast
  then have "rb_weights S ! 1 ! 1 = X" unfolding sel(1) .
  then have 2: "rb_weights S ! 1 ! 1 = sqrt 2 / 2" unfolding w .
  from all 12 have "rb_weights S ! 1 ! 2 = (if even (2::nat) then 1
            else sin (0.5 * pi - 0.5 * (angles ! (2 + 1) - angles ! (2 - 1))))"
    by blast
  then have 3: "rb_weights S ! 1 ! 2 = 1" unfolding sel(3) .
  from S 1 2 3 show ?thesis by blast
qed

text \<open>
  Revolving the point \<open>(0, 0, 1)\<close> of the z axis about that axis by a quarter turn: its three
  copies are the point itself, and the middle one has weight \<open>sin (pi / 4)\<close>, not 1.
\<close>

theorem revolve_axis_point_weight_counterexample:
  "RationalBezierSurface_from_bezier_revolve z_axis_tools [Vec3 0 0 1] () 0 (pi / 2)
     = Inr on_axis_revolved
   \<and> measure_distance_point_line z_axis_tools (Vec3 0 0 1) () = 0
   \<and> rb_points on_axis_revolved ! 0 ! 1 = Finite (Vec3 0 0 1)
   \<and> rb_weights on_axis_revolved ! 0 ! 1 = sqrt 2 / 2
   \<and> rb_weights on_axis_revolved ! 0 ! 1 \<noteq> 1"
proof -
  have r: "measure_distance_point_line z_axis_tools (Vec3 0 0 1) () = 0"
    by (simp add: z_axis_tools_def)
  have row: "revolve_point z_axis_tools () [0, pi / 4, pi / 2] (Vec3 0 0 1)
      = Inr [(Finite (Vec3 0 0 1), 1), (Finite (Vec3 0 0 1), sqrt 2 / 2), (Finite (Vec3 0 0 1), 1)]"
    unfolding revolve_point_def r
    using quarter_turn_weight by (simp add: py_index_def)
  have neg: "\<not> has_negative_weight [[1, sqrt 2 / 2, 1]]"
    by (simp add: has_negative_weight_def)
  have 1: "RationalBezierSurface_from_bezier_revolve z_axis_tools [Vec3 0 0 1] () 0 (pi / 2)
     = Inr on_axis_revolved"
    unfolding RationalBezierSurface_from_bezier_revolve_def quarter_turn_angles
    using neg
    by (simp add: row RationalBezierSurface_init_ndarray_def RationalBezierSurface_init_dtype_def py_index_def ndim2_def rectangular_def
        shape0_def shape1_def on_axis_revolved_def numeral_3_eq_3)
  have "sqrt 2 / 2 \<noteq> (1::real)"
  proof
    assume "sqrt 2 / 2 = (1::real)"
    then have "sqrt 2 = 2" by simp
    then have "(sqrt 2)\<^sup>2 = 2\<^sup>2" by simp
    then show False by simp
  qed
  then have 2: "rb_weights on_axis_revolved ! 0 ! 1 \<noteq> 1"
    "rb_weights on_axis_revolved ! 0 ! 1 = sqrt 2 / 2"
    "rb_points on_axis_revolved ! 0 ! 1 = Finite (Vec3 0 0 1)"
    by (simp_all add: on_axis_revolved_def)
  from 1 r 2 show ?thesis by blast
qed

end
